theory Spec2Isabelle
  imports Main "HOL-Library.AList" "HOL-Library.Monad_Syntax" "HOL-Library.Word"
begin

section \<open>Go strings: the standard-library functions the worker calls\<close>

text \<open>
  A Go string is a sequence of bytes; \<^typ>\<open>string\<close> (a list of 8-bit characters) is
  that sequence. The functions of this section are the packages \<open>strings\<close>,
  \<open>unicode\<close>, \<open>unicode/utf8\<close> and \<open>fmt\<close> as the repository calls them; they
  are written from the behaviour Go documents for them.
\<close>

text \<open>\<open>strings.Contains(s, sub)\<close>: \<open>sub\<close> occurs in \<open>s\<close> as a contiguous run.\<close>

fun hasPrefix :: "string \<Rightarrow> string \<Rightarrow> bool" where
  "hasPrefix s [] = True"
| "hasPrefix [] (p # ps) = False"
| "hasPrefix (c # cs) (p # ps) = (c = p \<and> hasPrefix cs ps)"

fun Contains :: "string \<Rightarrow> string \<Rightarrow> bool" where
  "Contains [] sub = (sub = [])"
| "Contains (c # cs) sub = (hasPrefix (c # cs) sub \<or> Contains cs sub)"

text \<open>
  \<open>strings.Split(s, ",")\<close>: the pieces of \<open>s\<close> between commas, one more than there
  are commas; the empty string gives one empty piece.
\<close>

fun splitComma :: "string \<Rightarrow> string list" where
  "splitComma [] = [[]]"
| "splitComma (c # cs) =
     (if c = CHR '','' then [] # splitComma cs
      else (case splitComma cs of
              [] \<Rightarrow> [[c]]
            | p # ps \<Rightarrow> (c # p) # ps))"

text \<open>
  UTF-8 decoding as \<open>utf8.DecodeRuneInString\<close> does it: the code point and the
  width of the first rune; an ill-formed sequence is U+FFFD of width 1.
\<close>

definition RuneError :: nat where
  "RuneError = 0xFFFD"

definition leadInfo :: "nat \<Rightarrow> (nat \<times> nat \<times> nat) option" where
  "leadInfo b =
     (if 0xC2 \<le> b \<and> b \<le> 0xDF then Some (2, 0x80, 0xBF)
      else if b = 0xE0 then Some (3, 0xA0, 0xBF)
      else if 0xE1 \<le> b \<and> b \<le> 0xEC then Some (3, 0x80, 0xBF)
      else if b = 0xED then Some (3, 0x80, 0x9F)
      else if b = 0xEE \<or> b = 0xEF then Some (3, 0x80, 0xBF)
      else if b = 0xF0 then Some (4, 0x90, 0xBF)
      else if 0xF1 \<le> b \<and> b \<le> 0xF3 then Some (4, 0x80, 0xBF)
      else if b = 0xF4 then Some (4, 0x80, 0x8F)
      else None)"

definition isCont :: "nat \<Rightarrow> bool" where
  "isCont b = (0x80 \<le> b \<and> b \<le> 0xBF)"

definition DecodeRuneInString :: "string \<Rightarrow> nat \<times> nat" where
  "DecodeRuneInString s =
     (case map of_char s of
        [] \<Rightarrow> (RuneError, 0)
      | b0 # bs \<Rightarrow>
          if b0 < 0x80 then (b0, 1)
          else (case leadInfo b0 of
                  None \<Rightarrow> (RuneError, 1)
                | Some (sz, lo, hi) \<Rightarrow>
                    if length bs + 1 < sz then (RuneError, 1)
                    else let b1 = bs ! 0 in
                      if b1 < lo \<or> hi < b1 then (RuneError, 1)
                      else if sz \<le> 2 then ((b0 mod 32) * 64 + b1 mod 64, 2)
                      else let b2 = bs ! 1 in
                        if \<not> isCont b2 then (RuneError, 1)
                        else if sz \<le> 3
                          then ((b0 mod 16) * 4096 + (b1 mod 64) * 64 + b2 mod 64, 3)
                        else let b3 = bs ! 2 in
                          if \<not> isCont b3 then (RuneError, 1)
                          else ((b0 mod 8) * 262144 + (b1 mod 64) * 4096
                                  + (b2 mod 64) * 64 + b3 mod 64, 4)))"

lemma DecodeRuneInString_width:
  "s \<noteq> [] \<Longrightarrow> 1 \<le> snd (DecodeRuneInString s) \<and> snd (DecodeRuneInString s) \<le> 4"
  by (cases s) (auto simp: DecodeRuneInString_def Let_def split: option.splits)

text \<open>\<open>[]rune(s)\<close>: the runes of \<open>s\<close>, decoded one after the other.\<close>

function runes :: "string \<Rightarrow> nat list" where
  "runes s =
     (if s = [] then []
      else fst (DecodeRuneInString s) # runes (drop (snd (DecodeRuneInString s)) s))"
  by pat_completeness auto
termination
proof (relation "measure length")
  show "wf (measure length)" by simp
next
  fix s :: string
  assume "s \<noteq> []"
  with DecodeRuneInString_width [of s]
  show "(drop (snd (DecodeRuneInString s)) s, s) \<in> measure length"
    by (cases s) auto
qed

declare runes.simps [simp del]

text \<open>\<open>utf8.RuneCountInString(s)\<close>: the number of runes of \<open>s\<close>.\<close>

function RuneCountInString :: "string \<Rightarrow> nat" where
  "RuneCountInString s =
     (if s = [] then 0
      else Suc (RuneCountInString (drop (snd (DecodeRuneInString s)) s)))"
  by pat_completeness auto
termination
proof (relation "measure length")
  show "wf (measure length)" by simp
next
  fix s :: string
  assume "s \<noteq> []"
  with DecodeRuneInString_width [of s]
  show "(drop (snd (DecodeRuneInString s)) s, s) \<in> measure length"
    by (cases s) auto
qed

declare RuneCountInString.simps [simp del]

text \<open>
  \<open>unicode.IsSpace\<close>: the Latin-1 spaces and the code points with the White_Space
  property.
\<close>

definition IsSpace :: "nat \<Rightarrow> bool" where
  "IsSpace r =
     (r = 0x09 \<or> r = 0x0A \<or> r = 0x0B \<or> r = 0x0C \<or> r = 0x0D \<or> r = 0x20
      \<or> r = 0x85 \<or> r = 0xA0 \<or> r = 0x1680 \<or> (0x2000 \<le> r \<and> r \<le> 0x200A)
      \<or> r = 0x2028 \<or> r = 0x2029 \<or> r = 0x202F \<or> r = 0x205F \<or> r = 0x3000)"

text \<open>
  \<open>utf8.DecodeLastRuneInString\<close>: the last rune, found by going back at most four
  bytes to a byte that can start a rune.
\<close>

definition RuneStart :: "nat \<Rightarrow> bool" where
  "RuneStart b = (\<not> isCont b)"

definition lastRuneLen :: "string \<Rightarrow> nat" where
  "lastRuneLen s =
     (let n = length s;
          st = (\<lambda>k. k \<le> n \<and> RuneStart (of_char (s ! (n - k))))
      in if st 2 then 2 else if st 3 then 3 else if st 4 then 4
         else if 5 \<le> n then 5 else n)"

definition DecodeLastRuneInString :: "string \<Rightarrow> nat \<times> nat" where
  "DecodeLastRuneInString s =
     (if s = [] then (RuneError, 0)
      else let b = of_char (last s) in
        if b < 0x80 then (b, 1)
        else let k = lastRuneLen s;
                 d = DecodeRuneInString (drop (length s - k) s)
             in if snd d \<noteq> k then (RuneError, 1) else d)"

lemma lastRuneLen_pos: "s \<noteq> [] \<Longrightarrow> 1 \<le> lastRuneLen s"
  by (cases s) (auto simp: lastRuneLen_def Let_def)

lemma DecodeLastRuneInString_width:
  "s \<noteq> [] \<Longrightarrow> 1 \<le> snd (DecodeLastRuneInString s)"
  using lastRuneLen_pos [of s]
  by (auto simp: DecodeLastRuneInString_def Let_def)

text \<open>
  \<open>strings.TrimSpace(s)\<close>: \<open>s\<close> without its leading and trailing white space
  (\<open>TrimLeftFunc\<close> then \<open>TrimRightFunc\<close> with \<open>unicode.IsSpace\<close>).
\<close>

function trimLeft :: "string \<Rightarrow> string" where
  "trimLeft s =
     (if s = [] then []
      else if IsSpace (fst (DecodeRuneInString s))
        then trimLeft (drop (snd (DecodeRuneInString s)) s)
      else s)"
  by pat_completeness auto
termination
proof (relation "measure length")
  show "wf (measure length)" by simp
next
  fix s :: string
  assume "s \<noteq> []"
  with DecodeRuneInString_width [of s]
  show "(drop (snd (DecodeRuneInString s)) s, s) \<in> measure length"
    by (cases s) auto
qed

declare trimLeft.simps [simp del]

function trimRight :: "string \<Rightarrow> string" where
  "trimRight s =
     (if s = [] then []
      else if IsSpace (fst (DecodeLastRuneInString s))
        then trimRight (take (length s - snd (DecodeLastRuneInString s)) s)
      else s)"
  by pat_completeness auto
termination
proof (relation "measure length")
  show "wf (measure length)" by simp
next
  fix s :: string
  assume "s \<noteq> []"
  with DecodeLastRuneInString_width [of s]
  show "(take (length s - snd (DecodeLastRuneInString s)) s, s) \<in> measure length"
    by (cases s) auto
qed

declare trimRight.simps [simp del]

definition TrimSpace :: "string \<Rightarrow> string" where
  "TrimSpace s = trimRight (trimLeft s)"

text \<open>\<open>fmt.Sprintf("%d", n)\<close>: the decimal digits of \<open>n\<close>, after a minus sign when negative.\<close>

definition digitChar :: "nat \<Rightarrow> char" where
  "digitChar d = char_of (48 + d)"

fun digits10 :: "nat \<Rightarrow> string" where
  "digits10 n = (if n < 10 then [digitChar n] else digits10 (n div 10) @ [digitChar (n mod 10)])"

declare digits10.simps [simp del]

definition Sprintf_d :: "int \<Rightarrow> string" where
  "Sprintf_d i = (if i < 0 then CHR ''-'' # digits10 (nat (- i)) else digits10 (nat i))"

section \<open>The category tail-cleanup: \<open>extractCategories\<close>\<close>

definition extractCategories :: "string \<Rightarrow> string list" where
  "extractCategories commaValues =
     (if commaValues = [] then []
      else let values = splitComma commaValues;
               sanitized = map TrimSpace values
        in if length sanitized = 0 then []
           else let strLength = RuneCountInString commaValues;
                    elementCount = length sanitized
             in if elementCount > 1 then
                  let lastValue = sanitized ! (elementCount - 1);
                      lastLength = RuneCountInString lastValue;
                      shouldRemove =
                        (if strLength \<ge> 540 then True
                         else if lastLength < 4 \<and> elementCount > 2 then True
                         else let lastValueTrimmed = TrimSpace lastValue
                           in if length lastValueTrimmed > 0 then
                                let rs = runes lastValueTrimmed;
                                    lastChar = rs ! (length rs - 1)
                                in lastChar = 0x2F \<or> lastChar = 0x2D \<or> lastChar = 0x2C
                              else False)
                  in if shouldRemove then take (length sanitized - 1) sanitized
                     else sanitized
                else sanitized)"

section \<open>The geo cache key: \<open>buildGeoKey\<close>\<close>

definition buildGeoKey :: "int option \<Rightarrow> int option \<Rightarrow> int option \<Rightarrow> string" where
  "buildGeoKey regionID districtID cityID =
     (let regionStr = (case regionID of None \<Rightarrow> [] | Some n \<Rightarrow> Sprintf_d n);
          districtStr = (case districtID of None \<Rightarrow> [] | Some n \<Rightarrow> Sprintf_d n);
          cityStr = (case cityID of None \<Rightarrow> [] | Some n \<Rightarrow> Sprintf_d n)
      in regionStr @ '':'' @ districtStr @ '':'' @ cityStr)"


section \<open>The repository: data model\<close>

text \<open>The parsed CSV row (\<open>models.go\<close>).\<close>

record GisCompany =
  Name :: string
  Region :: string
  District :: string
  City :: string
  Email :: string
  Phone :: string
  Category :: string
  Subcategory :: string

text \<open>The import statistics (\<open>models.go\<close>, struct \<open>Summary\<close>).\<close>

record Summary =
  SummaryCompany :: int
  SummaryCategory :: int
  SummarySubcategory :: int
  SummaryRegion :: int
  SummaryDistrict :: int
  SummaryCity :: int
  SummaryErrors :: "string list"

subsection \<open>The Cyrillic words of the error messages, as UTF-8 bytes\<close>

text \<open>
  The messages the code formats are Russian; each word is the byte sequence of the
  source file, named by its transliteration.
\<close>

definition ru_oshibka :: string where \<comment> \<open>error\<close>
  "ru_oshibka = [CHR 0xD0, CHR 0xBE, CHR 0xD1, CHR 0x88, CHR 0xD0, CHR 0xB8, CHR 0xD0,
       CHR 0xB1, CHR 0xD0, CHR 0xBA, CHR 0xD0, CHR 0xB0]"

definition ru_nachala :: string where \<comment> \<open>of the start\<close>
  "ru_nachala = [CHR 0xD0, CHR 0xBD, CHR 0xD0, CHR 0xB0, CHR 0xD1, CHR 0x87, CHR 0xD0,
       CHR 0xB0, CHR 0xD0, CHR 0xBB, CHR 0xD0, CHR 0xB0]"

definition ru_tranzaktsii :: string where \<comment> \<open>of the transaction\<close>
  "ru_tranzaktsii = [CHR 0xD1, CHR 0x82, CHR 0xD1, CHR 0x80, CHR 0xD0, CHR 0xB0,
       CHR 0xD0, CHR 0xBD, CHR 0xD0, CHR 0xB7, CHR 0xD0, CHR 0xB0, CHR 0xD0, CHR 0xBA,
       CHR 0xD1, CHR 0x86, CHR 0xD0, CHR 0xB8, CHR 0xD0, CHR 0xB8]"

definition ru_dlya :: string where \<comment> \<open>for\<close>
  "ru_dlya = [CHR 0xD0, CHR 0xB4, CHR 0xD0, CHR 0xBB, CHR 0xD1, CHR 0x8F]"

definition ru_spravochnika :: string where \<comment> \<open>of the dictionary\<close>
  "ru_spravochnika = [CHR 0xD1, CHR 0x81, CHR 0xD0, CHR 0xBF, CHR 0xD1, CHR 0x80,
       CHR 0xD0, CHR 0xB0, CHR 0xD0, CHR 0xB2, CHR 0xD0, CHR 0xBE, CHR 0xD1, CHR 0x87,
       CHR 0xD0, CHR 0xBD, CHR 0xD0, CHR 0xB8, CHR 0xD0, CHR 0xBA, CHR 0xD0, CHR 0xB0]"

definition ru_spravochnikov :: string where \<comment> \<open>of the dictionaries\<close>
  "ru_spravochnikov = [CHR 0xD1, CHR 0x81, CHR 0xD0, CHR 0xBF, CHR 0xD1, CHR 0x80,
       CHR 0xD0, CHR 0xB0, CHR 0xD0, CHR 0xB2, CHR 0xD0, CHR 0xBE, CHR 0xD1, CHR 0x87,
       CHR 0xD0, CHR 0xBD, CHR 0xD0, CHR 0xB8, CHR 0xD0, CHR 0xBA, CHR 0xD0, CHR 0xBE,
       CHR 0xD0, CHR 0xB2]"

definition ru_kommita :: string where \<comment> \<open>of the commit\<close>
  "ru_kommita = [CHR 0xD0, CHR 0xBA, CHR 0xD0, CHR 0xBE, CHR 0xD0, CHR 0xBC, CHR 0xD0,
       CHR 0xBC, CHR 0xD0, CHR 0xB8, CHR 0xD1, CHR 0x82, CHR 0xD0, CHR 0xB0]"

definition ru_predzagruzki :: string where \<comment> \<open>of the preload\<close>
  "ru_predzagruzki = [CHR 0xD0, CHR 0xBF, CHR 0xD1, CHR 0x80, CHR 0xD0, CHR 0xB5,
       CHR 0xD0, CHR 0xB4, CHR 0xD0, CHR 0xB7, CHR 0xD0, CHR 0xB0, CHR 0xD0, CHR 0xB3,
       CHR 0xD1, CHR 0x80, CHR 0xD1, CHR 0x83, CHR 0xD0, CHR 0xB7, CHR 0xD0, CHR 0xBA,
       CHR 0xD0, CHR 0xB8]"

definition ru_posle :: string where \<comment> \<open>after\<close>
  "ru_posle = [CHR 0xD0, CHR 0xBF, CHR 0xD0, CHR 0xBE, CHR 0xD1, CHR 0x81, CHR 0xD0,
       CHR 0xBB, CHR 0xD0, CHR 0xB5]"

definition ru_popytok :: string where \<comment> \<open>attempts\<close>
  "ru_popytok = [CHR 0xD0, CHR 0xBF, CHR 0xD0, CHR 0xBE, CHR 0xD0, CHR 0xBF, CHR 0xD1,
       CHR 0x8B, CHR 0xD1, CHR 0x82, CHR 0xD0, CHR 0xBE, CHR 0xD0, CHR 0xBA]"

definition ru_pri :: string where \<comment> \<open>at\<close>
  "ru_pri = [CHR 0xD0, CHR 0xBF, CHR 0xD1, CHR 0x80, CHR 0xD0, CHR 0xB8]"

definition ru_vstavke :: string where \<comment> \<open>insertion\<close>
  "ru_vstavke = [CHR 0xD0, CHR 0xB2, CHR 0xD1, CHR 0x81, CHR 0xD1, CHR 0x82, CHR 0xD0,
       CHR 0xB0, CHR 0xD0, CHR 0xB2, CHR 0xD0, CHR 0xBA, CHR 0xD0, CHR 0xB5]"

definition ru_zagruzke :: string where \<comment> \<open>loading\<close>
  "ru_zagruzke = [CHR 0xD0, CHR 0xB7, CHR 0xD0, CHR 0xB0, CHR 0xD0, CHR 0xB3, CHR 0xD1,
       CHR 0x80, CHR 0xD1, CHR 0x83, CHR 0xD0, CHR 0xB7, CHR 0xD0, CHR 0xBA, CHR 0xD0,
       CHR 0xB5]"

definition ru_otklyucheniya :: string where \<comment> \<open>of disabling\<close>
  "ru_otklyucheniya = [CHR 0xD0, CHR 0xBE, CHR 0xD1, CHR 0x82, CHR 0xD0, CHR 0xBA,
       CHR 0xD0, CHR 0xBB, CHR 0xD1, CHR 0x8E, CHR 0xD1, CHR 0x87, CHR 0xD0, CHR 0xB5,
       CHR 0xD0, CHR 0xBD, CHR 0xD0, CHR 0xB8, CHR 0xD1, CHR 0x8F]"

definition ru_batch :: string where \<comment> \<open>batch\<close>
  "ru_batch = [CHR 0xD0, CHR 0xB1, CHR 0xD0, CHR 0xB0, CHR 0xD1, CHR 0x82, CHR 0xD1,
       CHR 0x87]"

definition ru_vstavki :: string where \<comment> \<open>of the insertion\<close>
  "ru_vstavki = [CHR 0xD0, CHR 0xB2, CHR 0xD1, CHR 0x81, CHR 0xD1, CHR 0x82, CHR 0xD0,
       CHR 0xB0, CHR 0xD0, CHR 0xB2, CHR 0xD0, CHR 0xBA, CHR 0xD0, CHR 0xB8]"

definition ru_kompaniy :: string where \<comment> \<open>of companies\<close>
  "ru_kompaniy = [CHR 0xD0, CHR 0xBA, CHR 0xD0, CHR 0xBE, CHR 0xD0, CHR 0xBC, CHR 0xD0,
       CHR 0xBF, CHR 0xD0, CHR 0xB0, CHR 0xD0, CHR 0xBD, CHR 0xD0, CHR 0xB8, CHR 0xD0,
       CHR 0xB9]"

definition ru_svyazey :: string where \<comment> \<open>of links\<close>
  "ru_svyazey = [CHR 0xD1, CHR 0x81, CHR 0xD0, CHR 0xB2, CHR 0xD1, CHR 0x8F, CHR 0xD0,
       CHR 0xB7, CHR 0xD0, CHR 0xB5, CHR 0xD0, CHR 0xB9]"

definition ru_sozdaniya :: string where \<comment> \<open>of creating\<close>
  "ru_sozdaniya = [CHR 0xD1, CHR 0x81, CHR 0xD0, CHR 0xBE, CHR 0xD0, CHR 0xB7, CHR 0xD0,
       CHR 0xB4, CHR 0xD0, CHR 0xB0, CHR 0xD0, CHR 0xBD, CHR 0xD0, CHR 0xB8, CHR 0xD1,
       CHR 0x8F]"

definition ru_vremennoy :: string where \<comment> \<open>temporary (gen.)\<close>
  "ru_vremennoy = [CHR 0xD0, CHR 0xB2, CHR 0xD1, CHR 0x80, CHR 0xD0, CHR 0xB5, CHR 0xD0,
       CHR 0xBC, CHR 0xD0, CHR 0xB5, CHR 0xD0, CHR 0xBD, CHR 0xD0, CHR 0xBD, CHR 0xD0,
       CHR 0xBE, CHR 0xD0, CHR 0xB9]"

definition ru_tablitsy :: string where \<comment> \<open>of the table\<close>
  "ru_tablitsy = [CHR 0xD1, CHR 0x82, CHR 0xD0, CHR 0xB0, CHR 0xD0, CHR 0xB1, CHR 0xD0,
       CHR 0xBB, CHR 0xD0, CHR 0xB8, CHR 0xD1, CHR 0x86, CHR 0xD1, CHR 0x8B]"

definition ru_vo :: string where \<comment> \<open>into\<close>
  "ru_vo = [CHR 0xD0, CHR 0xB2, CHR 0xD0, CHR 0xBE]"

definition ru_vremennuyu :: string where \<comment> \<open>temporary (acc.)\<close>
  "ru_vremennuyu = [CHR 0xD0, CHR 0xB2, CHR 0xD1, CHR 0x80, CHR 0xD0, CHR 0xB5, CHR 0xD0,
       CHR 0xBC, CHR 0xD0, CHR 0xB5, CHR 0xD0, CHR 0xBD, CHR 0xD0, CHR 0xBD, CHR 0xD1,
       CHR 0x83, CHR 0xD1, CHR 0x8E]"

definition ru_tablitsu :: string where \<comment> \<open>table (acc.)\<close>
  "ru_tablitsu = [CHR 0xD1, CHR 0x82, CHR 0xD0, CHR 0xB0, CHR 0xD0, CHR 0xB1, CHR 0xD0,
       CHR 0xBB, CHR 0xD0, CHR 0xB8, CHR 0xD1, CHR 0x86, CHR 0xD1, CHR 0x83]"

definition ru_Povtornaya :: string where \<comment> \<open>repeated\<close>
  "ru_Povtornaya = [CHR 0xD0, CHR 0x9F, CHR 0xD0, CHR 0xBE, CHR 0xD0, CHR 0xB2, CHR 0xD1,
       CHR 0x82, CHR 0xD0, CHR 0xBE, CHR 0xD1, CHR 0x80, CHR 0xD0, CHR 0xBD, CHR 0xD0,
       CHR 0xB0, CHR 0xD1, CHR 0x8F]"

definition ru_popytka :: string where \<comment> \<open>attempt\<close>
  "ru_popytka = [CHR 0xD0, CHR 0xBF, CHR 0xD0, CHR 0xBE, CHR 0xD0, CHR 0xBF, CHR 0xD1,
       CHR 0x8B, CHR 0xD1, CHR 0x82, CHR 0xD0, CHR 0xBA, CHR 0xD0, CHR 0xB0]"

definition ru_importa :: string where \<comment> \<open>of the import\<close>
  "ru_importa = [CHR 0xD0, CHR 0xB8, CHR 0xD0, CHR 0xBC, CHR 0xD0, CHR 0xBF, CHR 0xD0,
       CHR 0xBE, CHR 0xD1, CHR 0x80, CHR 0xD1, CHR 0x82, CHR 0xD0, CHR 0xB0]"

definition ru_prevyshen :: string where \<comment> \<open>exceeded\<close>
  "ru_prevyshen = [CHR 0xD0, CHR 0xBF, CHR 0xD1, CHR 0x80, CHR 0xD0, CHR 0xB5, CHR 0xD0,
       CHR 0xB2, CHR 0xD1, CHR 0x8B, CHR 0xD1, CHR 0x88, CHR 0xD0, CHR 0xB5, CHR 0xD0,
       CHR 0xBD]"

definition ru_limit :: string where \<comment> \<open>limit\<close>
  "ru_limit = [CHR 0xD0, CHR 0xBB, CHR 0xD0, CHR 0xB8, CHR 0xD0, CHR 0xBC, CHR 0xD0,
       CHR 0xB8, CHR 0xD1, CHR 0x82]"

definition ru_importe :: string where \<comment> \<open>import (prep.)\<close>
  "ru_importe = [CHR 0xD0, CHR 0xB8, CHR 0xD0, CHR 0xBC, CHR 0xD0, CHR 0xBF, CHR 0xD0,
       CHR 0xBE, CHR 0xD1, CHR 0x80, CHR 0xD1, CHR 0x82, CHR 0xD0, CHR 0xB5]"

definition ru_dekodirovaniya :: string where \<comment> \<open>of decoding\<close>
  "ru_dekodirovaniya = [CHR 0xD0, CHR 0xB4, CHR 0xD0, CHR 0xB5, CHR 0xD0, CHR 0xBA,
       CHR 0xD0, CHR 0xBE, CHR 0xD0, CHR 0xB4, CHR 0xD0, CHR 0xB8, CHR 0xD1, CHR 0x80,
       CHR 0xD0, CHR 0xBE, CHR 0xD0, CHR 0xB2, CHR 0xD0, CHR 0xB0, CHR 0xD0, CHR 0xBD,
       CHR 0xD0, CHR 0xB8, CHR 0xD1, CHR 0x8F]"

definition ru_zadachi :: string where \<comment> \<open>of the task\<close>
  "ru_zadachi = [CHR 0xD0, CHR 0xB7, CHR 0xD0, CHR 0xB0, CHR 0xD0, CHR 0xB4, CHR 0xD0,
       CHR 0xB0, CHR 0xD1, CHR 0x87, CHR 0xD0, CHR 0xB8]"

definition ru_fayl :: string where \<comment> \<open>file\<close>
  "ru_fayl = [CHR 0xD1, CHR 0x84, CHR 0xD0, CHR 0xB0, CHR 0xD0, CHR 0xB9, CHR 0xD0,
       CHR 0xBB]"

definition ru_ne :: string where \<comment> \<open>not\<close>
  "ru_ne = [CHR 0xD0, CHR 0xBD, CHR 0xD0, CHR 0xB5]"

definition ru_nayden :: string where \<comment> \<open>found\<close>
  "ru_nayden = [CHR 0xD0, CHR 0xBD, CHR 0xD0, CHR 0xB0, CHR 0xD0, CHR 0xB9, CHR 0xD0,
       CHR 0xB4, CHR 0xD0, CHR 0xB5, CHR 0xD0, CHR 0xBD]"

subsection \<open>The database behind \<open>r.db\<close>\<close>

text \<open>
  The database is outside the repository. Its tables are those of the schema: the
  name tables \<open>region\<close>, \<open>district\<close>, \<open>city\<close>, \<open>category\<close>, \<open>subcategory\<close>
  and \<open>company\<close> (rows \<open>(id, name)\<close>, names unique), \<open>geo\<close> (unique triples, a
  \<open>NULL\<close> slot equal to a \<open>NULL\<close> slot), and the three link tables (sets of pairs).
  Ids are given consecutively from 1. The statements are the ones the repository
  sends.
\<close>

type_synonym geoTriple = "int option \<times> int option \<times> int option"

record database =
  nameTable :: "string \<Rightarrow> (int \<times> string) list"
  geoTable :: "(int \<times> geoTriple) list"
  linkTable :: "string \<Rightarrow> (int \<times> int) list"
  tempGeo :: "geoTriple list"

datatype stmt =
    SetForeignKeyChecks bool
  | InsertIgnoreNames string "string list"
  | SelectNames string "string list"
  | InsertIgnoreGeo "geoTriple list"
  | CreateTempGeo
  | InsertTempGeo "geoTriple list"
  | SelectGeoJoin
  | InsertIgnoreLinks string "(int \<times> int) list"

definition emptyDatabase :: database where
  "emptyDatabase =
     \<lparr>nameTable = (\<lambda>t. []), geoTable = [], linkTable = (\<lambda>t. []), tempGeo = []\<rparr>"

fun insertIgnoreName :: "(int \<times> string) list \<Rightarrow> string \<Rightarrow> (int \<times> string) list" where
  "insertIgnoreName rows n =
     (if n \<in> snd ` set rows then rows else rows @ [(int (length rows) + 1, n)])"

fun insertIgnoreTriple :: "(int \<times> geoTriple) list \<Rightarrow> geoTriple \<Rightarrow> (int \<times> geoTriple) list" where
  "insertIgnoreTriple rows t =
     (if t \<in> snd ` set rows then rows else rows @ [(int (length rows) + 1, t)])"

fun insertIgnorePair :: "(int \<times> int) list \<Rightarrow> int \<times> int \<Rightarrow> (int \<times> int) list" where
  "insertIgnorePair rows p = (if p \<in> set rows then rows else rows @ [p])"

fun applyStmt :: "database \<Rightarrow> stmt \<Rightarrow> database" where
  "applyStmt d (SetForeignKeyChecks b) = d"
| "applyStmt d (InsertIgnoreNames t ns) =
     d\<lparr>nameTable := (nameTable d)(t := foldl insertIgnoreName (nameTable d t) ns)\<rparr>"
| "applyStmt d (SelectNames t ns) = d"
| "applyStmt d (InsertIgnoreGeo ts) = d\<lparr>geoTable := foldl insertIgnoreTriple (geoTable d) ts\<rparr>"
| "applyStmt d CreateTempGeo = d\<lparr>tempGeo := []\<rparr>"
| "applyStmt d (InsertTempGeo ts) = d\<lparr>tempGeo := tempGeo d @ ts\<rparr>"
| "applyStmt d SelectGeoJoin = d"
| "applyStmt d (InsertIgnoreLinks t ps) =
     d\<lparr>linkTable := (linkTable d)(t := foldl insertIgnorePair (linkTable d t) ps)\<rparr>"

definition selectNames :: "database \<Rightarrow> string \<Rightarrow> string list \<Rightarrow> (int \<times> string) list" where
  "selectNames d t ns = filter (\<lambda>row. snd row \<in> set ns) (nameTable d t)"

definition selectGeoJoin :: "database \<Rightarrow> (int \<times> geoTriple) list" where
  "selectGeoJoin d =
     concat (map (\<lambda>g. map (\<lambda>t. g) (filter (\<lambda>t. t = snd g) (tempGeo d))) (geoTable d))"

text \<open>
  What the environment decides at each database call: the call succeeds, or it fails
  with a message; a query can also succeed and then fail while its rows are read, at
  \<open>rows.Scan\<close> or at \<open>rows.Next\<close> (reported by \<open>rows.Err\<close>), after some rows.
\<close>

datatype fault = NoFault | Fail string | ScanFail nat string | NextFail nat string

datatype rowsEnd = RowsDone | ScanError string | IterError string

datatype txname = MainTx | DictTx string

datatype event =
    EvSleep nat
  | EvBegin txname
  | EvExec txname stmt
  | EvQuery txname stmt
  | EvCommit txname
  | EvRollback txname

subsection \<open>The repository\<close>

text \<open>
  \<open>sync.RWMutex\<close>: whether a writer holds it, and how many readers do. It is not
  reentrant: \<open>Lock\<close> on a held mutex and \<open>RLock\<close> on a write-held mutex wait for a
  release.
\<close>

record rwmutex =
  writer :: bool
  readers :: nat

definition unlocked :: rwmutex where
  "unlocked = \<lparr>writer = False, readers = 0\<rparr>"

text \<open>
  \<open>CompanyRepository\<close>. A Go map is an association list with one entry per key
  (\<open>map_of\<close> reads it, \<open>AList.update\<close> writes it, its length is \<open>len\<close>); a
  \<open>range\<close> over it goes in the order of the list, one of the orders Go may choose.
  The fields after \<open>mu\<close> are the world the repository acts on: the committed database
  and the statements pending in each open transaction, the faults and the random
  numbers still to come, and the log of what was done.
\<close>

record CompanyRepository =
  region :: "(string \<times> int) list"
  district :: "(string \<times> int) list"
  city :: "(string \<times> int) list"
  category :: "(string \<times> int) list"
  subcategory :: "(string \<times> int) list"
  company :: "(string \<times> int) list"
  geoCache :: "(string \<times> int) list"
  companyGeos :: "(int \<times> int list) list"
  companyCategories :: "(int \<times> (string \<times> int list) list) list"
  companyCount :: int
  errors :: "string list"
  mu :: rwmutex
  db :: database
  pending :: "txname \<Rightarrow> stmt list"
  faults :: "fault list"
  rnd :: "nat list"
  trace :: "event list"

definition NewCompanyRepository :: "database \<Rightarrow> CompanyRepository" where
  "NewCompanyRepository d =
     \<lparr>region = [], district = [], city = [], category = [], subcategory = [],
      company = [], geoCache = [], companyGeos = [], companyCategories = [],
      companyCount = 0, errors = [], mu = unlocked,
      db = d, pending = (\<lambda>t. []), faults = [], rnd = [], trace = []\<rparr>"

definition pivotBatchSize :: nat where
  "pivotBatchSize = 5000"

subsection \<open>Time, randomness and the database calls\<close>

definition Sleep :: "nat \<Rightarrow> CompanyRepository \<Rightarrow> CompanyRepository" where
  \<comment> \<open>\<open>time.Sleep\<close>, in milliseconds\<close>
  "Sleep ms r = r\<lparr>trace := trace r @ [EvSleep ms]\<rparr>"

definition Intn :: "nat \<Rightarrow> CompanyRepository \<Rightarrow> nat \<times> CompanyRepository" where
  \<comment> \<open>\<open>rand.Intn(n)\<close>\<close>
  "Intn n r = (case rnd r of [] \<Rightarrow> (0, r) | x # xs \<Rightarrow> (x mod n, r\<lparr>rnd := xs\<rparr>))"

definition nextFault :: "CompanyRepository \<Rightarrow> fault \<times> CompanyRepository" where
  "nextFault r = (case faults r of [] \<Rightarrow> (NoFault, r) | f # fs \<Rightarrow> (f, r\<lparr>faults := fs\<rparr>))"

definition failure :: "fault \<Rightarrow> string option" where
  "failure f = (case f of Fail e \<Rightarrow> Some e | _ \<Rightarrow> None)"

definition dbBegin :: "txname \<Rightarrow> CompanyRepository \<Rightarrow> string option \<times> CompanyRepository" where
  "dbBegin tx r =
     (let (f, r1) = nextFault r in
        case failure f of
          Some e \<Rightarrow> (Some e, r1)
        | None \<Rightarrow> (None, r1\<lparr>pending := (pending r1)(tx := []), trace := trace r1 @ [EvBegin tx]\<rparr>))"

definition txView :: "txname \<Rightarrow> CompanyRepository \<Rightarrow> database" where
  "txView tx r = foldl applyStmt (db r) (pending r tx)"

definition txExec :: "txname \<Rightarrow> stmt \<Rightarrow> CompanyRepository \<Rightarrow> string option \<times> CompanyRepository" where
  "txExec tx s r =
     (let (f, r1) = nextFault r in
        case failure f of
          Some e \<Rightarrow> (Some e, r1)
        | None \<Rightarrow> (None, r1\<lparr>pending := (pending r1)(tx := pending r1 tx @ [s]),
                              trace := trace r1 @ [EvExec tx s]\<rparr>))"

definition deliver :: "fault \<Rightarrow> 'a list \<Rightarrow> 'a list \<times> rowsEnd" where
  "deliver f rows =
     (case f of
        ScanFail k e \<Rightarrow> (if k < length rows then (take k rows, ScanError e) else (rows, RowsDone))
      | NextFail k e \<Rightarrow> (take k rows, IterError e)
      | _ \<Rightarrow> (rows, RowsDone))"

definition txQueryNames ::
  "txname \<Rightarrow> string \<Rightarrow> string list \<Rightarrow> CompanyRepository
     \<Rightarrow> (string + (int \<times> string) list \<times> rowsEnd) \<times> CompanyRepository" where
  "txQueryNames tx t ns r =
     (let (f, r1) = nextFault r in
        case failure f of
          Some e \<Rightarrow> (Inl e, r1)
        | None \<Rightarrow> (Inr (deliver f (selectNames (txView tx r1) t ns)),
                    r1\<lparr>trace := trace r1 @ [EvQuery tx (SelectNames t ns)]\<rparr>))"

definition txQueryGeo ::
  "txname \<Rightarrow> CompanyRepository
     \<Rightarrow> (string + (int \<times> geoTriple) list \<times> rowsEnd) \<times> CompanyRepository" where
  "txQueryGeo tx r =
     (let (f, r1) = nextFault r in
        case failure f of
          Some e \<Rightarrow> (Inl e, r1)
        | None \<Rightarrow> (Inr (deliver f (selectGeoJoin (txView tx r1))),
                    r1\<lparr>trace := trace r1 @ [EvQuery tx SelectGeoJoin]\<rparr>))"

definition txCommit :: "txname \<Rightarrow> CompanyRepository \<Rightarrow> string option \<times> CompanyRepository" where
  "txCommit tx r =
     (let (f, r1) = nextFault r in
        case failure f of
          Some e \<Rightarrow> (Some e, r1)
        | None \<Rightarrow> (None, r1\<lparr>db := (txView tx r1)\<lparr>tempGeo := []\<rparr>,
                              pending := (pending r1)(tx := []),
                              trace := trace r1 @ [EvCommit tx]\<rparr>))"

definition txRollback :: "txname \<Rightarrow> CompanyRepository \<Rightarrow> CompanyRepository" where
  \<comment> \<open>the code ignores what \<open>Rollback\<close> returns\<close>
  "txRollback tx r = r\<lparr>pending := (pending r)(tx := []), trace := trace r @ [EvRollback tx]\<rparr>"

subsection \<open>The mutex\<close>

text \<open>
  A call that never returns is \<open>None\<close>: the goroutine waits for a mutex that only it
  could release (or the runtime stops the program at an unlock of a free mutex).
\<close>

definition Lock :: "CompanyRepository \<Rightarrow> CompanyRepository option" where
  "Lock r =
     (if \<not> writer (mu r) \<and> readers (mu r) = 0 then Some (r\<lparr>mu := (mu r)\<lparr>writer := True\<rparr>\<rparr>)
      else None)"

definition Unlock :: "CompanyRepository \<Rightarrow> CompanyRepository option" where
  "Unlock r = (if writer (mu r) then Some (r\<lparr>mu := (mu r)\<lparr>writer := False\<rparr>\<rparr>) else None)"

definition RLock :: "CompanyRepository \<Rightarrow> CompanyRepository option" where
  "RLock r =
     (if \<not> writer (mu r) then Some (r\<lparr>mu := (mu r)\<lparr>readers := readers (mu r) + 1\<rparr>\<rparr>)
      else None)"

definition RUnlock :: "CompanyRepository \<Rightarrow> CompanyRepository option" where
  "RUnlock r =
     (if 0 < readers (mu r) then Some (r\<lparr>mu := (mu r)\<lparr>readers := readers (mu r) - 1\<rparr>\<rparr>)
      else None)"

definition addError :: "string \<Rightarrow> CompanyRepository \<Rightarrow> CompanyRepository option" where
  "addError err r = do {
     r1 \<leftarrow> Lock r;
     Unlock (r1\<lparr>errors := errors r1 @ [err]\<rparr>)
   }"

section \<open>The repository: helpers and the link collectors\<close>

function chunked :: "nat \<Rightarrow> 'a list \<Rightarrow> 'a list list" where
  "chunked n xs = (if n = 0 \<or> xs = [] then [] else take n xs # chunked n (drop n xs))"
  by pat_completeness auto
termination
  by (relation "measure (\<lambda>(n, xs). length xs)") auto

declare chunked.simps [simp del]

definition getIDFromCache :: "(string \<times> int) list \<Rightarrow> string \<Rightarrow> int option" where
  "getIDFromCache cache key = (if key = [] then None else map_of cache key)"

definition nullIntToPtr :: "int option \<Rightarrow> int option" where
  "nullIntToPtr n = (case n of Some v \<Rightarrow> Some v | None \<Rightarrow> None)"

definition uniqueInts :: "int list \<Rightarrow> int list" where
  \<comment> \<open>\<open>seen[v]\<close> holds exactly for the members of \<open>result\<close>\<close>
  "uniqueInts ints =
     foldl (\<lambda>result v. if v \<in> set result then result else result @ [v]) [] ints"

definition getCacheForTable :: "string \<Rightarrow> CompanyRepository \<Rightarrow> (string \<times> int) list" where
  "getCacheForTable table r =
     (if table = ''region'' then region r
      else if table = ''district'' then district r
      else if table = ''city'' then city r
      else if table = ''category'' then category r
      else if table = ''subcategory'' then subcategory r
      else [])"

definition deadlockIndicator :: "string \<Rightarrow> bool" where
  "deadlockIndicator errStr =
     (Contains errStr ''Deadlock'' \<or> Contains errStr ''deadlock''
      \<or> Contains errStr ''Error 1213'')"

definition retryDelay :: "nat \<Rightarrow> nat" where
  \<comment> \<open>\<open>time.Duration(attempt*attempt) * 500 * time.Millisecond\<close>, at least 500 ms\<close>
  "retryDelay attempt =
     (let delay = attempt * attempt * 500 in if delay < 500 then 500 else delay)"

definition getGeoID :: "GisCompany \<Rightarrow> CompanyRepository \<Rightarrow> (int \<times> CompanyRepository) option" where
  "getGeoID rec r = do {
     r1 \<leftarrow> RLock r;
     let regionID = getIDFromCache (region r1) (Region rec);
     let districtID = getIDFromCache (district r1) (District rec);
     let cityID = getIDFromCache (city r1) (City rec);
     r2 \<leftarrow> RUnlock r1;
     if regionID = None \<and> districtID = None \<and> cityID = None then Some (0, r2)
     else Some (case map_of (geoCache r1) (buildGeoKey regionID districtID cityID) of
                  None \<Rightarrow> 0 | Some i \<Rightarrow> i, r2)
   }"

definition lookupIDs :: "(string \<times> int) list \<Rightarrow> string list \<Rightarrow> int list" where
  "lookupIDs cache names =
     foldl (\<lambda>ids name.
              if name \<noteq> [] then (case map_of cache name of Some i \<Rightarrow> ids @ [i] | None \<Rightarrow> ids)
              else ids) [] names"

definition getCategoryIDs ::
  "GisCompany \<Rightarrow> CompanyRepository \<Rightarrow> ((int list \<times> int list) \<times> CompanyRepository) option" where
  "getCategoryIDs rec r = do {
     r1 \<leftarrow> RLock r;
     let categoryIDs = lookupIDs (category r1) (extractCategories (Category rec));
     let subcategoryIDs = lookupIDs (subcategory r1) (extractCategories (Subcategory rec));
     r2 \<leftarrow> RUnlock r1;
     Some ((categoryIDs, subcategoryIDs), r2)
   }"

definition collectCompanyGeos ::
  "int \<Rightarrow> int \<Rightarrow> CompanyRepository \<Rightarrow> CompanyRepository option" where
  "collectCompanyGeos companyID geoID r = do {
     r1 \<leftarrow> Lock r;
     let geos1 = (if map_of (companyGeos r1) companyID = None
                  then AList.update companyID [] (companyGeos r1) else companyGeos r1);
     let existing = (case map_of geos1 companyID of Some g \<Rightarrow> g | None \<Rightarrow> []);
     if geoID \<in> set existing then Unlock (r1\<lparr>companyGeos := geos1\<rparr>)
     else Unlock (r1\<lparr>companyGeos := AList.update companyID (existing @ [geoID]) geos1\<rparr>)
   }"

definition sliceAt :: "(string \<times> int list) list \<Rightarrow> string \<Rightarrow> int list" where
  "sliceAt types k = (case map_of types k of Some ids \<Rightarrow> ids | None \<Rightarrow> [])"

definition collectCompanyCategories ::
  "int \<Rightarrow> int list \<Rightarrow> int list \<Rightarrow> CompanyRepository \<Rightarrow> CompanyRepository option" where
  "collectCompanyCategories companyID categoryIDs subcategoryIDs r = do {
     r1 \<leftarrow> Lock r;
     let cc1 = (if map_of (companyCategories r1) companyID = None
                then AList.update companyID [] (companyCategories r1)
                else companyCategories r1);
     let types1 = (case map_of cc1 companyID of Some m \<Rightarrow> m | None \<Rightarrow> []);
     let types2 = (if map_of types1 ''category'' = None
                   then AList.update ''category'' [] types1 else types1);
     let types3 = AList.update ''category''
                    (uniqueInts (sliceAt types2 ''category'' @ categoryIDs)) types2;
     let types4 = (if map_of types3 ''subcategory'' = None
                   then AList.update ''subcategory'' [] types3 else types3);
     let types5 = AList.update ''subcategory''
                    (uniqueInts (sliceAt types4 ''subcategory'' @ subcategoryIDs)) types4;
     Unlock (r1\<lparr>companyCategories := AList.update companyID types5 cc1\<rparr>)
   }"

definition GetSummary :: "CompanyRepository \<Rightarrow> (Summary \<times> CompanyRepository) option" where
  "GetSummary r = do {
     r1 \<leftarrow> RLock r;
     r2 \<leftarrow> RUnlock r1;
     Some (\<lparr>SummaryCompany = companyCount r1,
            SummaryCategory = int (length (companyCategories r1)),
            SummarySubcategory = int (length (subcategory r1)),
            SummaryRegion = int (length (region r1)),
            SummaryDistrict = int (length (district r1)),
            SummaryCity = int (length (city r1)),
            SummaryErrors = errors r1\<rparr>, r2)
   }"

section \<open>The repository: the messages\<close>

text \<open>
  Each function is one \<open>fmt.Sprintf\<close> or \<open>fmt.Errorf\<close> format of the code, with
  \<open>%s\<close>, \<open>%d\<close>, \<open>%v\<close> and \<open>%w\<close> filled in; an error is the text \<open>Error()\<close>
  returns for it.
\<close>

definition sp :: "string list \<Rightarrow> string" where
  \<comment> \<open>the words, one space between two\<close>
  "sp ws = (case ws of [] \<Rightarrow> [] | w # rest \<Rightarrow> foldl (\<lambda>s x. s @ '' '' @ x) w rest)"

definition msgRetryNotice :: "nat \<Rightarrow> nat \<Rightarrow> string" where
  "msgRetryNotice n m =
     sp [ru_Povtornaya, ru_popytka, ru_importa, ''('' @ ru_popytka,
         Sprintf_d (int n) @ ''/'' @ Sprintf_d (int m) @ '')'']"

definition msgRetryLimit :: "string \<Rightarrow> string" where
  "msgRetryLimit e = sp [ru_prevyshen, ru_limit, ru_popytok, ru_pri, ru_importe] @ '': '' @ e"

definition msgBeginTx :: "string \<Rightarrow> string" where
  "msgBeginTx e = sp [ru_oshibka, ru_nachala, ru_tranzaktsii] @ '': '' @ e"

definition msgPreload :: "string \<Rightarrow> string" where
  "msgPreload e = sp [ru_oshibka, ru_predzagruzki, ru_spravochnikov] @ '': '' @ e"

definition msgDisableFK :: "string \<Rightarrow> string" where
  "msgDisableFK e = sp [ru_oshibka, ru_otklyucheniya, ''FK''] @ '': '' @ e"

definition msgBatchGeo :: "string \<Rightarrow> string" where
  "msgBatchGeo e = sp [ru_oshibka, ru_batch @ ''-'' @ ru_vstavki, ''geo''] @ '': '' @ e"

definition msgBatchCompanies :: "string \<Rightarrow> string" where
  "msgBatchCompanies e = sp [ru_oshibka, ru_batch @ ''-'' @ ru_vstavki, ru_kompaniy] @ '': '' @ e"

definition msgLinksGeo :: "string \<Rightarrow> string" where
  "msgLinksGeo e = sp [ru_oshibka, ru_vstavki, ru_svyazey, ''company_geo''] @ '': '' @ e"

definition msgLinksCategories :: "string \<Rightarrow> string" where
  "msgLinksCategories e =
     sp [ru_oshibka, ru_vstavki, ru_svyazey, ''company_categories''] @ '': '' @ e"

definition msgCommitTx :: "string \<Rightarrow> string" where
  "msgCommitTx e = sp [ru_oshibka, ru_kommita, ru_tranzaktsii] @ '': '' @ e"

definition msgBeginDict :: "string \<Rightarrow> string \<Rightarrow> string" where
  "msgBeginDict table e =
     sp [ru_oshibka, ru_nachala, ru_tranzaktsii, ru_dlya, ru_spravochnika, table] @ '': '' @ e"

definition msgCommitDict :: "string \<Rightarrow> string \<Rightarrow> string" where
  "msgCommitDict table e =
     sp [ru_oshibka, ru_kommita, ru_tranzaktsii, ru_dlya, ru_spravochnika, table] @ '': '' @ e"

definition msgPreloadDict :: "string \<Rightarrow> string \<Rightarrow> string" where
  "msgPreloadDict table e =
     sp [ru_oshibka, ru_predzagruzki, ru_spravochnika, table] @ '': '' @ e"

definition msgPreloadDictAfter :: "string \<Rightarrow> nat \<Rightarrow> string \<Rightarrow> string" where
  "msgPreloadDictAfter table n e =
     sp [ru_oshibka, ru_predzagruzki, ru_spravochnika, table, ru_posle, Sprintf_d (int n),
         ru_popytok] @ '': '' @ e"

definition msgInsertTable :: "string \<Rightarrow> string \<Rightarrow> string" where
  "msgInsertTable table e = sp [ru_oshibka, ru_pri, ru_vstavke, table] @ '': '' @ e"

definition msgLoadTable :: "string \<Rightarrow> string \<Rightarrow> string" where
  "msgLoadTable table e = sp [ru_oshibka, ru_pri, ru_zagruzke, table] @ '': '' @ e"

definition msgInsertGeo :: "string \<Rightarrow> string" where
  "msgInsertGeo e = sp [ru_oshibka, ru_pri, ru_vstavke, ''geo''] @ '': '' @ e"

definition msgCreateTemp :: "string \<Rightarrow> string" where
  "msgCreateTemp e = sp [ru_oshibka, ru_sozdaniya, ru_vremennoy, ru_tablitsy] @ '': '' @ e"

definition msgInsertTemp :: "string \<Rightarrow> string" where
  "msgInsertTemp e =
     sp [ru_oshibka, ru_vstavki, ru_vo, ru_vremennuyu, ru_tablitsu] @ '': '' @ e"

definition msgLoadGeo :: "string \<Rightarrow> string" where
  "msgLoadGeo e = sp [ru_oshibka, ru_pri, ru_zagruzke, ''geo''] @ '': '' @ e"

definition msgInsertCompanies :: "string \<Rightarrow> string" where
  "msgInsertCompanies e = sp [ru_oshibka, ru_pri, ru_vstavke, ru_kompaniy] @ '': '' @ e"

definition msgLoadCompanies :: "string \<Rightarrow> string" where
  "msgLoadCompanies e = sp [ru_oshibka, ru_pri, ru_zagruzke, ru_kompaniy] @ '': '' @ e"

definition msgInsertLinks :: "string \<Rightarrow> string \<Rightarrow> string" where
  "msgInsertLinks linkTableName e =
     sp [ru_oshibka, ru_pri, ru_vstavke, ru_svyazey, linkTableName] @ '': '' @ e"

section \<open>The repository: dictionaries\<close>

text \<open>
  A loop that sends one statement per batch and stops at the first failure; what each
  caller does with the failure follows the call.
\<close>

fun execAll :: "txname \<Rightarrow> stmt list \<Rightarrow> CompanyRepository \<Rightarrow> string option \<times> CompanyRepository" where
  "execAll tx [] r = (None, r)"
| "execAll tx (s # ss) r =
     (case txExec tx s r of
        (Some e, r1) \<Rightarrow> (Some e, r1)
      | (None, r1) \<Rightarrow> execAll tx ss r1)"

definition storeNameRow :: "string \<Rightarrow> CompanyRepository \<Rightarrow> int \<times> string \<Rightarrow> CompanyRepository" where
  \<comment> \<open>the \<open>switch table\<close> of \<open>loadDictionaryFromDB\<close>\<close>
  "storeNameRow table r row =
     (let i = fst row; name = snd row in
      if table = ''region'' then r\<lparr>region := AList.update name i (region r)\<rparr>
      else if table = ''district'' then r\<lparr>district := AList.update name i (district r)\<rparr>
      else if table = ''city'' then r\<lparr>city := AList.update name i (city r)\<rparr>
      else if table = ''category'' then r\<lparr>category := AList.update name i (category r)\<rparr>
      else if table = ''subcategory'' then r\<lparr>subcategory := AList.update name i (subcategory r)\<rparr>
      else r)"

fun loadDictionaryBatches ::
  "txname \<Rightarrow> string \<Rightarrow> string list list \<Rightarrow> CompanyRepository
     \<Rightarrow> (string option \<times> CompanyRepository) option" where
  "loadDictionaryBatches tx table [] r = Some (None, r)"
| "loadDictionaryBatches tx table (batch # rest) r =
     (case txQueryNames tx table batch r of
        (Inl e, r1) \<Rightarrow> do {
          r2 \<leftarrow> addError (msgLoadTable table e) r1;
          Some (Some e, r2)
        }
      | (Inr (rows, fin), r1) \<Rightarrow> do {
          r2 \<leftarrow> Lock r1;
          r3 \<leftarrow> Unlock (foldl (storeNameRow table) r2 rows);
          (case fin of
             ScanError e \<Rightarrow> Some (Some e, r3)
           | IterError e \<Rightarrow> Some (Some e, r3)
           | RowsDone \<Rightarrow> loadDictionaryBatches tx table rest r3)
        })"

definition loadDictionaryFromDB ::
  "txname \<Rightarrow> string \<Rightarrow> string list \<Rightarrow> CompanyRepository
     \<Rightarrow> (string option \<times> CompanyRepository) option" where
  "loadDictionaryFromDB tx table names r =
     (if length names = 0 then Some (None, r)
      else loadDictionaryBatches tx table (chunked 10000 names) r)"

fun splitNames :: "(string \<times> int) list \<Rightarrow> string list \<Rightarrow> string list \<times> string list" where
  "splitNames cache [] = ([], [])"
| "splitNames cache (name # names) =
     (let (newNames, namesToLoad) = splitNames cache names in
      if map_of cache name = None then (name # newNames, name # namesToLoad)
      else (newNames, name # namesToLoad))"

definition batchInsertDictionary ::
  "txname \<Rightarrow> string \<Rightarrow> string list \<Rightarrow> CompanyRepository
     \<Rightarrow> (string option \<times> CompanyRepository) option" where
  "batchInsertDictionary tx table names r =
     (if length names = 0 then Some (None, r)
      else do {
        r1 \<leftarrow> RLock r;
        let cache = getCacheForTable table r1;
        r2 \<leftarrow> RUnlock r1;
        let (newNames, namesToLoad) = splitNames cache names;
        if length newNames > 0 then
          (case txExec tx (InsertIgnoreNames table newNames) r2 of
             (Some e, r3) \<Rightarrow> do {
               r4 \<leftarrow> addError (msgInsertTable table e) r3;
               Some (Some e, r4)
             }
           | (None, r3) \<Rightarrow> loadDictionaryFromDB tx table namesToLoad r3)
        else loadDictionaryFromDB tx table namesToLoad r2
      })"

type_synonym uniqueValues = "(string \<times> (string \<times> bool) list) list"

definition tablesOrder :: "string list" where
  "tablesOrder = [''region'', ''district'', ''city'', ''category'', ''subcategory'']"

definition markUnique :: "string \<Rightarrow> uniqueValues \<Rightarrow> string \<Rightarrow> uniqueValues" where
  \<comment> \<open>\<open>uniqueValues[table][v] = true\<close>, for a non-empty \<open>v\<close>\<close>
  "markUnique table uv v =
     (if v \<noteq> [] then
        AList.update table
          (AList.update v True (case map_of uv table of Some m \<Rightarrow> m | None \<Rightarrow> [])) uv
      else uv)"

definition collectUnique :: "uniqueValues \<Rightarrow> GisCompany \<Rightarrow> uniqueValues" where
  "collectUnique uv rec =
     (let uv1 = markUnique ''region'' uv (Region rec);
          uv2 = markUnique ''district'' uv1 (District rec);
          uv3 = markUnique ''city'' uv2 (City rec);
          uv4 = foldl (markUnique ''category'') uv3 (extractCategories (Category rec))
      in foldl (markUnique ''subcategory'') uv4 (extractCategories (Subcategory rec)))"

definition collectUniqueValues :: "GisCompany list \<Rightarrow> uniqueValues" where
  "collectUniqueValues records =
     foldl collectUnique (map (\<lambda>t. (t, [])) tablesOrder) records"

function preloadAttempts ::
  "string \<Rightarrow> string list \<Rightarrow> nat \<Rightarrow> string option \<Rightarrow> CompanyRepository
     \<Rightarrow> ((string + string option) \<times> CompanyRepository) option" where
  "preloadAttempts table names attempt lastErr r =
     (if attempt < 3 then
        (let r0 = (if attempt > 0 then Sleep (retryDelay attempt) r else r) in
         case dbBegin (DictTx table) r0 of
           (Some err, r1) \<Rightarrow>
             preloadAttempts table names (attempt + 1) (Some (msgBeginDict table err)) r1
         | (None, r1) \<Rightarrow>
             (case batchInsertDictionary (DictTx table) table names r1 of
                None \<Rightarrow> None
              | Some (None, r2) \<Rightarrow>
                  (case txCommit (DictTx table) r2 of
                     (Some err, r3) \<Rightarrow>
                       preloadAttempts table names (attempt + 1)
                         (Some (msgCommitDict table err)) (txRollback (DictTx table) r3)
                   | (None, r3) \<Rightarrow> Some (Inr lastErr, r3))
              | Some (Some err, r2) \<Rightarrow>
                  (let r3 = txRollback (DictTx table) r2 in
                   if deadlockIndicator err then
                     preloadAttempts table names (attempt + 1) (Some err) r3
                   else Some (Inl (msgPreloadDict table err), r3))))
      else Some (Inr lastErr, r))"
  by pat_completeness auto
termination
  by (relation "measure (\<lambda>(table, names, attempt, lastErr, r). 3 - attempt)") auto

declare preloadAttempts.simps [simp del]

fun preloadTables ::
  "(nat \<times> string) list \<Rightarrow> uniqueValues \<Rightarrow> CompanyRepository
     \<Rightarrow> (string option \<times> CompanyRepository) option" where
  "preloadTables [] uv r = Some (None, r)"
| "preloadTables ((i, table) # rest) uv r =
     (let vals = (case map_of uv table of Some m \<Rightarrow> m | None \<Rightarrow> []) in
      if length vals = 0 then preloadTables rest uv r
      else
        (let r1 = (if i > 0 then (let (n, ra) = Intn 100 r in Sleep (50 + n) ra) else r);
             names = map fst vals
         in case preloadAttempts table names 0 None r1 of
              None \<Rightarrow> None
            | Some (Inl e, r2) \<Rightarrow> Some (Some e, r2)
            | Some (Inr (Some e), r2) \<Rightarrow> Some (Some (msgPreloadDictAfter table 3 e), r2)
            | Some (Inr None, r2) \<Rightarrow> preloadTables rest uv r2))"

definition preloadDictionariesOutsideTx ::
  "GisCompany list \<Rightarrow> CompanyRepository \<Rightarrow> (string option \<times> CompanyRepository) option" where
  "preloadDictionariesOutsideTx records r =
     preloadTables (enumerate 0 tablesOrder) (collectUniqueValues records) r"

section \<open>The repository: geo, companies and links\<close>

fun collectGeoData ::
  "GisCompany list \<Rightarrow> (string \<times> geoTriple) list \<Rightarrow> CompanyRepository
     \<Rightarrow> ((string \<times> geoTriple) list \<times> CompanyRepository) option" where
  "collectGeoData [] geoData r = Some (geoData, r)"
| "collectGeoData (rec # rest) geoData r = do {
     r1 \<leftarrow> RLock r;
     let regionID = getIDFromCache (region r1) (Region rec);
     let districtID = getIDFromCache (district r1) (District rec);
     let cityID = getIDFromCache (city r1) (City rec);
     r2 \<leftarrow> RUnlock r1;
     if regionID = None \<and> districtID = None \<and> cityID = None
     then collectGeoData rest geoData r2
     else let key = buildGeoKey regionID districtID cityID in
       collectGeoData rest
         (if map_of geoData key = None
          then AList.update key (regionID, districtID, cityID) geoData else geoData) r2
   }"

definition storeGeoRow :: "CompanyRepository \<Rightarrow> int \<times> geoTriple \<Rightarrow> CompanyRepository" where
  "storeGeoRow r row =
     (case row of (i, regionID, districtID, cityID) \<Rightarrow>
        r\<lparr>geoCache :=
            AList.update
              (buildGeoKey (nullIntToPtr regionID) (nullIntToPtr districtID) (nullIntToPtr cityID))
              i (geoCache r)\<rparr>)"

definition loadGeoFromDB ::
  "txname \<Rightarrow> geoTriple list \<Rightarrow> CompanyRepository
     \<Rightarrow> (string option \<times> CompanyRepository) option" where
  "loadGeoFromDB tx geoList r =
     (if length geoList = 0 then Some (None, r)
      else case txExec tx CreateTempGeo r of
        (Some e, r1) \<Rightarrow> Some (Some (msgCreateTemp e), r1)
      | (None, r1) \<Rightarrow>
          (case execAll tx (map InsertTempGeo (chunked 5000 geoList)) r1 of
             (Some e, r2) \<Rightarrow> Some (Some (msgInsertTemp e), r2)
           | (None, r2) \<Rightarrow>
               (case txQueryGeo tx r2 of
                  (Inl e, r3) \<Rightarrow> Some (Some (msgLoadGeo e), r3)
                | (Inr (rows, fin), r3) \<Rightarrow> do {
                    r4 \<leftarrow> Lock r3;
                    r5 \<leftarrow> Unlock (foldl storeGeoRow r4 rows);
                    (case fin of
                       ScanError e \<Rightarrow> Some (Some e, r5)
                     | IterError e \<Rightarrow> Some (Some e, r5)
                     | RowsDone \<Rightarrow> Some (None, r5))
                  })))"

definition batchInsertGeo ::
  "txname \<Rightarrow> GisCompany list \<Rightarrow> CompanyRepository
     \<Rightarrow> (string option \<times> CompanyRepository) option" where
  "batchInsertGeo tx records r = do {
     (geoData, r1) \<leftarrow> collectGeoData records [] r;
     if length geoData = 0 then Some (None, r1)
     else let geoList = map snd geoData in
       (case execAll tx (map InsertIgnoreGeo (chunked 10000 geoList)) r1 of
          (Some e, r2) \<Rightarrow> do {
            r3 \<leftarrow> addError (msgInsertGeo e) r2;
            Some (Some e, r3)
          }
        | (None, r2) \<Rightarrow> loadGeoFromDB tx geoList r2)
   }"

definition storeCompanyRow :: "CompanyRepository \<Rightarrow> int \<times> string \<Rightarrow> CompanyRepository" where
  "storeCompanyRow r row =
     (let i = fst row; name = snd row in
      if map_of (company r) name = None
      then r\<lparr>company := AList.update name i (company r), companyCount := companyCount r + 1\<rparr>
      else r)"

definition loadCompaniesFromDB ::
  "txname \<Rightarrow> string list \<Rightarrow> CompanyRepository
     \<Rightarrow> (string option \<times> CompanyRepository) option" where
  "loadCompaniesFromDB tx names r =
     (if length names = 0 then Some (None, r)
      else do {
        r1 \<leftarrow> RLock r;
        let newNames = filter (\<lambda>name. name \<noteq> [] \<and> map_of (company r1) name = None) names;
        r2 \<leftarrow> RUnlock r1;
        if length newNames = 0 then Some (None, r2)
        else (case txQueryNames tx ''company'' newNames r2 of
                (Inl e, r3) \<Rightarrow> do {
                  r4 \<leftarrow> addError (msgLoadCompanies e) r3;
                  Some (Some e, r4)
                }
              | (Inr (rows, fin), r3) \<Rightarrow> do {
                  r4 \<leftarrow> Lock r3;
                  r5 \<leftarrow> Unlock (foldl storeCompanyRow r4 rows);
                  (case fin of
                     ScanError e \<Rightarrow> Some (Some e, r5)
                   | IterError e \<Rightarrow> Some (None, r5)
                   | RowsDone \<Rightarrow> Some (None, r5))
                })
      })"

definition uniqueCompanies :: "CompanyRepository \<Rightarrow> GisCompany list \<Rightarrow> (string \<times> bool) list" where
  "uniqueCompanies r records =
     foldl (\<lambda>u rec.
              if Name rec \<noteq> [] \<and> map_of (company r) (Name rec) = None
              then AList.update (Name rec) True u else u) [] records"

definition batchInsertCompanies ::
  "txname \<Rightarrow> GisCompany list \<Rightarrow> CompanyRepository
     \<Rightarrow> (string option \<times> CompanyRepository) option" where
  "batchInsertCompanies tx records r = do {
     r1 \<leftarrow> RLock r;
     let unique = uniqueCompanies r1 records;
     r2 \<leftarrow> RUnlock r1;
     if length unique = 0 then Some (None, r2)
     else let companyNames = map fst unique in
       (case txExec tx (InsertIgnoreNames ''company'' companyNames) r2 of
          (Some e, r3) \<Rightarrow> do {
            r4 \<leftarrow> addError (msgInsertCompanies e) r3;
            Some (Some e, r4)
          }
        | (None, r3) \<Rightarrow> loadCompaniesFromDB tx companyNames r3)
   }"

definition flattenGeos :: "(int \<times> int list) list \<Rightarrow> (int \<times> int) list" where
  "flattenGeos geos = concat (map (\<lambda>(companyID, geoIDs). map (\<lambda>geoID. (companyID, geoID)) geoIDs) geos)"

definition insertCompanyGeos ::
  "txname \<Rightarrow> CompanyRepository \<Rightarrow> (string option \<times> CompanyRepository) option" where
  "insertCompanyGeos tx r = do {
     r1 \<leftarrow> RLock r;
     r2 \<leftarrow> RUnlock r1;
     if length (companyGeos r1) = 0 then Some (None, r2)
     else let allLinks = flattenGeos (companyGeos r1) in
       if length allLinks = 0 then Some (None, r2)
       else (case execAll tx (map (InsertIgnoreLinks ''company_geo'') (chunked pivotBatchSize allLinks)) r2 of
               (Some e, r3) \<Rightarrow> do {
                 r4 \<leftarrow> addError (msgInsertLinks ''company_geo'' e) r3;
                 Some (Some e, r4)
               }
             | (None, r3) \<Rightarrow> Some (None, r3))
   }"

definition flattenCategories ::
  "string \<Rightarrow> (int \<times> (string \<times> int list) list) list \<Rightarrow> (int \<times> int) list" where
  "flattenCategories fieldType cc =
     concat (map (\<lambda>(companyID, types).
                    case map_of types fieldType of
                      None \<Rightarrow> []
                    | Some ids \<Rightarrow> map (\<lambda>valueID. (companyID, valueID)) ids) cc)"

fun insertCategoryFields ::
  "txname \<Rightarrow> string list \<Rightarrow> CompanyRepository \<Rightarrow> (string option \<times> CompanyRepository) option" where
  "insertCategoryFields tx [] r = Some (None, r)"
| "insertCategoryFields tx (fieldType # rest) r = do {
     r1 \<leftarrow> RLock r;
     let allLinks = flattenCategories fieldType (companyCategories r1);
     r2 \<leftarrow> RUnlock r1;
     if length allLinks = 0 then insertCategoryFields tx rest r2
     else (case execAll tx (map (InsertIgnoreLinks (''company_'' @ fieldType))
                              (chunked pivotBatchSize allLinks)) r2 of
             (Some e, r3) \<Rightarrow> do {
               r4 \<leftarrow> addError (msgInsertLinks (''company_'' @ fieldType) e) r3;
               Some (Some e, r4)
             }
           | (None, r3) \<Rightarrow> insertCategoryFields tx rest r3)
   }"

definition insertCompanyCategories ::
  "txname \<Rightarrow> CompanyRepository \<Rightarrow> (string option \<times> CompanyRepository) option" where
  "insertCompanyCategories tx r = do {
     r1 \<leftarrow> RLock r;
     r2 \<leftarrow> RUnlock r1;
     if length (companyCategories r1) = 0 then Some (None, r2)
     else insertCategoryFields tx [''category'', ''subcategory''] r2
   }"

section \<open>The repository: one attempt and \<open>Insert\<close>\<close>

text \<open>The loop "processing of the links" of \<open>insertWithRetry\<close>, one record after the other.\<close>

definition linkRecord :: "GisCompany \<Rightarrow> CompanyRepository \<Rightarrow> CompanyRepository option" where
  "linkRecord rec r = do {
     (geoID, r1) \<leftarrow> getGeoID rec r;
     if geoID = 0 then Some r1
     else do {
       ((categoryIDs, subcategoryIDs), r2) \<leftarrow> getCategoryIDs rec r1;
       r3 \<leftarrow> RLock r2;
       let companyID = (case map_of (company r3) (Name rec) of Some i \<Rightarrow> i | None \<Rightarrow> 0);
       r4 \<leftarrow> RUnlock r3;
       if companyID = 0 then Some r4
       else do {
         r5 \<leftarrow> collectCompanyGeos companyID geoID r4;
         collectCompanyCategories companyID categoryIDs subcategoryIDs r5
       }
     }
   }"

fun linkRecords :: "GisCompany list \<Rightarrow> CompanyRepository \<Rightarrow> CompanyRepository option" where
  "linkRecords [] r = Some r"
| "linkRecords (rec # rest) r = do { r1 \<leftarrow> linkRecord rec r; linkRecords rest r1 }"

text \<open>
  The body of \<open>insertWithRetry\<close> after the main transaction is open and its deferred
  rollback is registered.
\<close>

definition insertInTx ::
  "GisCompany list \<Rightarrow> CompanyRepository \<Rightarrow> (string option \<times> CompanyRepository) option" where
  "insertInTx records r = do {
     (err1, r1) \<leftarrow> preloadDictionariesOutsideTx records r;
     (case err1 of Some e \<Rightarrow> Some (Some (msgPreload e), r1) | None \<Rightarrow>
     (case txExec MainTx (SetForeignKeyChecks False) r1 of
        (Some e, r2) \<Rightarrow> Some (Some (msgDisableFK e), r2)
      | (None, r2) \<Rightarrow> do {
     (err3, r3) \<leftarrow> batchInsertGeo MainTx records r2;
     (case err3 of Some e \<Rightarrow> Some (Some (msgBatchGeo e), r3) | None \<Rightarrow> do {
     (err4, r4) \<leftarrow> batchInsertCompanies MainTx records r3;
     (case err4 of Some e \<Rightarrow> Some (Some (msgBatchCompanies e), r4) | None \<Rightarrow> do {
     r5 \<leftarrow> linkRecords records r4;
     (err6, r6) \<leftarrow> insertCompanyGeos MainTx r5;
     (case err6 of Some e \<Rightarrow> Some (Some (msgLinksGeo e), r6) | None \<Rightarrow> do {
     (err7, r7) \<leftarrow> insertCompanyCategories MainTx r6;
     (case err7 of Some e \<Rightarrow> Some (Some (msgLinksCategories e), r7) | None \<Rightarrow>
     (let r8 = snd (txExec MainTx (SetForeignKeyChecks True) r7) in
      case txCommit MainTx r8 of
        (Some e, r9) \<Rightarrow> Some (Some (msgCommitTx e), r9)
      | (None, r9) \<Rightarrow> Some (None, r9)))})})})}))
   }"

definition insertWithRetry ::
  "GisCompany list \<Rightarrow> CompanyRepository \<Rightarrow> (string option \<times> CompanyRepository) option" where
  "insertWithRetry records r =
     (let (n, ra) = Intn 500 r;
          rb = Sleep (100 + n) ra
      in case dbBegin MainTx rb of
           (Some e, rc) \<Rightarrow> Some (Some (msgBeginTx e), rc)
         | (None, rc) \<Rightarrow> do {
             (err, rd) \<leftarrow> insertInTx records rc;
             (case err of
                None \<Rightarrow> Some (None, rd)
              | Some e \<Rightarrow> Some (Some e, txRollback MainTx rd))
           })"

definition maxRetries :: nat where
  "maxRetries = 5"

function insertAttempts ::
  "GisCompany list \<Rightarrow> nat \<Rightarrow> string option \<Rightarrow> CompanyRepository
     \<Rightarrow> (string option \<times> CompanyRepository) option" where
  "insertAttempts records attempt lastErr r =
     (if attempt < maxRetries then do {
        r1 \<leftarrow> (if attempt > 0 then do {
                 ra \<leftarrow> Lock (Sleep (retryDelay attempt) r);
                 rb \<leftarrow> addError (msgRetryNotice (attempt + 1) maxRetries) ra;
                 Unlock rb
               } else Some r);
        (err, r2) \<leftarrow> insertWithRetry records r1;
        (case err of
           None \<Rightarrow> Some (None, r2)
         | Some e \<Rightarrow>
             if deadlockIndicator e then insertAttempts records (attempt + 1) (Some e) r2
             else Some (Some e, r2))
      }
      else Some (Some (msgRetryLimit (case lastErr of Some e \<Rightarrow> e | None \<Rightarrow> [])), r))"
  by pat_completeness auto
termination
  by (relation "measure (\<lambda>(records, attempt, lastErr, r). maxRetries - attempt)") auto

declare insertAttempts.simps [simp del]

definition Insert ::
  "GisCompany list \<Rightarrow> CompanyRepository \<Rightarrow> (string option \<times> CompanyRepository) option" where
  "Insert records r =
     (if length records = 0 then Some (None, r)
      else insertAttempts records 0 None r)"


section \<open>The worker\<close>

subsection \<open>Messages of the broker\<close>

text \<open>
  A header value of an \<open>amqp.Table\<close>: a Go \<open>int32\<close>, a Go \<open>int\<close>, or a value of
  another type (on which both type assertions of \<open>getRetryCount\<close> fail).
\<close>

datatype fieldValue = FInt32 "32 word" | FInt int | FOther string

type_synonym amqpTable = "(string \<times> fieldValue) list"

text \<open>The import task (\<open>models.go\<close>), under the names of its JSON fields.\<close>

record ImportTask =
  file_path :: string
  file_name :: string
  file_size :: int
  priority :: string
  created_at :: string

text \<open>\<open>amqp.Delivery\<close> and \<open>amqp.Publishing\<close>, the fields the worker reads and writes.\<close>

record Delivery =
  Body :: string
  Headers :: "amqpTable option"
  Priority :: "8 word"
  MessageId :: string
  Timestamp :: nat
  DeliveryTag :: nat

record Publishing =
  pubBody :: string
  pubHeaders :: amqpTable
  pubDeliveryMode :: "8 word"
  pubPriority :: "8 word"
  pubMessageId :: string
  pubTimestamp :: nat

text \<open>
  What the worker does to the world outside the repository, in order: a sleep (in
  nanoseconds), \<open>channel.Publish(exchange, key, mandatory, immediate, msg)\<close>,
  \<open>d.Ack(multiple)\<close>, \<open>d.Nack(multiple, requeue)\<close> and \<open>os.Remove(path)\<close>. The
  log lines are left out.
\<close>

datatype action =
    Slept nat
  | Published string string bool bool Publishing
  | Ack nat bool
  | Nack nat bool bool
  | Removed string

text \<open>
  The worker with the world it acts on: the files that exist, the clock (in
  nanoseconds), the outcomes of the publishes still to come, and the actions so far.
\<close>

record Worker =
  repository :: CompanyRepository
  queueName :: string
  storagePath :: string
  workerID :: string
  files :: "string list"
  clock :: nat
  publishFaults :: "string option list"
  actions :: "action list"

text \<open>
  The library functions \<open>processMessage\<close> calls on data: \<open>json.Unmarshal\<close> into an
  \<open>ImportTask\<close>, \<open>filepath.Join\<close>, \<open>filepath.Base\<close>, and \<open>ParseFile\<close> of the
  CSV parser (which reads the file with \<open>encoding/csv\<close>).
\<close>

record library =
  jsonUnmarshal :: "string \<Rightarrow> string + ImportTask"
  pathJoin :: "string list \<Rightarrow> string"
  pathBase :: "string \<Rightarrow> string"
  ParseFile :: "string \<Rightarrow> string + GisCompany list"

subsection \<open>Retry accounting\<close>

definition getRetryCount :: "amqpTable option \<Rightarrow> int" where
  "getRetryCount headers =
     (case headers of
        None \<Rightarrow> 0
      | Some h \<Rightarrow>
          (case map_of h ''x-retry-count'' of
             Some (FInt32 count) \<Rightarrow> sint count
           | Some (FInt count) \<Rightarrow> count
           | _ \<Rightarrow> 0))"

definition retryableErrors :: "string list" where
  "retryableErrors =
     [''Error 1213'', ''Error 1205'', ''Error 2013'', ''Error 2006'',
      ''connection reset'', ''connection refused'', ''timeout'', ''temporary failure'']"

definition isRetryableError :: "string option \<Rightarrow> bool" where
  "isRetryableError err =
     (case err of
        None \<Rightarrow> False
      | Some errStr \<Rightarrow>
          if Contains errStr ''Deadlock'' \<or> Contains errStr ''deadlock'' then True
          else if list_ex (Contains errStr) retryableErrors then True
          else if Contains errStr ''file''
                  \<and> (Contains errStr ''locked'' \<or> Contains errStr ''busy'') then True
          else False)"

subsection \<open>\<open>processMessage\<close>\<close>

fun replaceFirst :: "string \<Rightarrow> string \<Rightarrow> string \<Rightarrow> string" where
  \<comment> \<open>\<open>strings.Replace(s, old, new, 1)\<close> for a non-empty \<open>old\<close>\<close>
  "replaceFirst [] old new = []"
| "replaceFirst (c # cs) old new =
     (if hasPrefix (c # cs) old then new @ drop (length old) (c # cs)
      else c # replaceFirst cs old new)"

definition IsAbs :: "string \<Rightarrow> bool" where
  \<comment> \<open>\<open>filepath.IsAbs\<close> on Unix\<close>
  "IsAbs path = hasPrefix path ''/''"

definition msgDecode :: "string \<Rightarrow> string" where
  "msgDecode e = sp [ru_oshibka, ru_dekodirovaniya, ru_zadachi] @ '': '' @ e"

definition msgFileNotFound :: "string \<Rightarrow> string" where
  "msgFileNotFound fileName = fileName @ '': '' @ sp [ru_fayl, ru_ne, ru_nayden]"

definition resolvePath :: "library \<Rightarrow> Worker \<Rightarrow> string \<Rightarrow> string option" where
  \<comment> \<open>the two \<open>os.Stat\<close> checks of \<open>processMessage\<close>; \<open>None\<close> is "file not found"\<close>
  "resolvePath lib w filePath =
     (if filePath \<notin> set (files w) then
        (let fp1 = (if Contains filePath ''/var/www/html/storage''
                    then replaceFirst filePath ''/var/www/html/storage'' (storagePath w)
                    else filePath);
             fp2 = (if \<not> IsAbs fp1
                    then pathJoin lib [storagePath w, ''csv'', pathBase lib fp1]
                    else fp1)
         in if fp2 \<notin> set (files w) then None else Some fp2)
      else Some filePath)"

definition processMessage ::
  "library \<Rightarrow> Delivery \<Rightarrow> Worker \<Rightarrow> (string option \<times> Worker) option" where
  "processMessage lib d w =
     (case jsonUnmarshal lib (Body d) of
        Inl e \<Rightarrow> Some (Some (msgDecode e), w)
      | Inr task \<Rightarrow>
          (case resolvePath lib w (file_path task) of
             None \<Rightarrow> Some (Some (msgFileNotFound (file_name task)), w)
           | Some filePath \<Rightarrow>
               (case ParseFile lib filePath of
                  Inl e \<Rightarrow> Some (Some (file_name task @ '': '' @ e), w)
                | Inr records \<Rightarrow>
                    if length records = 0 then Some (None, w)
                    else do {
                      (err, r1) \<leftarrow> Insert records (repository w);
                      (case err of
                         Some e \<Rightarrow>
                           Some (Some (file_name task @ '': '' @ e), w\<lparr>repository := r1\<rparr>)
                       | None \<Rightarrow> do {
                           (summary, r2) \<leftarrow> GetSummary r1;
                           Some (None, w\<lparr>repository := r2,
                                          files := removeAll filePath (files w),
                                          actions := actions w @ [Removed filePath]\<rparr>)
                         })
                    })))"

subsection \<open>The consume loop of \<open>Start\<close>, for one delivery\<close>

definition sleepNanos :: "int \<Rightarrow> nat" where
  \<comment> \<open>\<open>time.Duration(n) * time.Second\<close> in 64 bits; a sleep that is not positive returns at once\<close>
  "sleepNanos n = nat (sint (word_of_int (n * 1000000000) :: 64 word))"

definition sleepFor :: "nat \<Rightarrow> Worker \<Rightarrow> Worker" where
  "sleepFor ns w = w\<lparr>clock := clock w + ns, actions := actions w @ [Slept ns]\<rparr>"

definition Publish ::
  "string \<Rightarrow> string \<Rightarrow> bool \<Rightarrow> bool \<Rightarrow> Publishing \<Rightarrow> Worker \<Rightarrow> string option \<times> Worker" where
  "Publish exchange key mandatory immediate msg w =
     (case publishFaults w of
        Some e # rest \<Rightarrow> (Some e, w\<lparr>publishFaults := rest\<rparr>)
      | None # rest \<Rightarrow>
          (None, w\<lparr>publishFaults := rest,
                   actions := actions w @ [Published exchange key mandatory immediate msg]\<rparr>)
      | [] \<Rightarrow> (None, w\<lparr>actions := actions w @ [Published exchange key mandatory immediate msg]\<rparr>))"

definition act :: "action \<Rightarrow> Worker \<Rightarrow> Worker" where
  "act a w = w\<lparr>actions := actions w @ [a]\<rparr>"

text \<open>
  The branches of the loop body after \<open>processMessage\<close> has returned \<open>err\<close>.
\<close>

definition handleResult :: "Delivery \<Rightarrow> string option \<Rightarrow> Worker \<Rightarrow> Worker" where
  "handleResult d err w1 =
     (let retryCount = getRetryCount (Headers d);
          maxRetries = 10
      in if err \<noteq> None then
           (let isRetryable = isRetryableError err in
            if isRetryable \<and> retryCount < maxRetries then
              (let newRetryCount = retryCount + 1;
                   w2 = sleepFor (sleepNanos newRetryCount) w1;
                   newHeaders = AList.update ''x-retry-count'' (FInt newRetryCount)
                                  (case Headers d of None \<Rightarrow> [] | Some h \<Rightarrow> h);
                   (pubErr, w3) =
                      Publish '''' (queueName w2) False False
                        \<lparr>pubBody = Body d, pubHeaders = newHeaders, pubDeliveryMode = 2,
                         pubPriority = Priority d, pubMessageId = MessageId d,
                         pubTimestamp = clock w2\<rparr> w2
               in if pubErr \<noteq> None then act (Nack (DeliveryTag d) False True) w3
                  else act (Ack (DeliveryTag d) False) w3)
            else act (Nack (DeliveryTag d) False False) w1)
         else act (Ack (DeliveryTag d) False) w1)"

definition handleDelivery :: "library \<Rightarrow> Delivery \<Rightarrow> Worker \<Rightarrow> Worker option" where
  "handleDelivery lib d w = do {
     (err, w1) \<leftarrow> processMessage lib d w;
     Some (handleResult d err w1)
   }"


section \<open>The properties, in the words of the specification\<close>

text \<open>
  The tail-cleanup rule of the specification: two or more tokens result, and the
  string has 540 code points or more, or there are more than two tokens and the last
  has fewer than 4 code points, or the last token ends (white space apart) in a
  slash, a hyphen or a comma.
\<close>

definition tailCleanupFires :: "string \<Rightarrow> bool" where
  "tailCleanupFires s =
     (let toks = map TrimSpace (splitComma s) in
        2 \<le> length toks \<and>
        (540 \<le> RuneCountInString s
         \<or> (2 < length toks \<and> RuneCountInString (last toks) < 4)
         \<or> (case rev (runes (TrimSpace (last toks))) of
               [] \<Rightarrow> False
             | c # _ \<Rightarrow> c = 0x2F \<or> c = 0x2D \<or> c = 0x2C)))"

text \<open>
  A republished message as the broker delivers it again. The client library writes a
  Go \<open>int\<close> header as a 32-bit integer and reads it back as an \<open>int32\<close>; the other
  values come back as they were.
\<close>

definition onWire :: "fieldValue \<Rightarrow> fieldValue" where
  "onWire v = (case v of FInt n \<Rightarrow> FInt32 (word_of_int n) | _ \<Rightarrow> v)"

definition redeliver :: "Publishing \<Rightarrow> nat \<Rightarrow> Delivery" where
  "redeliver msg tag =
     \<lparr>Body = pubBody msg, Headers = Some (map (\<lambda>(k, v). (k, onWire v)) (pubHeaders msg)),
      Priority = pubPriority msg, MessageId = pubMessageId msg,
      Timestamp = pubTimestamp msg, DeliveryTag = tag\<rparr>"


text \<open>
  The message the retry path publishes for a delivery \<open>d\<close> at time \<open>now\<close>: the body,
  the priority and the message id of \<open>d\<close>, the headers of \<open>d\<close> with
  \<open>x-retry-count\<close> one more than \<open>d\<close> carried, persistent, stamped \<open>now\<close>.
\<close>

definition republishedMsg :: "Delivery \<Rightarrow> nat \<Rightarrow> Publishing" where
  "republishedMsg d now =
     \<lparr>pubBody = Body d,
      pubHeaders = AList.update ''x-retry-count'' (FInt (getRetryCount (Headers d) + 1))
                     (case Headers d of None \<Rightarrow> [] | Some h \<Rightarrow> h),
      pubDeliveryMode = 2, pubPriority = Priority d, pubMessageId = MessageId d,
      pubTimestamp = now\<rparr>"

definition publishFails :: "Worker \<Rightarrow> bool" where
  "publishFails w = (case publishFaults w of Some e # rest \<Rightarrow> True | _ \<Rightarrow> False)"

section \<open>Concrete inputs\<close>

definition deadlockMessage :: string where
  "deadlockMessage =
     ''Error 1213 (40001): Deadlock found when trying to get lock; try restarting transaction''"

definition freshDelivery :: Delivery where
  \<comment> \<open>a task as the upload API publishes it: priority 10, no headers\<close>
  "freshDelivery =
     \<lparr>Body = ''{task}'', Headers = None, Priority = 10, MessageId = ''m1'',
      Timestamp = 5, DeliveryTag = 7\<rparr>"

definition lastDelivery :: Delivery where
  \<comment> \<open>the same task on its tenth redelivery\<close>
  "lastDelivery = freshDelivery\<lparr>Headers := Some [(''x-retry-count'', FInt32 10)]\<rparr>"

definition idleWorker :: Worker where
  "idleWorker =
     \<lparr>repository = NewCompanyRepository emptyDatabase, queueName = ''csv_import_high'',
      storagePath = ''/app/storage'', workerID = ''worker-csv_import_high-host'',
      files = [''/app/storage/csv/x.csv''], clock = 100, publishFaults = [],
      actions = []\<rparr>"

definition headerOnlyTask :: ImportTask where
  "headerOnlyTask =
     \<lparr>file_path = ''/app/storage/csv/x.csv'', file_name = ''x.csv'', file_size = 40,
      priority = ''high'', created_at = ''2024-01-01 00:00:00''\<rparr>"

definition headerOnlyLibrary :: library where
  \<comment> \<open>the file of the task parses to no data row\<close>
  "headerOnlyLibrary =
     \<lparr>jsonUnmarshal = (\<lambda>body. Inr headerOnlyTask), pathJoin = concat, pathBase = id,
      ParseFile = (\<lambda>path. Inr [])\<rparr>"

definition baselineRow :: GisCompany where
  "baselineRow =
     \<lparr>Name = ''A'', Region = ''R1'', District = '''', City = ''G1'', Email = '''',
      Phone = '''', Category = ''Eda, Kafe'', Subcategory = ''Torty''\<rparr>"

definition geolessRow :: GisCompany where
  \<comment> \<open>region, district and city empty\<close>
  "geolessRow =
     \<lparr>Name = ''B'', Region = '''', District = '''', City = '''', Email = '''',
      Phone = '''', Category = ''Eda'', Subcategory = ''Torty''\<rparr>"

definition plainRow :: GisCompany where
  \<comment> \<open>no category and no subcategory\<close>
  "plainRow =
     \<lparr>Name = ''C'', Region = ''R1'', District = '''', City = '''', Email = '''',
      Phone = '''', Category = '''', Subcategory = ''''\<rparr>"

definition freshRepository :: CompanyRepository where
  "freshRepository = NewCompanyRepository emptyDatabase"

definition deadlockedRepository :: CompanyRepository where
  \<comment> \<open>the seventh database call, the insert into \<open>geo\<close> for \<open>plainRow\<close>, meets a deadlock\<close>
  "deadlockedRepository =
     freshRepository\<lparr>faults := [NoFault, NoFault, NoFault, NoFault, NoFault, NoFault,
                                Fail deadlockMessage]\<rparr>"

definition baselineLoaded :: CompanyRepository where
  \<comment> \<open>the repository after \<open>baselineRow\<close> was inserted into an empty database\<close>
  "baselineLoaded =
     \<lparr>region = [(''R1'', 1)], district = [], city = [(''G1'', 1)],
      category = [(''Eda'', 1), (''Kafe'', 2)], subcategory = [(''Torty'', 1)],
      company = [(''A'', 1)], geoCache = [(''1::1'', 1)], companyGeos = [(1, [1])],
      companyCategories = [(1, [(''category'', [1, 2]), (''subcategory'', [1])])],
      companyCount = 1, errors = [], mu = unlocked,
      db = \<lparr>nameTable = (\<lambda>t. [])(''region'' := [(1, ''R1'')], ''city'' := [(1, ''G1'')],
                     ''category'' := [(1, ''Eda''), (2, ''Kafe'')],
                     ''subcategory'' := [(1, ''Torty'')], ''company'' := [(1, ''A'')]),
            geoTable = [(1, Some 1, None, Some 1)],
            linkTable = (\<lambda>t. [])(''company_geo'' := [(1, 1)],
                     ''company_category'' := [(1, 1), (1, 2)],
                     ''company_subcategory'' := [(1, 1)]),
            tempGeo = []\<rparr>,
      pending = (\<lambda>t. []), faults = [], rnd = [],
      trace =
        [EvSleep 100, EvBegin MainTx, EvBegin (DictTx ''region''),
         EvExec (DictTx ''region'') (InsertIgnoreNames ''region'' [''R1'']),
         EvQuery (DictTx ''region'') (SelectNames ''region'' [''R1'']),
         EvCommit (DictTx ''region''), EvSleep 50, EvBegin (DictTx ''city''),
         EvExec (DictTx ''city'') (InsertIgnoreNames ''city'' [''G1'']),
         EvQuery (DictTx ''city'') (SelectNames ''city'' [''G1'']),
         EvCommit (DictTx ''city''), EvSleep 50, EvBegin (DictTx ''category''),
         EvExec (DictTx ''category'') (InsertIgnoreNames ''category'' [''Eda'', ''Kafe'']),
         EvQuery (DictTx ''category'') (SelectNames ''category'' [''Eda'', ''Kafe'']),
         EvCommit (DictTx ''category''), EvSleep 50, EvBegin (DictTx ''subcategory''),
         EvExec (DictTx ''subcategory'') (InsertIgnoreNames ''subcategory'' [''Torty'']),
         EvQuery (DictTx ''subcategory'') (SelectNames ''subcategory'' [''Torty'']),
         EvCommit (DictTx ''subcategory''), EvExec MainTx (SetForeignKeyChecks False),
         EvExec MainTx (InsertIgnoreGeo [(Some 1, None, Some 1)]),
         EvExec MainTx CreateTempGeo,
         EvExec MainTx (InsertTempGeo [(Some 1, None, Some 1)]),
         EvQuery MainTx SelectGeoJoin,
         EvExec MainTx (InsertIgnoreNames ''company'' [''A'']),
         EvQuery MainTx (SelectNames ''company'' [''A'']),
         EvExec MainTx (InsertIgnoreLinks ''company_geo'' [(1, 1)]),
         EvExec MainTx (InsertIgnoreLinks ''company_category'' [(1, 1), (1, 2)]),
         EvExec MainTx (InsertIgnoreLinks ''company_subcategory'' [(1, 1)]),
         EvExec MainTx (SetForeignKeyChecks True), EvCommit MainTx]\<rparr>"

definition plainRowLibrary :: library where
  \<comment> \<open>the file of the task parses to the one row \<open>plainRow\<close>\<close>
  "plainRowLibrary = headerOnlyLibrary\<lparr>ParseFile := (\<lambda>path. Inr [plainRow])\<rparr>"

definition deadlockedWorker :: Worker where
  "deadlockedWorker = idleWorker\<lparr>repository := deadlockedRepository\<rparr>"

section \<open>Properties of repository states\<close>


text \<open>The number of collected company ids that have at least one category link.\<close>

definition companiesWithCategoryLinks :: "CompanyRepository \<Rightarrow> nat" where
  "companiesWithCategoryLinks r =
     length (filter (\<lambda>entry. sliceAt (snd entry) ''category'' \<noteq> []) (companyCategories r))"

text \<open>Every Go map of the repository has one entry per key.\<close>

definition keysDistinct :: "CompanyRepository \<Rightarrow> bool" where
  "keysDistinct r =
     (distinct (map fst (region r)) \<and> distinct (map fst (district r))
      \<and> distinct (map fst (city r)) \<and> distinct (map fst (category r))
      \<and> distinct (map fst (subcategory r)) \<and> distinct (map fst (company r))
      \<and> distinct (map fst (geoCache r)) \<and> distinct (map fst (companyGeos r))
      \<and> distinct (map fst (companyCategories r)))"

text \<open>The link pairs the collectors hold.\<close>

definition geoPairs :: "CompanyRepository \<Rightarrow> (int \<times> int) set" where
  "geoPairs r = set (flattenGeos (companyGeos r))"

definition categoryPairs :: "string \<Rightarrow> CompanyRepository \<Rightarrow> (int \<times> int) set" where
  "categoryPairs fieldType r = set (flattenCategories fieldType (companyCategories r))"

text \<open>The link pairs sent to a link table in the events \<open>evs\<close>.\<close>

fun issuedPairs :: "string \<Rightarrow> event list \<Rightarrow> (int \<times> int) set" where
  "issuedPairs t [] = {}"
| "issuedPairs t (EvExec tx (InsertIgnoreLinks t' ps) # evs) =
     (if t' = t then set ps \<union> issuedPairs t evs else issuedPairs t evs)"
| "issuedPairs t (ev # evs) = issuedPairs t evs"

text \<open>The link pairs sent to a link table between the states \<open>r\<close> and \<open>r'\<close>.\<close>

definition issuedDuring :: "string \<Rightarrow> CompanyRepository \<Rightarrow> CompanyRepository \<Rightarrow> (int \<times> int) set" where
  "issuedDuring t r r' = issuedPairs t (drop (length (trace r)) (trace r'))"

text \<open>
  Every link pair the collectors hold in \<open>r'\<close> was sent to its link table between
  \<open>r\<close> and \<open>r'\<close>.
\<close>

definition reissued :: "CompanyRepository \<Rightarrow> CompanyRepository \<Rightarrow> bool" where
  "reissued r r' =
     (geoPairs r' \<subseteq> issuedDuring ''company_geo'' r r'
      \<and> categoryPairs ''category'' r' \<subseteq> issuedDuring ''company_category'' r r'
      \<and> categoryPairs ''subcategory'' r' \<subseteq> issuedDuring ''company_subcategory'' r r')"

text \<open>
  How a later state \<open>r'\<close> relates to \<open>r\<close>. \<open>calm\<close>: the collectors are the same,
  the maps still have one entry per key, and the log has only grown. \<open>grows\<close>: the
  same, except that the collectors may hold more pairs (none is lost).
\<close>

definition calm :: "CompanyRepository \<Rightarrow> CompanyRepository \<Rightarrow> bool" where
  "calm r r' =
     (companyGeos r' = companyGeos r \<and> companyCategories r' = companyCategories r
      \<and> (keysDistinct r \<longrightarrow> keysDistinct r')
      \<and> (\<exists>evs. trace r' = trace r @ evs))"

definition grows :: "CompanyRepository \<Rightarrow> CompanyRepository \<Rightarrow> bool" where
  "grows r r' =
     (geoPairs r \<subseteq> geoPairs r'
      \<and> (\<forall>fieldType. categoryPairs fieldType r \<subseteq> categoryPairs fieldType r')
      \<and> (keysDistinct r \<longrightarrow> keysDistinct r')
      \<and> (\<exists>evs. trace r' = trace r @ evs))"


section \<open>Lemmas: strings\<close>

lemmas go_string_eval =
  TrimSpace_def trimLeft.simps trimRight.simps DecodeRuneInString_def
  DecodeLastRuneInString_def IsSpace_def RuneCountInString.simps runes.simps
  leadInfo_def lastRuneLen_def isCont_def RuneStart_def RuneError_def Let_def

lemma splitComma_nonempty: "splitComma s \<noteq> []"
  by (induction s) (auto split: list.splits)

lemma length_splitComma: "length (splitComma s) = Suc (count_list s (CHR '',''))"
  by (induction s) (auto split: list.splits simp: splitComma_nonempty)

lemma splitComma_single: "CHR '','' \<notin> set s \<Longrightarrow> splitComma s = [s]"
  by (induction s) auto

lemma runes_nonempty: "s \<noteq> [] \<Longrightarrow> runes s \<noteq> []"
  by (subst runes.simps) simp

lemma runes_Nil: "runes [] = []"
  by (subst runes.simps) simp

lemma last_rune_case:
  "(case rev (runes t) of [] \<Rightarrow> False | c # _ \<Rightarrow> P c)
     = (if length t > 0 then P (runes t ! (length (runes t) - 1)) else False)"
proof (cases "t = []")
  case True
  then show ?thesis by (simp add: runes_Nil)
next
  case False
  then have "runes t \<noteq> []" by (rule runes_nonempty)
  then obtain xs c where xc: "runes t = xs @ [c]"
    by (cases "runes t" rule: rev_cases) auto
  with False show ?thesis by simp
qed

lemma extractCategories_eq:
  assumes "s \<noteq> []"
  shows "extractCategories s =
      (if tailCleanupFires s then butlast (map TrimSpace (splitComma s))
       else map TrimSpace (splitComma s))"
proof -
  let ?toks = "map TrimSpace (splitComma s)"
  have ne: "?toks \<noteq> []" by (simp add: splitComma_nonempty)
  have l: "?toks ! (length ?toks - 1) = last ?toks"
    using ne by (simp add: last_conv_nth)
  show ?thesis
    unfolding extractCategories_def tailCleanupFires_def Let_def last_rune_case l
    using assms ne by (auto simp: butlast_conv_take)
qed

subsection \<open>Decimal numerals are injective\<close>

lemma digitChar_inj: "a < 10 \<Longrightarrow> b < 10 \<Longrightarrow> digitChar a = digitChar b \<Longrightarrow> a = b"
proof -
  assume a: "a < 10" and b: "b < 10" and e: "digitChar a = digitChar b"
  from e have "of_char (digitChar a) = (of_char (digitChar b) :: nat)" by simp
  then have "(48 + a) mod 256 = (48 + b) mod 256"
    by (simp add: digitChar_def)
  with a b show "a = b" by simp
qed

lemma digitChar_range: "d < 10 \<Longrightarrow> of_char (digitChar d) = 48 + d"
  by (simp add: digitChar_def)

lemma digits10_nonempty: "digits10 n \<noteq> []"
  by (subst digits10.simps) simp

lemma digits10_set:
  "c \<in> set (digits10 n) \<Longrightarrow> 48 \<le> (of_char c :: nat) \<and> (of_char c :: nat) \<le> 57"
proof (induction n rule: digits10.induct)
  case (1 n)
  show ?case
  proof (cases "n < 10")
    case True
    with "1.prems" have "c = digitChar n" by (subst (asm) digits10.simps) simp
    with True show ?thesis by (simp add: digitChar_range)
  next
    case False
    with "1.prems" have "c \<in> set (digits10 (n div 10)) \<or> c = digitChar (n mod 10)"
      by (subst (asm) digits10.simps) auto
    then show ?thesis
    proof
      assume "c \<in> set (digits10 (n div 10))"
      with False "1.IH" show ?thesis by simp
    next
      assume "c = digitChar (n mod 10)"
      then show ?thesis by (simp add: digitChar_range)
    qed
  qed
qed

lemma digits10_inj: "digits10 n = digits10 m \<Longrightarrow> n = m"
proof (induction n arbitrary: m rule: digits10.induct)
  case (1 n)
  show ?case
  proof (cases "n < 10")
    case n: True
    show ?thesis
    proof (cases "m < 10")
      case True
      with n "1.prems" show ?thesis
        by (subst (asm) digits10.simps, subst (asm) (2) digits10.simps)
          (simp add: digitChar_inj)
    next
      case False
      with n "1.prems" have "[digitChar n] = digits10 (m div 10) @ [digitChar (m mod 10)]"
        by (subst (asm) digits10.simps, subst (asm) (2) digits10.simps) simp
      then have "digits10 (m div 10) = []" by simp
      with digits10_nonempty show ?thesis by blast
    qed
  next
    case n: False
    show ?thesis
    proof (cases "m < 10")
      case True
      with n "1.prems" have "digits10 (n div 10) @ [digitChar (n mod 10)] = [digitChar m]"
        by (subst (asm) digits10.simps, subst (asm) (2) digits10.simps) simp
      then have "digits10 (n div 10) = []" by simp
      with digits10_nonempty show ?thesis by blast
    next
      case False
      with n "1.prems" have e: "digits10 (n div 10) @ [digitChar (n mod 10)]
          = digits10 (m div 10) @ [digitChar (m mod 10)]"
        by (subst (asm) digits10.simps, subst (asm) (2) digits10.simps) simp
      then have "digits10 (n div 10) = digits10 (m div 10)"
        and d: "digitChar (n mod 10) = digitChar (m mod 10)" by simp_all
      with n "1.IH" have "n div 10 = m div 10" by simp
      moreover from d have "n mod 10 = m mod 10" by (simp add: digitChar_inj)
      ultimately show ?thesis by (metis div_mult_mod_eq)
    qed
  qed
qed

lemma Sprintf_d_nonempty: "Sprintf_d a \<noteq> []"
  by (simp add: Sprintf_d_def digits10_nonempty)

lemma Sprintf_d_no_colon: "CHR '':'' \<notin> set (Sprintf_d a)"
proof
  assume "CHR '':'' \<in> set (Sprintf_d a)"
  then have "CHR '':'' \<in> set (digits10 (nat (- a))) \<or> CHR '':'' \<in> set (digits10 (nat a))"
    by (auto simp: Sprintf_d_def split: if_splits)
  then show False using digits10_set [of "CHR '':''"] by auto
qed

lemma digits10_hd: "hd (digits10 n) \<noteq> CHR ''-''"
proof -
  have "hd (digits10 n) \<in> set (digits10 n)" using digits10_nonempty by simp
  from digits10_set [OF this] show ?thesis by auto
qed

lemma Sprintf_d_inj: "Sprintf_d a = Sprintf_d b \<Longrightarrow> a = b"
proof -
  assume e: "Sprintf_d a = Sprintf_d b"
  show "a = b"
  proof (cases "a < 0")
    case a: True
    show ?thesis
    proof (cases "b < 0")
      case True
      with a e have "digits10 (nat (- a)) = digits10 (nat (- b))" by (simp add: Sprintf_d_def)
      then have "nat (- a) = nat (- b)" by (rule digits10_inj)
      with a True show ?thesis by simp
    next
      case False
      with a e have "CHR ''-'' # digits10 (nat (- a)) = digits10 (nat b)"
        by (simp add: Sprintf_d_def)
      then have "hd (digits10 (nat b)) = CHR ''-''" by (metis list.sel(1))
      with digits10_hd show ?thesis by blast
    qed
  next
    case a: False
    show ?thesis
    proof (cases "b < 0")
      case True
      with a e have "digits10 (nat a) = CHR ''-'' # digits10 (nat (- b))"
        by (simp add: Sprintf_d_def)
      then have "hd (digits10 (nat a)) = CHR ''-''" by (metis list.sel(1))
      with digits10_hd show ?thesis by blast
    next
      case False
      with a e have "digits10 (nat a) = digits10 (nat b)" by (simp add: Sprintf_d_def)
      then have "nat a = nat b" by (rule digits10_inj)
      with a False show ?thesis by simp
    qed
  qed
qed

text \<open>One slot of the key: empty for \<open>nil\<close>, the numeral otherwise.\<close>

lemma slot_inj:
  "(case a of None \<Rightarrow> [] | Some n \<Rightarrow> Sprintf_d n) = (case b of None \<Rightarrow> [] | Some n \<Rightarrow> Sprintf_d n)
     \<Longrightarrow> a = b"
  by (cases a; cases b)
    (auto simp: Sprintf_d_nonempty Sprintf_d_nonempty [symmetric] dest: Sprintf_d_inj)

lemma slot_no_colon: "CHR '':'' \<notin> set (case a of None \<Rightarrow> [] | Some n \<Rightarrow> Sprintf_d n)"
  by (cases a) (simp_all add: Sprintf_d_no_colon)

lemma colon_split:
  "c \<notin> set a \<Longrightarrow> c \<notin> set a' \<Longrightarrow> a @ c # r = a' @ c # r' \<Longrightarrow> a = a' \<and> r = r'"
proof (induction a arbitrary: a')
  case Nil
  then show ?case by (cases a') auto
next
  case (Cons x a)
  then show ?case by (cases a') auto
qed

section \<open>Lemmas: the worker\<close>

lemma sint64_of_int:
  "- (2 ^ 63) \<le> k \<Longrightarrow> k < 2 ^ 63 \<Longrightarrow> sint (word_of_int k :: 64 word) = k"
  by (subst sint_sbintrunc') (simp add: signed_take_bit_int_eq_self)


lemma sleepNanos_seconds:
  "- 2147483648 \<le> n \<Longrightarrow> n \<le> 2147483648 \<Longrightarrow> sleepNanos n = nat (n * 1000000000)"
proof -
  assume a: "- 2147483648 \<le> n" and b: "n \<le> 2147483648"
  have lo: "- (2 ^ 63) \<le> n * 1000000000" using a by simp
  have hi: "n * 1000000000 < 2 ^ 63" using b by simp
  show ?thesis unfolding sleepNanos_def sint64_of_int [OF lo hi] ..
qed




lemma handleResult_success:
  "actions (handleResult d None w1) = actions w1 @ [Ack (DeliveryTag d) False]"
  by (simp add: handleResult_def act_def)

lemma handleResult_reject:
  "\<not> (isRetryableError (Some e) \<and> getRetryCount (Headers d) < 10) \<Longrightarrow>
   actions (handleResult d (Some e) w1) = actions w1 @ [Nack (DeliveryTag d) False False]"
  by (auto simp: handleResult_def act_def Let_def)

lemma handleResult_republish:
  "isRetryableError (Some e) \<Longrightarrow> getRetryCount (Headers d) < 10 \<Longrightarrow> \<not> publishFails w1 \<Longrightarrow>
   actions (handleResult d (Some e) w1) =
     actions w1 @ [Slept (sleepNanos (getRetryCount (Headers d) + 1)),
                   Published '''' (queueName w1) False False
                     (republishedMsg d (clock w1 + sleepNanos (getRetryCount (Headers d) + 1))),
                   Ack (DeliveryTag d) False]"
  by (auto simp: handleResult_def act_def Let_def Publish_def sleepFor_def republishedMsg_def
      publishFails_def split: list.splits option.splits)

lemma handleResult_requeue:
  "isRetryableError (Some e) \<Longrightarrow> getRetryCount (Headers d) < 10 \<Longrightarrow> publishFails w1 \<Longrightarrow>
   actions (handleResult d (Some e) w1) =
     actions w1 @ [Slept (sleepNanos (getRetryCount (Headers d) + 1)),
                   Nack (DeliveryTag d) False True]"
  by (auto simp: handleResult_def act_def Let_def Publish_def sleepFor_def
      publishFails_def split: list.splits option.splits)





lemmas worker_eval =
  handleResult_def handleDelivery_def processMessage_def resolvePath_def act_def Publish_def
  sleepFor_def sleepNanos_def getRetryCount_def isRetryableError_def retryableErrors_def
  publishFails_def republishedMsg_def redeliver_def onWire_def
  freshDelivery_def lastDelivery_def idleWorker_def deadlockMessage_def
  headerOnlyTask_def headerOnlyLibrary_def

section \<open>Lemmas: the repository\<close>

lemma bind_weak_cong: "x = y \<Longrightarrow> Option.bind x f = Option.bind y f" by simp

lemmas message_eval =
  msgRetryNotice_def msgRetryLimit_def msgBeginTx_def msgPreload_def msgDisableFK_def
  msgBatchGeo_def msgBatchCompanies_def msgLinksGeo_def msgLinksCategories_def
  msgCommitTx_def msgBeginDict_def msgCommitDict_def msgPreloadDict_def
  msgPreloadDictAfter_def msgInsertTable_def msgLoadTable_def msgInsertGeo_def
  msgCreateTemp_def msgInsertTemp_def msgLoadGeo_def msgInsertCompanies_def
  msgLoadCompanies_def msgInsertLinks_def msgDecode_def msgFileNotFound_def sp_def
  ru_oshibka_def ru_nachala_def ru_tranzaktsii_def ru_dlya_def ru_spravochnika_def
  ru_spravochnikov_def ru_kommita_def ru_predzagruzki_def ru_posle_def ru_popytok_def
  ru_pri_def ru_vstavke_def ru_zagruzke_def ru_otklyucheniya_def ru_batch_def
  ru_vstavki_def ru_kompaniy_def ru_svyazey_def ru_sozdaniya_def ru_vremennoy_def
  ru_tablitsy_def ru_vo_def ru_vremennuyu_def ru_tablitsu_def ru_Povtornaya_def
  ru_popytka_def ru_importa_def ru_prevyshen_def ru_limit_def ru_importe_def
  ru_dekodirovaniya_def ru_zadachi_def ru_fayl_def ru_ne_def ru_nayden_def

lemmas repo_eval =
  Insert_def insertAttempts.simps insertWithRetry_def insertInTx_def maxRetries_def
  preloadDictionariesOutsideTx_def preloadAttempts.simps collectUniqueValues_def collectUnique_def
  markUnique_def tablesOrder_def batchInsertDictionary_def loadDictionaryFromDB_def
  storeNameRow_def getCacheForTable_def chunked.simps
  batchInsertGeo_def loadGeoFromDB_def storeGeoRow_def nullIntToPtr_def
  batchInsertCompanies_def uniqueCompanies_def loadCompaniesFromDB_def storeCompanyRow_def
  linkRecord_def getGeoID_def getIDFromCache_def getCategoryIDs_def lookupIDs_def
  collectCompanyGeos_def collectCompanyCategories_def sliceAt_def uniqueInts_def
  insertCompanyGeos_def insertCompanyCategories_def flattenGeos_def flattenCategories_def
  pivotBatchSize_def GetSummary_def
  Lock_def Unlock_def RLock_def RUnlock_def addError_def unlocked_def
  dbBegin_def txExec_def txQueryNames_def txQueryGeo_def txCommit_def txRollback_def
  txView_def nextFault_def failure_def deliver_def selectNames_def selectGeoJoin_def
  Sleep_def Intn_def retryDelay_def deadlockIndicator_def
  NewCompanyRepository_def emptyDatabase_def enumerate_eq_zip
  extractCategories_def go_string_eval buildGeoKey_def Sprintf_d_def digits10.simps digitChar_def
  baselineRow_def geolessRow_def plainRow_def freshRepository_def deadlockedRepository_def
  deadlockMessage_def


lemma mu_same: "mu r = m \<Longrightarrow> r\<lparr>mu := m\<rparr> = r"
  by (cases r) auto

lemma addError_under_Lock: "Lock r = Some r' \<Longrightarrow> addError msg r' = None"
  by (auto simp: Lock_def addError_def split: if_splits)

lemma Insert_blocks:
  assumes "records \<noteq> []" and "insertWithRetry records r = Some (Some e, r1)"
    and "deadlockIndicator e"
  shows "Insert records r = None"
proof -
  have n: "insertAttempts records 1 (Some e) r1 = None"
    by (subst insertAttempts.simps)
      (auto simp: maxRetries_def Lock_def addError_def split: if_splits Option.bind_splits)
  show ?thesis
    unfolding Insert_def
    using assms n by (subst insertAttempts.simps) (simp add: maxRetries_def)
qed

lemma Insert_other_error:
  assumes "records \<noteq> []" and "insertWithRetry records r = Some (Some e, r1)"
    and "\<not> deadlockIndicator e"
  shows "Insert records r = Some (Some e, r1)"
  unfolding Insert_def
  using assms by (subst insertAttempts.simps) (simp add: maxRetries_def)

lemma Insert_first_success:
  assumes "records \<noteq> []" and "insertWithRetry records r = Some (None, r1)"
  shows "Insert records r = Some (None, r1)"
  unfolding Insert_def
  using assms by (subst insertAttempts.simps) (simp add: maxRetries_def)






lemma collectCompanyCategories_result:
  "collectCompanyCategories companyID categoryIDs subcategoryIDs r = Some r' \<Longrightarrow>
   \<exists>types cc1. companyCategories r' = AList.update companyID types cc1
     \<and> (cc1 = companyCategories r \<or> cc1 = AList.update companyID [] (companyCategories r))"
  unfolding collectCompanyCategories_def Lock_def Unlock_def Let_def
  by (fastforce split: if_splits)

lemma collectCompanyCategories_keys:
  assumes "collectCompanyCategories companyID categoryIDs subcategoryIDs r = Some r'"
  shows "fst ` set (companyCategories r') = insert companyID (fst ` set (companyCategories r))"
    and "distinct (map fst (companyCategories r)) \<Longrightarrow> distinct (map fst (companyCategories r'))"
proof -
  from collectCompanyCategories_result [OF assms] obtain types cc1
    where e: "companyCategories r' = AList.update companyID types cc1"
      and c: "cc1 = companyCategories r \<or> cc1 = AList.update companyID [] (companyCategories r)"
    by blast
  have k: "fst ` set (AList.update a v al) = insert a (fst ` set al)"
    for a :: int and v :: "(string \<times> int list) list" and al
    by (simp add: dom_update)
  from c show "fst ` set (companyCategories r') = insert companyID (fst ` set (companyCategories r))"
    unfolding e k by (elim disjE) (simp_all add: k)
  assume "distinct (map fst (companyCategories r))"
  with c show "distinct (map fst (companyCategories r'))"
    unfolding e by (auto simp: distinct_update)
qed

section \<open>Lemmas: what the operations keep\<close>

lemma calm_refl [simp]: "calm r r"
  by (simp add: calm_def)

lemma calm_trans: "calm r r1 \<Longrightarrow> calm r1 r2 \<Longrightarrow> calm r r2"
  by (auto simp: calm_def)

lemma grows_refl [simp]: "grows r r"
  by (simp add: grows_def)

lemma grows_trans: "grows r r1 \<Longrightarrow> grows r1 r2 \<Longrightarrow> grows r r2"
  unfolding grows_def by (elim conjE exE, intro conjI) (blast, blast, blast, simp)

lemma calm_grows: "calm r r' \<Longrightarrow> grows r r'"
  by (auto simp: calm_def grows_def geoPairs_def categoryPairs_def)

subsection \<open>The primitives\<close>

lemma Lock_calm: "Lock r = Some r' \<Longrightarrow> calm r r'"
  by (auto simp: Lock_def calm_def keysDistinct_def split: if_splits)

lemma Unlock_calm: "Unlock r = Some r' \<Longrightarrow> calm r r'"
  by (auto simp: Unlock_def calm_def keysDistinct_def split: if_splits)

lemma RLock_calm: "RLock r = Some r' \<Longrightarrow> calm r r'"
  by (auto simp: RLock_def calm_def keysDistinct_def split: if_splits)

lemma RUnlock_calm: "RUnlock r = Some r' \<Longrightarrow> calm r r'"
  by (auto simp: RUnlock_def calm_def keysDistinct_def split: if_splits)

lemma addError_calm: "addError msg r = Some r' \<Longrightarrow> calm r r'"
  by (auto simp: addError_def Lock_def Unlock_def calm_def keysDistinct_def
      split: if_splits Option.bind_splits)

lemma Sleep_calm: "calm r (Sleep n r)"
  by (simp add: Sleep_def calm_def keysDistinct_def)

lemma Intn_calm: "Intn n r = (x, r') \<Longrightarrow> calm r r'"
  by (auto simp: Intn_def calm_def keysDistinct_def split: list.splits)

lemma dbBegin_calm: "dbBegin tx r = (e, r') \<Longrightarrow> calm r r'"
  by (auto simp: dbBegin_def nextFault_def calm_def keysDistinct_def
      split: list.splits option.splits prod.splits)

lemma txExec_calm: "txExec tx s r = (e, r') \<Longrightarrow> calm r r'"
  by (auto simp: txExec_def nextFault_def calm_def keysDistinct_def
      split: list.splits option.splits prod.splits)

lemma txQueryNames_calm: "txQueryNames tx t ns r = (e, r') \<Longrightarrow> calm r r'"
  by (auto simp: txQueryNames_def nextFault_def calm_def keysDistinct_def
      split: list.splits option.splits prod.splits)

lemma txQueryGeo_calm: "txQueryGeo tx r = (e, r') \<Longrightarrow> calm r r'"
  by (auto simp: txQueryGeo_def nextFault_def calm_def keysDistinct_def
      split: list.splits option.splits prod.splits)

lemma txCommit_calm: "txCommit tx r = (e, r') \<Longrightarrow> calm r r'"
  by (auto simp: txCommit_def nextFault_def calm_def keysDistinct_def
      split: list.splits option.splits prod.splits)

lemma txRollback_calm: "calm r (txRollback tx r)"
  by (simp add: txRollback_def calm_def keysDistinct_def)

lemma execAll_calm: "execAll tx ss r = (e, r') \<Longrightarrow> calm r r'"
proof (induction ss arbitrary: r)
  case Nil
  then show ?case by simp
next
  case (Cons s ss)
  obtain e1 r1 where x: "txExec tx s r = (e1, r1)" by (cases "txExec tx s r")
  show ?case
  proof (cases e1)
    case None
    with Cons.prems x have "execAll tx ss r1 = (e, r')" by simp
    from calm_trans [OF txExec_calm [OF x] Cons.IH [OF this]] show ?thesis .
  next
    case (Some a)
    with Cons.prems x have "r' = r1" by simp
    with txExec_calm [OF x] show ?thesis by simp
  qed
qed

lemma foldl_calm: "(\<And>r x. calm r (f r x)) \<Longrightarrow> calm r (foldl f r xs)"
  by (induction xs arbitrary: r) (auto intro: calm_trans)

lemma storeNameRow_calm: "calm r (storeNameRow table r row)"
  by (auto simp: storeNameRow_def calm_def keysDistinct_def Let_def distinct_update)

lemma storeGeoRow_calm: "calm r (storeGeoRow r row)"
  by (auto simp: storeGeoRow_def calm_def keysDistinct_def distinct_update split: prod.splits)

lemma storeCompanyRow_calm: "calm r (storeCompanyRow r row)"
  by (auto simp: storeCompanyRow_def calm_def keysDistinct_def Let_def distinct_update)

text \<open>
  The same facts as rules that go back along a run: the state after a call is calm
  with respect to \<open>r0\<close> when the state before it is.
\<close>

named_theorems calmE
named_theorems calmR

lemma calmE_Lock [calmE]: "Lock r = Some r' \<Longrightarrow> calm r0 r \<Longrightarrow> calm r0 r'"
  by (blast intro: calm_trans Lock_calm)

lemma calmE_Unlock [calmE]: "Unlock r = Some r' \<Longrightarrow> calm r0 r \<Longrightarrow> calm r0 r'"
  by (blast intro: calm_trans Unlock_calm)

lemma calmE_RLock [calmE]: "RLock r = Some r' \<Longrightarrow> calm r0 r \<Longrightarrow> calm r0 r'"
  by (blast intro: calm_trans RLock_calm)

lemma calmE_RUnlock [calmE]: "RUnlock r = Some r' \<Longrightarrow> calm r0 r \<Longrightarrow> calm r0 r'"
  by (blast intro: calm_trans RUnlock_calm)

lemma calmE_addError [calmE]: "addError msg r = Some r' \<Longrightarrow> calm r0 r \<Longrightarrow> calm r0 r'"
  by (blast intro: calm_trans addError_calm)

lemma calmE_Intn [calmE]: "Intn n r = (x, r') \<Longrightarrow> calm r0 r \<Longrightarrow> calm r0 r'"
  by (blast intro: calm_trans Intn_calm)

lemma calmE_dbBegin [calmE]: "dbBegin tx r = (e, r') \<Longrightarrow> calm r0 r \<Longrightarrow> calm r0 r'"
  by (blast intro: calm_trans dbBegin_calm)

lemma calmE_txExec [calmE]: "txExec tx s r = (e, r') \<Longrightarrow> calm r0 r \<Longrightarrow> calm r0 r'"
  by (blast intro: calm_trans txExec_calm)

lemma calmE_txQueryNames [calmE]:
  "txQueryNames tx t ns r = (e, r') \<Longrightarrow> calm r0 r \<Longrightarrow> calm r0 r'"
  by (blast intro: calm_trans txQueryNames_calm)

lemma calmE_txQueryGeo [calmE]: "txQueryGeo tx r = (e, r') \<Longrightarrow> calm r0 r \<Longrightarrow> calm r0 r'"
  by (blast intro: calm_trans txQueryGeo_calm)

lemma calmE_txCommit [calmE]: "txCommit tx r = (e, r') \<Longrightarrow> calm r0 r \<Longrightarrow> calm r0 r'"
  by (blast intro: calm_trans txCommit_calm)

lemma calmE_execAll [calmE]: "execAll tx ss r = (e, r') \<Longrightarrow> calm r0 r \<Longrightarrow> calm r0 r'"
  by (blast intro: calm_trans execAll_calm)

lemma calmR_Sleep [calmR]: "calm r0 r \<Longrightarrow> calm r0 (Sleep n r)"
  by (blast intro: calm_trans Sleep_calm)

lemma calmR_txRollback [calmR]: "calm r0 r \<Longrightarrow> calm r0 (txRollback tx r)"
  by (blast intro: calm_trans txRollback_calm)

lemma calmR_storeNames [calmR]: "calm r0 r \<Longrightarrow> calm r0 (foldl (storeNameRow table) r rows)"
  by (blast intro: calm_trans foldl_calm storeNameRow_calm)

lemma calmR_storeGeo [calmR]: "calm r0 r \<Longrightarrow> calm r0 (foldl storeGeoRow r rows)"
  by (blast intro: calm_trans foldl_calm storeGeoRow_calm)

lemma calmR_storeCompanies [calmR]: "calm r0 r \<Longrightarrow> calm r0 (foldl storeCompanyRow r rows)"
  by (blast intro: calm_trans foldl_calm storeCompanyRow_calm)

subsection \<open>Dictionaries, geo and companies\<close>

lemma loadDictionaryBatches_calm [calmE]:
  "loadDictionaryBatches tx table batches r = Some (e, r') \<Longrightarrow> calm r0 r \<Longrightarrow> calm r0 r'"
proof (induction batches arbitrary: r)
  case Nil
  then show ?case by simp
next
  case (Cons batch rest)
  from Cons.prems show ?case
    by (auto split: prod.splits sum.splits Option.bind_splits rowsEnd.splits)
      ((erule calmE Cons.IH | rule calmR | assumption)+)+
qed

lemma loadDictionaryFromDB_calm [calmE]:
  "loadDictionaryFromDB tx table names r = Some (e, r') \<Longrightarrow> calm r0 r \<Longrightarrow> calm r0 r'"
  by (auto simp: loadDictionaryFromDB_def split: if_splits elim: calmE)

lemma batchInsertDictionary_calm [calmE]:
  "batchInsertDictionary tx table names r = Some (e, r') \<Longrightarrow> calm r0 r \<Longrightarrow> calm r0 r'"
  unfolding batchInsertDictionary_def
  by (auto split: if_splits prod.splits option.splits Option.bind_splits)
    ((erule calmE | rule calmR | assumption)+)+

lemma preloadAttempts_calm [calmE]:
  "preloadAttempts table names attempt lastErr r = Some (res, r') \<Longrightarrow> calm r0 r
     \<Longrightarrow> calm r0 r'"
proof (induction "3 - attempt" arbitrary: attempt lastErr r)
  case 0
  then show ?case by (subst (asm) preloadAttempts.simps) simp
next
  case (Suc n)
  note ih = Suc.hyps(1) [rotated]
  from Suc.hyps(2) have a: "attempt < 3" by simp
  from Suc.prems a Suc.hyps(2) show ?case
    apply (subst (asm) preloadAttempts.simps)
    apply (auto simp: Let_def split: if_splits prod.splits option.splits)
    apply ((erule calmE ih | rule calmR | assumption | arith)+)+
    done
qed


lemma preloadTables_calm [calmE]:
  "preloadTables tables uv r = Some (e, r') \<Longrightarrow> calm r0 r \<Longrightarrow> calm r0 r'"
proof (induction tables arbitrary: r)
  case Nil
  then show ?case by simp
next
  case (Cons it rest)
  obtain i table where it: "it = (i, table)" by (cases it)
  from Cons.prems show ?case
    unfolding it
    apply (auto simp: Let_def split: if_splits prod.splits option.splits sum.splits)
    apply ((erule calmE Cons.IH | rule calmR | assumption)+)+
    done
qed

lemma preloadDictionariesOutsideTx_calm [calmE]:
  "preloadDictionariesOutsideTx records r = Some (e, r') \<Longrightarrow> calm r0 r \<Longrightarrow> calm r0 r'"
  unfolding preloadDictionariesOutsideTx_def by (erule calmE)

lemma collectGeoData_calm [calmE]:
  "collectGeoData records geoData r = Some (g, r') \<Longrightarrow> calm r0 r \<Longrightarrow> calm r0 r'"
proof (induction records arbitrary: geoData r)
  case Nil
  then show ?case by simp
next
  case (Cons rec rest)
  from Cons.prems show ?case
    apply (auto simp: Let_def split: if_splits Option.bind_splits)
    apply ((erule calmE Cons.IH | rule calmR | assumption)+)+
    done
qed

lemma loadGeoFromDB_calm [calmE]:
  "loadGeoFromDB tx geoList r = Some (e, r') \<Longrightarrow> calm r0 r \<Longrightarrow> calm r0 r'"
  unfolding loadGeoFromDB_def
  apply (auto split: if_splits prod.splits option.splits sum.splits rowsEnd.splits
      Option.bind_splits)
  apply ((erule calmE | rule calmR | assumption)+)+
  done

lemma batchInsertGeo_calm [calmE]:
  "batchInsertGeo tx records r = Some (e, r') \<Longrightarrow> calm r0 r \<Longrightarrow> calm r0 r'"
  unfolding batchInsertGeo_def
  apply (auto simp: Let_def split: if_splits prod.splits option.splits Option.bind_splits)
  apply ((erule calmE | rule calmR | assumption)+)+
  done

lemma loadCompaniesFromDB_calm [calmE]:
  "loadCompaniesFromDB tx names r = Some (e, r') \<Longrightarrow> calm r0 r \<Longrightarrow> calm r0 r'"
  unfolding loadCompaniesFromDB_def
  apply (auto simp: Let_def split: if_splits prod.splits option.splits sum.splits
      rowsEnd.splits Option.bind_splits)
  apply ((erule calmE | rule calmR | assumption)+)+
  done

lemma batchInsertCompanies_calm [calmE]:
  "batchInsertCompanies tx records r = Some (e, r') \<Longrightarrow> calm r0 r \<Longrightarrow> calm r0 r'"
  unfolding batchInsertCompanies_def
  apply (auto simp: Let_def split: if_splits prod.splits option.splits Option.bind_splits)
  apply ((erule calmE | rule calmR | assumption)+)+
  done

lemma insertCompanyGeos_calm [calmE]:
  "insertCompanyGeos tx r = Some (e, r') \<Longrightarrow> calm r0 r \<Longrightarrow> calm r0 r'"
  unfolding insertCompanyGeos_def
  apply (auto simp: Let_def split: if_splits prod.splits option.splits Option.bind_splits)
  apply ((erule calmE | rule calmR | assumption)+)+
  done

lemma insertCategoryFields_calm [calmE]:
  "insertCategoryFields tx fieldTypes r = Some (e, r') \<Longrightarrow> calm r0 r \<Longrightarrow> calm r0 r'"
proof (induction fieldTypes arbitrary: r)
  case Nil
  then show ?case by simp
next
  case (Cons fieldType rest)
  from Cons.prems show ?case
    apply (auto simp: Let_def split: if_splits prod.splits option.splits Option.bind_splits)
    apply ((erule calmE Cons.IH | rule calmR | assumption)+)+
    done
qed

lemma insertCompanyCategories_calm [calmE]:
  "insertCompanyCategories tx r = Some (e, r') \<Longrightarrow> calm r0 r \<Longrightarrow> calm r0 r'"
  unfolding insertCompanyCategories_def
  apply (auto simp: Let_def split: if_splits prod.splits option.splits Option.bind_splits)
  apply ((erule calmE | rule calmR | assumption)+)+
  done

lemma getGeoID_calm [calmE]:
  "getGeoID rec r = Some (g, r') \<Longrightarrow> calm r0 r \<Longrightarrow> calm r0 r'"
  unfolding getGeoID_def
  apply (auto simp: Let_def split: if_splits Option.bind_splits)
  apply ((erule calmE | rule calmR | assumption)+)+
  done

lemma getCategoryIDs_calm [calmE]:
  "getCategoryIDs rec r = Some (g, r') \<Longrightarrow> calm r0 r \<Longrightarrow> calm r0 r'"
  unfolding getCategoryIDs_def
  apply (auto simp: Let_def split: if_splits Option.bind_splits)
  apply ((erule calmE | rule calmR | assumption)+)+
  done

lemma GetSummary_calm [calmE]:
  "GetSummary r = Some (s, r') \<Longrightarrow> calm r0 r \<Longrightarrow> calm r0 r'"
  unfolding GetSummary_def
  apply (auto simp: Let_def split: if_splits Option.bind_splits)
  apply ((erule calmE | rule calmR | assumption)+)+
  done

subsection \<open>The collectors only grow\<close>

lemma set_uniqueInts_fold:
  "set (foldl (\<lambda>result v. if v \<in> set result then result else result @ [v]) acc ints)
     = set acc \<union> set ints"
  by (induction ints arbitrary: acc) auto

lemma set_uniqueInts: "set (uniqueInts ints) = set ints"
  by (simp add: uniqueInts_def set_uniqueInts_fold)

lemma flattenGeos_Cons:
  "set (flattenGeos ((k, v) # al)) = (\<lambda>g. (k, g)) ` set v \<union> set (flattenGeos al)"
  by (auto simp: flattenGeos_def)

lemma flattenGeos_update:
  "(case map_of al k of Some old \<Rightarrow> set old \<subseteq> set v | None \<Rightarrow> True) \<Longrightarrow>
   set (flattenGeos al) \<subseteq> set (flattenGeos (AList.update k v al))"
proof (induction al)
  case Nil
  then show ?case by (simp add: flattenGeos_def)
next
  case (Cons p al)
  obtain k' v' where p: "p = (k', v')" by (cases p)
  show ?case
  proof (cases "k' = k")
    case True
    with Cons.prems p show ?thesis by (auto simp: flattenGeos_Cons)
  next
    case False
    with Cons.prems p have "set (flattenGeos al) \<subseteq> set (flattenGeos (AList.update k v al))"
      by (intro Cons.IH) simp
    with False p show ?thesis by (auto simp: flattenGeos_Cons)
  qed
qed

lemma flattenCategories_Cons:
  "set (flattenCategories ft ((k, types) # al))
     = (\<lambda>g. (k, g)) ` set (sliceAt types ft) \<union> set (flattenCategories ft al)"
  by (auto simp: flattenCategories_def sliceAt_def split: option.splits)

lemma flattenCategories_update:
  "(case map_of al k of Some old \<Rightarrow> set (sliceAt old ft) \<subseteq> set (sliceAt types ft) | None \<Rightarrow> True)
   \<Longrightarrow> set (flattenCategories ft al) \<subseteq> set (flattenCategories ft (AList.update k types al))"
proof (induction al)
  case Nil
  then show ?case by (simp add: flattenCategories_def)
next
  case (Cons p al)
  obtain k' v' where p: "p = (k', v')" by (cases p)
  show ?case
  proof (cases "k' = k")
    case True
    with Cons.prems p show ?thesis by (auto simp: flattenCategories_Cons)
  next
    case False
    with Cons.prems p
    have "set (flattenCategories ft al) \<subseteq> set (flattenCategories ft (AList.update k types al))"
      by (intro Cons.IH) simp
    with False p show ?thesis by (auto simp: flattenCategories_Cons)
  qed
qed

lemma collectCompanyGeos_grows: "collectCompanyGeos companyID geoID r = Some r' \<Longrightarrow> grows r r'"
proof -
  assume a: "collectCompanyGeos companyID geoID r = Some r'"
  let ?geos1 = "if map_of (companyGeos r) companyID = None
                then AList.update companyID [] (companyGeos r) else companyGeos r"
  let ?existing = "case map_of ?geos1 companyID of Some g \<Rightarrow> g | None \<Rightarrow> []"
  have s1: "set (flattenGeos (companyGeos r)) \<subseteq> set (flattenGeos ?geos1)"
    by (auto intro: flattenGeos_update [THEN subsetD])
  have s2: "set (flattenGeos ?geos1)
      \<subseteq> set (flattenGeos (AList.update companyID (?existing @ [geoID]) ?geos1))"
    by (rule flattenGeos_update) (auto split: option.splits)
  have d: "distinct (map fst (companyGeos r)) \<Longrightarrow> distinct (map fst ?geos1)
      \<and> distinct (map fst (AList.update companyID (?existing @ [geoID]) ?geos1))"
    by (simp add: distinct_update)
  from a have "companyGeos r' = ?geos1
      \<or> companyGeos r' = AList.update companyID (?existing @ [geoID]) ?geos1"
    and o: "companyCategories r' = companyCategories r \<and> trace r' = trace r
      \<and> region r' = region r \<and> district r' = district r \<and> city r' = city r
      \<and> category r' = category r \<and> subcategory r' = subcategory r \<and> company r' = company r
      \<and> geoCache r' = geoCache r"
    unfolding collectCompanyGeos_def Lock_def Unlock_def Let_def
    by (auto split: if_splits)
  with s1 s2 d show ?thesis
    unfolding grows_def geoPairs_def categoryPairs_def keysDistinct_def
    by (elim disjE) auto
qed


lemma sliceAt_update:
  "sliceAt (AList.update k v types) ft = (if ft = k then v else sliceAt types ft)"
  by (simp add: sliceAt_def update_conv')

lemma sliceAt_make:
  "sliceAt (if map_of types k = None then AList.update k [] types else types) ft
     = sliceAt types ft"
  by (auto simp: sliceAt_def update_conv')

lemma collectCompanyCategories_grows:
  "collectCompanyCategories companyID categoryIDs subcategoryIDs r = Some r' \<Longrightarrow> grows r r'"
proof -
  assume a: "collectCompanyCategories companyID categoryIDs subcategoryIDs r = Some r'"
  define cc1 where "cc1 = (if map_of (companyCategories r) companyID = None
              then AList.update companyID [] (companyCategories r)
              else companyCategories r)"
  define types1 where "types1 = (case map_of cc1 companyID of Some m \<Rightarrow> m | None \<Rightarrow> [])"
  define types2 where "types2 = (if map_of types1 ''category'' = None
                 then AList.update ''category'' [] types1 else types1)"
  define types3 where "types3 = AList.update ''category''
                   (uniqueInts (sliceAt types2 ''category'' @ categoryIDs)) types2"
  define types4 where "types4 = (if map_of types3 ''subcategory'' = None
                 then AList.update ''subcategory'' [] types3 else types3)"
  define types5 where "types5 = AList.update ''subcategory''
                   (uniqueInts (sliceAt types4 ''subcategory'' @ subcategoryIDs)) types4"
  have t2: "sliceAt types2 ft = sliceAt types1 ft" for ft
    unfolding types2_def by (rule sliceAt_make)
  have t3: "set (sliceAt types2 ft) \<subseteq> set (sliceAt types3 ft)" for ft
    unfolding types3_def sliceAt_update by (auto simp: set_uniqueInts)
  have t4: "sliceAt types4 ft = sliceAt types3 ft" for ft
    unfolding types4_def by (rule sliceAt_make)
  have t5: "set (sliceAt types4 ft) \<subseteq> set (sliceAt types5 ft)" for ft
    unfolding types5_def sliceAt_update by (auto simp: set_uniqueInts)
  have t: "set (sliceAt types1 ft) \<subseteq> set (sliceAt types5 ft)" for ft
    using t3 [of ft] t5 [of ft] unfolding t2 t4 by (rule subset_trans)
  have s1: "set (flattenCategories ft (companyCategories r)) \<subseteq> set (flattenCategories ft cc1)"
    for ft
    unfolding cc1_def by (auto intro: flattenCategories_update [THEN subsetD])
  have s2: "set (flattenCategories ft cc1)
      \<subseteq> set (flattenCategories ft (AList.update companyID types5 cc1))" for ft
  proof (rule flattenCategories_update)
    show "case map_of cc1 companyID of None \<Rightarrow> True
      | Some old \<Rightarrow> set (sliceAt old ft) \<subseteq> set (sliceAt types5 ft)"
      using t [of ft] unfolding types1_def by (cases "map_of cc1 companyID") simp_all
  qed
  have s: "categoryPairs ft r \<subseteq> set (flattenCategories ft (AList.update companyID types5 cc1))"
    for ft
    unfolding categoryPairs_def using s1 [of ft] s2 [of ft] by (rule subset_trans)
  have d: "distinct (map fst (companyCategories r)) \<Longrightarrow>
      distinct (map fst (AList.update companyID types5 cc1))"
    unfolding cc1_def by (simp add: distinct_update)
  from a have e: "companyCategories r' = AList.update companyID types5 cc1"
    and o: "companyGeos r' = companyGeos r" "trace r' = trace r"
      "region r' = region r" "district r' = district r" "city r' = city r"
      "category r' = category r" "subcategory r' = subcategory r" "company r' = company r"
      "geoCache r' = geoCache r"
    unfolding collectCompanyCategories_def Lock_def Unlock_def Let_def
      types5_def types4_def types3_def types2_def types1_def cc1_def
    by (auto split: if_splits)
  have 1: "geoPairs r \<subseteq> geoPairs r'" by (simp add: geoPairs_def o)
  have 2: "\<forall>ft. categoryPairs ft r \<subseteq> categoryPairs ft r'"
    using s by (simp add: categoryPairs_def [of _ r'] e)
  have 3: "keysDistinct r \<longrightarrow> keysDistinct r'"
    using d by (simp add: keysDistinct_def o e)
  have 4: "\<exists>evs. trace r' = trace r @ evs" by (simp add: o)
  from 1 2 3 4 show ?thesis unfolding grows_def by blast
qed

named_theorems growsE
named_theorems growsR

lemma grows_after_calm: "calm r r' \<Longrightarrow> grows r0 r \<Longrightarrow> grows r0 r'"
  by (blast intro: grows_trans calm_grows)

lemma growsE_Lock [growsE]: "Lock r = Some r' \<Longrightarrow> grows r0 r \<Longrightarrow> grows r0 r'"
  by (blast intro: grows_after_calm Lock_calm)

lemma growsE_Unlock [growsE]: "Unlock r = Some r' \<Longrightarrow> grows r0 r \<Longrightarrow> grows r0 r'"
  by (blast intro: grows_after_calm Unlock_calm)

lemma growsE_RLock [growsE]: "RLock r = Some r' \<Longrightarrow> grows r0 r \<Longrightarrow> grows r0 r'"
  by (blast intro: grows_after_calm RLock_calm)

lemma growsE_RUnlock [growsE]: "RUnlock r = Some r' \<Longrightarrow> grows r0 r \<Longrightarrow> grows r0 r'"
  by (blast intro: grows_after_calm RUnlock_calm)

lemma growsE_addError [growsE]: "addError msg r = Some r' \<Longrightarrow> grows r0 r \<Longrightarrow> grows r0 r'"
  by (blast intro: grows_after_calm addError_calm)

lemma growsE_Intn [growsE]: "Intn n r = (x, r') \<Longrightarrow> grows r0 r \<Longrightarrow> grows r0 r'"
  by (blast intro: grows_after_calm Intn_calm)

lemma growsE_dbBegin [growsE]: "dbBegin tx r = (e, r') \<Longrightarrow> grows r0 r \<Longrightarrow> grows r0 r'"
  by (blast intro: grows_after_calm dbBegin_calm)

lemma growsE_txExec [growsE]: "txExec tx s r = (e, r') \<Longrightarrow> grows r0 r \<Longrightarrow> grows r0 r'"
  by (blast intro: grows_after_calm txExec_calm)

lemma growsE_txCommit [growsE]: "txCommit tx r = (e, r') \<Longrightarrow> grows r0 r \<Longrightarrow> grows r0 r'"
  by (blast intro: grows_after_calm txCommit_calm)

lemma growsR_Sleep [growsR]: "grows r0 r \<Longrightarrow> grows r0 (Sleep n r)"
  by (blast intro: grows_after_calm Sleep_calm)

lemma growsR_txRollback [growsR]: "grows r0 r \<Longrightarrow> grows r0 (txRollback tx r)"
  by (blast intro: grows_after_calm txRollback_calm)

lemma growsR_snd_txExec [growsR]: "grows r0 r \<Longrightarrow> grows r0 (snd (txExec tx s r))"
  by (cases "txExec tx s r") (auto intro: grows_after_calm txExec_calm)

lemma growsE_getGeoID [growsE]: "getGeoID rec r = Some (g, r') \<Longrightarrow> grows r0 r \<Longrightarrow> grows r0 r'"
  by (blast intro: grows_after_calm getGeoID_calm calm_refl)

lemma growsE_getCategoryIDs [growsE]:
  "getCategoryIDs rec r = Some (g, r') \<Longrightarrow> grows r0 r \<Longrightarrow> grows r0 r'"
  by (blast intro: grows_after_calm getCategoryIDs_calm calm_refl)

lemma growsE_GetSummary [growsE]:
  "GetSummary r = Some (s, r') \<Longrightarrow> grows r0 r \<Longrightarrow> grows r0 r'"
  by (blast intro: grows_after_calm GetSummary_calm calm_refl)

lemma growsE_preload [growsE]:
  "preloadDictionariesOutsideTx records r = Some (e, r') \<Longrightarrow> grows r0 r \<Longrightarrow> grows r0 r'"
  by (blast intro: grows_after_calm preloadDictionariesOutsideTx_calm calm_refl)

lemma growsE_batchInsertGeo [growsE]:
  "batchInsertGeo tx records r = Some (e, r') \<Longrightarrow> grows r0 r \<Longrightarrow> grows r0 r'"
  by (blast intro: grows_after_calm batchInsertGeo_calm calm_refl)

lemma growsE_batchInsertCompanies [growsE]:
  "batchInsertCompanies tx records r = Some (e, r') \<Longrightarrow> grows r0 r \<Longrightarrow> grows r0 r'"
  by (blast intro: grows_after_calm batchInsertCompanies_calm calm_refl)

lemma growsE_insertCompanyGeos [growsE]:
  "insertCompanyGeos tx r = Some (e, r') \<Longrightarrow> grows r0 r \<Longrightarrow> grows r0 r'"
  by (blast intro: grows_after_calm insertCompanyGeos_calm calm_refl)

lemma growsE_insertCompanyCategories [growsE]:
  "insertCompanyCategories tx r = Some (e, r') \<Longrightarrow> grows r0 r \<Longrightarrow> grows r0 r'"
  by (blast intro: grows_after_calm insertCompanyCategories_calm calm_refl)

lemma growsE_collectCompanyGeos [growsE]:
  "collectCompanyGeos companyID geoID r = Some r' \<Longrightarrow> grows r0 r \<Longrightarrow> grows r0 r'"
  by (blast intro: grows_trans collectCompanyGeos_grows)

lemma growsE_collectCompanyCategories [growsE]:
  "collectCompanyCategories companyID categoryIDs subcategoryIDs r = Some r' \<Longrightarrow> grows r0 r
     \<Longrightarrow> grows r0 r'"
  by (blast intro: grows_trans collectCompanyCategories_grows)

lemma linkRecord_grows [growsE]:
  "linkRecord rec r = Some r' \<Longrightarrow> grows r0 r \<Longrightarrow> grows r0 r'"
  unfolding linkRecord_def
  apply (auto simp: Let_def split: if_splits prod.splits Option.bind_splits)
  apply ((erule growsE | rule growsR | assumption)+)+
  done

lemma linkRecords_grows [growsE]:
  "linkRecords records r = Some r' \<Longrightarrow> grows r0 r \<Longrightarrow> grows r0 r'"
proof (induction records arbitrary: r)
  case Nil
  then show ?case by simp
next
  case (Cons rec rest)
  from Cons.prems show ?case
    apply (auto split: Option.bind_splits)
    apply ((erule growsE Cons.IH | rule growsR | assumption)+)+
    done
qed

lemma insertInTx_grows [growsE]:
  "insertInTx records r = Some (e, r') \<Longrightarrow> grows r0 r \<Longrightarrow> grows r0 r'"
  unfolding insertInTx_def
  apply (auto simp: Let_def split: if_splits prod.splits option.splits Option.bind_splits)
  apply ((erule growsE | rule growsR | assumption)+)+
  done

lemma insertWithRetry_grows [growsE]:
  "insertWithRetry records r = Some (e, r') \<Longrightarrow> grows r0 r \<Longrightarrow> grows r0 r'"
  unfolding insertWithRetry_def
  apply (auto simp: Let_def split: if_splits prod.splits option.splits Option.bind_splits)
  apply ((erule growsE | rule growsR | assumption)+)+
  done

lemma insertAttempts_grows [growsE]:
  "insertAttempts records attempt lastErr r = Some (e, r') \<Longrightarrow> grows r0 r \<Longrightarrow> grows r0 r'"
proof (induction "maxRetries - attempt" arbitrary: attempt lastErr r)
  case 0
  then show ?case by (subst (asm) insertAttempts.simps) simp
next
  case (Suc n)
  note ih = Suc.hyps(1) [rotated]
  from Suc.hyps(2) have a: "attempt < maxRetries" by simp
  from Suc.prems a Suc.hyps(2) show ?case
    apply (subst (asm) insertAttempts.simps)
    apply (auto simp: Let_def split: if_splits prod.splits option.splits Option.bind_splits)
    apply ((erule growsE ih | rule growsR | assumption | arith)+)+
    done
qed

lemma Insert_grows: "Insert records r = Some (e, r') \<Longrightarrow> grows r r'"
  unfolding Insert_def
  by (auto split: if_splits intro: insertAttempts_grows [OF _ grows_refl])

lemma issuedPairs_append:
  "issuedPairs t (evs @ evs') = issuedPairs t evs \<union> issuedPairs t evs'"
  by (induction t evs rule: issuedPairs.induct) auto

lemma concat_chunked: "0 < n \<Longrightarrow> concat (chunked n xs) = xs"
proof (induction n xs rule: chunked.induct)
  case (1 n xs)
  show ?case
  proof (cases "xs = []")
    case True
    then show ?thesis by (subst chunked.simps) simp
  next
    case False
    with 1 show ?thesis by (subst chunked.simps) simp
  qed
qed

lemma issuedPairs_links:
  "issuedPairs t (map (EvExec tx) (map (InsertIgnoreLinks t') chunks))
     = (if t' = t then set (concat chunks) else {})"
  by (induction chunks) auto

lemma execAll_trace:
  "execAll tx ss r = (None, r') \<Longrightarrow> trace r' = trace r @ map (EvExec tx) ss"
proof (induction ss arbitrary: r)
  case Nil
  then show ?case by simp
next
  case (Cons s ss)
  from Cons.prems show ?case
    by (auto simp: txExec_def nextFault_def Let_def
        split: prod.splits option.splits list.splits dest!: Cons.IH)
qed

lemma issuedDuring_refl: "issuedDuring t r r = {}"
  by (simp add: issuedDuring_def)

lemma issuedDuring_earlier:
  "grows r0 r \<Longrightarrow> grows r r' \<Longrightarrow> issuedDuring t r r' \<subseteq> issuedDuring t r0 r'"
  unfolding grows_def issuedDuring_def by (auto simp: issuedPairs_append)

lemma issuedDuring_later:
  "grows r r' \<Longrightarrow> grows r' r'' \<Longrightarrow> issuedDuring t r r' \<subseteq> issuedDuring t r r''"
  unfolding grows_def issuedDuring_def by (auto simp: issuedPairs_append)

lemma calm_geoPairs: "calm r r' \<Longrightarrow> geoPairs r' = geoPairs r"
  by (simp add: calm_def geoPairs_def)

lemma calm_categoryPairs: "calm r r' \<Longrightarrow> categoryPairs t r' = categoryPairs t r"
  by (simp add: calm_def categoryPairs_def)

lemma issuedDuring_same_trace:
  "trace r0 = trace r \<Longrightarrow> issuedDuring t r0 r' = issuedDuring t r r'"
  by (simp add: issuedDuring_def)

lemma execAll_links_issued:
  assumes "execAll tx (map (InsertIgnoreLinks t) (chunked pivotBatchSize ps)) r = (None, r')"
  shows "issuedDuring t r r' = set ps"
proof -
  have "issuedDuring t r r'
          = issuedPairs t (map (EvExec tx) (map (InsertIgnoreLinks t) (chunked pivotBatchSize ps)))"
    unfolding issuedDuring_def execAll_trace [OF assms] by simp
  also have "\<dots> = set (concat (chunked pivotBatchSize ps))"
    unfolding issuedPairs_links by simp
  also have "\<dots> = set ps"
    by (simp add: concat_chunked pivotBatchSize_def)
  finally show ?thesis .
qed

lemma RLock_RUnlock_same:
  assumes "RLock r = Some r1" and "RUnlock r1 = Some r2"
  shows "trace r2 = trace r" and "companyGeos r1 = companyGeos r"
    and "companyCategories r1 = companyCategories r" and "calm r r2"
  using assms
  by (auto simp: RLock_def RUnlock_def calm_def keysDistinct_def split: if_splits)

lemma insertCompanyGeos_issues:
  assumes "insertCompanyGeos tx r = Some (None, r')"
  shows "geoPairs r' \<subseteq> issuedDuring ''company_geo'' r r'"
proof -
  from assms obtain r1 r2 where l: "RLock r = Some r1" and u: "RUnlock r1 = Some r2"
    unfolding insertCompanyGeos_def by (auto split: Option.bind_splits)
  note same = RLock_RUnlock_same [OF l u]
  from insertCompanyGeos_calm [OF assms calm_refl] have g: "geoPairs r' = geoPairs r"
    by (rule calm_geoPairs)
  show ?thesis
  proof (cases "flattenGeos (companyGeos r) = []")
    case True
    then have "geoPairs r = {}" by (simp add: geoPairs_def)
    with g show ?thesis by simp
  next
    case False
    then have ne: "companyGeos r \<noteq> []" by (auto simp: flattenGeos_def)
    from assms l u False ne same(2)
    have "execAll tx (map (InsertIgnoreLinks ''company_geo'')
                        (chunked pivotBatchSize (flattenGeos (companyGeos r)))) r2 = (None, r')"
      unfolding insertCompanyGeos_def
      by (auto simp: Let_def split: prod.splits option.splits Option.bind_splits)
    from execAll_links_issued [OF this]
    have "issuedDuring ''company_geo'' r2 r' = geoPairs r" by (simp add: geoPairs_def)
    with issuedDuring_same_trace [OF same(1)] g show ?thesis by simp
  qed
qed

lemma insertCategoryFields_issues:
  "insertCategoryFields tx fieldTypes r = Some (None, r') \<Longrightarrow> fieldType \<in> set fieldTypes
     \<Longrightarrow> categoryPairs fieldType r' \<subseteq> issuedDuring (''company_'' @ fieldType) r r'"
proof (induction fieldTypes arbitrary: r)
  case Nil
  then show ?case by simp
next
  case (Cons ft rest)
  from Cons.prems(1) obtain r1 r2 where l: "RLock r = Some r1" and u: "RUnlock r1 = Some r2"
    by (auto simp: Let_def split: Option.bind_splits)
  note same = RLock_RUnlock_same [OF l u]
  let ?links = "flattenCategories ft (companyCategories r)"
  from insertCategoryFields_calm [OF Cons.prems(1) calm_refl]
  have keep: "categoryPairs fieldType r' = categoryPairs fieldType r"
    by (rule calm_categoryPairs)
  show ?case
  proof (cases "?links = []")
    case True
    with Cons.prems(1) l u same(3)
    have rest: "insertCategoryFields tx rest r2 = Some (None, r')"
      by (auto simp: Let_def)
    show ?thesis
    proof (cases "fieldType = ft")
      case True
      with \<open>?links = []\<close> have "categoryPairs fieldType r = {}"
        by (simp add: categoryPairs_def)
      with keep show ?thesis by simp
    next
      case False
      with Cons.prems(2) have "fieldType \<in> set rest" by simp
      from Cons.IH [OF rest this] issuedDuring_same_trace [OF same(1)]
      show ?thesis by simp
    qed
  next
    case False
    with Cons.prems(1) l u same(3) obtain r3
      where ex: "execAll tx (map (InsertIgnoreLinks (''company_'' @ ft))
                               (chunked pivotBatchSize ?links)) r2 = (None, r3)"
        and rest: "insertCategoryFields tx rest r3 = Some (None, r')"
      by (auto simp: Let_def split: prod.splits option.splits Option.bind_splits)
    have g23: "grows r2 r3" by (rule calm_grows [OF execAll_calm [OF ex]])
    have g3: "grows r3 r'"
      by (rule calm_grows [OF insertCategoryFields_calm [OF rest calm_refl]])
    show ?thesis
    proof (cases "fieldType = ft")
      case True
      from execAll_links_issued [OF ex]
      have "issuedDuring (''company_'' @ ft) r2 r3 = categoryPairs ft r"
        by (simp add: categoryPairs_def)
      with issuedDuring_later [OF g23 g3, of "''company_'' @ ft"]
      have "categoryPairs ft r \<subseteq> issuedDuring (''company_'' @ ft) r2 r'" by simp
      with True keep issuedDuring_same_trace [OF same(1)] show ?thesis by simp
    next
      case False
      with Cons.prems(2) have "fieldType \<in> set rest" by simp
      from Cons.IH [OF rest this]
        issuedDuring_earlier [OF g23 g3, of "''company_'' @ fieldType"]
      have "categoryPairs fieldType r' \<subseteq> issuedDuring (''company_'' @ fieldType) r2 r'"
        by (rule subset_trans)
      with issuedDuring_same_trace [OF same(1)] show ?thesis by simp
    qed
  qed
qed

lemma insertCompanyCategories_issues:
  assumes "insertCompanyCategories tx r = Some (None, r')"
    and "fieldType = ''category'' \<or> fieldType = ''subcategory''"
  shows "categoryPairs fieldType r' \<subseteq> issuedDuring (''company_'' @ fieldType) r r'"
proof -
  from assms(1) obtain r1 r2 where l: "RLock r = Some r1" and u: "RUnlock r1 = Some r2"
    unfolding insertCompanyCategories_def by (auto split: Option.bind_splits)
  note same = RLock_RUnlock_same [OF l u]
  from insertCompanyCategories_calm [OF assms(1) calm_refl]
  have keep: "categoryPairs fieldType r' = categoryPairs fieldType r"
    by (rule calm_categoryPairs)
  show ?thesis
  proof (cases "companyCategories r = []")
    case True
    then have "categoryPairs fieldType r = {}"
      by (simp add: categoryPairs_def flattenCategories_def)
    with keep show ?thesis by simp
  next
    case False
    with assms(1) l u same(3)
    have "insertCategoryFields tx [''category'', ''subcategory''] r2 = Some (None, r')"
      unfolding insertCompanyCategories_def by auto
    from insertCategoryFields_issues [OF this, of fieldType] assms(2)
      issuedDuring_same_trace [OF same(1)]
    show ?thesis by auto
  qed
qed

lemma reissued_from_earlier:
  "reissued r r' \<Longrightarrow> grows r0 r \<Longrightarrow> grows r r' \<Longrightarrow> reissued r0 r'"
  unfolding reissued_def
  by (meson issuedDuring_earlier subset_trans)

lemma insertInTx_reissued:
  assumes "insertInTx records r = Some (None, r')"
  shows "reissued r r'"
proof -
  from assms obtain r1 r2 r3 r4 r5 r6 r7 where
    s1: "preloadDictionariesOutsideTx records r = Some (None, r1)" and
    s2: "txExec MainTx (SetForeignKeyChecks False) r1 = (None, r2)" and
    s3: "batchInsertGeo MainTx records r2 = Some (None, r3)" and
    s4: "batchInsertCompanies MainTx records r3 = Some (None, r4)" and
    s5: "linkRecords records r4 = Some r5" and
    s6: "insertCompanyGeos MainTx r5 = Some (None, r6)" and
    s7: "insertCompanyCategories MainTx r6 = Some (None, r7)" and
    s9: "txCommit MainTx (snd (txExec MainTx (SetForeignKeyChecks True) r7)) = (None, r')"
    unfolding insertInTx_def
    by (auto simp: Let_def split: prod.splits option.splits Option.bind_splits)
  have c4: "calm r r4"
    by (rule batchInsertCompanies_calm [OF s4 batchInsertGeo_calm [OF s3
          calm_trans [OF preloadDictionariesOutsideTx_calm [OF s1 calm_refl] txExec_calm [OF s2]]]])
  have g5: "grows r r5" by (rule linkRecords_grows [OF s5 calm_grows [OF c4]])
  have c56: "calm r5 r6" by (rule insertCompanyGeos_calm [OF s6 calm_refl])
  have c67: "calm r6 r7" by (rule insertCompanyCategories_calm [OF s7 calm_refl])
  have c7: "calm r7 r'"
    by (rule calm_trans [OF txExec_calm [OF surjective_pairing] txCommit_calm [OF s9]])
  have g6: "grows r r6" by (rule grows_after_calm [OF c56 g5])
  have geo: "geoPairs r' \<subseteq> issuedDuring ''company_geo'' r r'"
  proof -
    have "geoPairs r' = geoPairs r6"
      by (rule calm_geoPairs [OF calm_trans [OF c67 c7]])
    also have "\<dots> \<subseteq> issuedDuring ''company_geo'' r5 r6" by (rule insertCompanyGeos_issues [OF s6])
    also have "\<dots> \<subseteq> issuedDuring ''company_geo'' r r6"
      by (rule issuedDuring_earlier [OF g5 calm_grows [OF c56]])
    also have "\<dots> \<subseteq> issuedDuring ''company_geo'' r r'"
      by (rule issuedDuring_later [OF g6 calm_grows [OF calm_trans [OF c67 c7]]])
    finally show ?thesis .
  qed
  have cat: "categoryPairs fieldType r' \<subseteq> issuedDuring (''company_'' @ fieldType) r r'"
    if "fieldType = ''category'' \<or> fieldType = ''subcategory''" for fieldType
  proof -
    have "categoryPairs fieldType r' = categoryPairs fieldType r7"
      by (rule calm_categoryPairs [OF c7])
    also have "\<dots> \<subseteq> issuedDuring (''company_'' @ fieldType) r6 r7"
      by (rule insertCompanyCategories_issues [OF s7 that])
    also have "\<dots> \<subseteq> issuedDuring (''company_'' @ fieldType) r r7"
      by (rule issuedDuring_earlier [OF g6 calm_grows [OF c67]])
    also have "\<dots> \<subseteq> issuedDuring (''company_'' @ fieldType) r r'"
      by (rule issuedDuring_later [OF grows_after_calm [OF c67 g6] calm_grows [OF c7]])
    finally show ?thesis .
  qed
  from geo cat [of "''category''"] cat [of "''subcategory''"] show ?thesis
    by (simp add: reissued_def)
qed

lemma insertWithRetry_reissued:
  assumes "insertWithRetry records r = Some (None, r')"
  shows "reissued r r'"
proof -
  from assms obtain n ra rc where
    a: "Intn 500 r = (n, ra)" and
    c: "dbBegin MainTx (Sleep (100 + n) ra) = (None, rc)" and
    d: "insertInTx records rc = Some (None, r')"
    unfolding insertWithRetry_def
    by (auto simp: Let_def split: prod.splits option.splits Option.bind_splits)
  have "calm r rc"
    by (rule calm_trans [OF calm_trans [OF Intn_calm [OF a] Sleep_calm] dbBegin_calm [OF c]])
  from reissued_from_earlier [OF insertInTx_reissued [OF d] calm_grows [OF this]
      insertInTx_grows [OF d grows_refl]]
  show ?thesis .
qed

lemma insertAttempts_reissued:
  "insertAttempts records attempt lastErr r = Some (None, r') \<Longrightarrow> reissued r r'"
proof (induction "maxRetries - attempt" arbitrary: attempt lastErr r)
  case 0
  then show ?case by (subst (asm) insertAttempts.simps) simp
next
  case (Suc n)
  from Suc.hyps(2) have a: "attempt < maxRetries" by simp
  from Suc.prems a obtain r1 err r2 where
    p: "(if attempt > 0 then do {
           ra \<leftarrow> Lock (Sleep (retryDelay attempt) r);
           rb \<leftarrow> addError (msgRetryNotice (attempt + 1) maxRetries) ra;
           Unlock rb
         } else Some r) = Some r1" and
    w: "insertWithRetry records r1 = Some (err, r2)" and
    k: "(case err of
           None \<Rightarrow> Some (None, r2)
         | Some e \<Rightarrow>
             if deadlockIndicator e then insertAttempts records (attempt + 1) (Some e) r2
             else Some (Some e, r2)) = Some (None, r')"
    by (subst (asm) insertAttempts.simps) (auto split: Option.bind_splits)
  from p have c1: "calm r r1"
    apply (auto split: if_splits Option.bind_splits)
    apply ((erule calmE | rule calmR calm_refl | assumption)+)+
    done
  have g12: "grows r1 r2" by (rule insertWithRetry_grows [OF w grows_refl])
  show ?case
  proof (cases err)
    case None
    with k w have "insertWithRetry records r1 = Some (None, r')" by simp
    from reissued_from_earlier [OF insertWithRetry_reissued [OF this] calm_grows [OF c1]
        insertWithRetry_grows [OF this grows_refl]]
    show ?thesis .
  next
    case (Some e)
    with k have again: "insertAttempts records (attempt + 1) (Some e) r2 = Some (None, r')"
      by (simp split: if_splits)
    from Suc.hyps(2) have "n = maxRetries - (attempt + 1)" by simp
    from Suc.hyps(1) [OF this again] have "reissued r2 r'" .
    from reissued_from_earlier [OF this grows_trans [OF calm_grows [OF c1] g12]
        insertAttempts_grows [OF again grows_refl]]
    show ?thesis .
  qed
qed

lemma Insert_reissued:
  "Insert records r = Some (None, r') \<Longrightarrow> records \<noteq> [] \<Longrightarrow> reissued r r'"
  unfolding Insert_def by (auto split: if_splits intro: insertAttempts_reissued)

subsection \<open>Concrete states and deliveries\<close>

lemma char_of_digit:
  "char_of (48 :: nat) = CHR ''0''" "char_of (49 :: nat) = CHR ''1''"
  "char_of (50 :: nat) = CHR ''2''" "char_of (51 :: nat) = CHR ''3''"
  "char_of (52 :: nat) = CHR ''4''" "char_of (53 :: nat) = CHR ''5''"
  "char_of (54 :: nat) = CHR ''6''" "char_of (55 :: nat) = CHR ''7''"
  "char_of (56 :: nat) = CHR ''8''" "char_of (57 :: nat) = CHR ''9''"
  by (simp_all add: char_of_def bit_0)

lemmas state_eval =
  baselineLoaded_def geoPairs_def categoryPairs_def issuedDuring_def char_of_digit

lemma baselineLoaded_reached:
  "Insert [baselineRow] freshRepository = Some (None, baselineLoaded)"
  by (simp add: repo_eval message_eval baselineLoaded_def char_of_digit fun_eq_iff
      cong: bind_weak_cong)

lemma deadlockIndicator_retryable: "deadlockIndicator e \<Longrightarrow> isRetryableError (Some e)"
  by (auto simp: deadlockIndicator_def isRetryableError_def retryableErrors_def)

lemma processMessage_blocks:
  assumes "jsonUnmarshal lib (Body d) = Inr task"
    and "resolvePath lib w0 (file_path task) = Some filePath"
    and "ParseFile lib filePath = Inr records" and "records \<noteq> []"
    and "insertWithRetry records (repository w0) = Some (Some e, r1)"
    and "deadlockIndicator e"
  shows "processMessage lib d w0 = None"
  using assms Insert_blocks [of records "repository w0" e r1]
  by (simp add: processMessage_def)


section \<open>The claims\<close>

text \<open>
  C5, as amended. For every non-empty string \<open>s\<close>, \<open>extractCategories s\<close> is the list
  of the comma-split, trimmed tokens of \<open>s\<close>, without its last token exactly when the
  tail-cleanup rule fires; so its length is the number of tokens, minus 1 exactly when
  the rule fires, and is never negative; a string without a comma gives its one
  trimmed token. For the empty string the result is the empty list.
\<close>

theorem extractCategories_tail_cleanup:
  "extractCategories [] = [] \<and>
   (s \<noteq> [] \<longrightarrow>
      extractCategories s =
        (if tailCleanupFires s then butlast (map TrimSpace (splitComma s))
         else map TrimSpace (splitComma s))
      \<and> int (length (extractCategories s)) =
          int (length (splitComma s)) - (if tailCleanupFires s then 1 else 0)
      \<and> 0 \<le> int (length (splitComma s)) - (if tailCleanupFires s then 1 else 0)
      \<and> (CHR '','' \<notin> set s \<longrightarrow> extractCategories s = [TrimSpace s]))"
proof -
  have e: "extractCategories [] = []" by (simp add: extractCategories_def)
  have "s \<noteq> [] \<Longrightarrow> ?thesis"
  proof -
    assume ne: "s \<noteq> []"
    have len: "1 \<le> length (splitComma s)" by (simp add: length_splitComma)
    have two: "tailCleanupFires s \<Longrightarrow> 2 \<le> length (splitComma s)"
      by (simp add: tailCleanupFires_def Let_def)
    have single: "CHR '','' \<notin> set s \<Longrightarrow> \<not> tailCleanupFires s"
      by (simp add: tailCleanupFires_def Let_def splitComma_single)
    from ne e len two single show ?thesis
      by (auto simp: extractCategories_eq splitComma_single)
  qed
  with e show ?thesis by blast
qed

theorem extractCategories_tail_cleanup_witness:
  "''A, B, C, D/'' \<noteq> [] \<and> tailCleanupFires ''A, B, C, D/''
   \<and> extractCategories ''A, B, C, D/'' = butlast (map TrimSpace (splitComma ''A, B, C, D/''))
   \<and> int (length (extractCategories ''A, B, C, D/'')) = 4 - 1"
proof -
  have f: "tailCleanupFires ''A, B, C, D/''"
    by (simp add: tailCleanupFires_def go_string_eval)
  have l: "length (splitComma ''A, B, C, D/'') = 4" by simp
  from extractCategories_tail_cleanup [of "''A, B, C, D/''"] f l show ?thesis by simp
qed

text \<open>
  C5 as stated fails at the empty string: its comma-split is the one empty token, the
  rule does not fire, and yet the result has no token.
\<close>

theorem extractCategories_empty_counterexample:
  "map TrimSpace (splitComma []) = [[]] \<and> \<not> tailCleanupFires []
   \<and> extractCategories [] \<noteq> map TrimSpace (splitComma [])
   \<and> length (extractCategories []) \<noteq> length (splitComma [])"
  by (simp add: tailCleanupFires_def extractCategories_def go_string_eval)

text \<open>
  C10. \<open>buildGeoKey\<close> is injective on triples of optional ids: two triples have the
  same key exactly when they are equal, a \<open>nil\<close> slot being different from every id.
\<close>

theorem buildGeoKey_injective:
  "(buildGeoKey a1 a2 a3 = buildGeoKey b1 b2 b3) = (a1 = b1 \<and> a2 = b2 \<and> a3 = b3)"
proof
  let ?s = "\<lambda>x. case x of None \<Rightarrow> [] | Some n \<Rightarrow> Sprintf_d n"
  assume "buildGeoKey a1 a2 a3 = buildGeoKey b1 b2 b3"
  then have e: "?s a1 @ CHR '':'' # (?s a2 @ CHR '':'' # ?s a3)
      = ?s b1 @ CHR '':'' # (?s b2 @ CHR '':'' # ?s b3)"
    by (simp add: buildGeoKey_def)
  from colon_split [OF slot_no_colon slot_no_colon e]
  have 1: "?s a1 = ?s b1" and r: "?s a2 @ CHR '':'' # ?s a3 = ?s b2 @ CHR '':'' # ?s b3"
    by simp_all
  from colon_split [OF slot_no_colon slot_no_colon r]
  have 2: "?s a2 = ?s b2" and 3: "?s a3 = ?s b3" by simp_all
  from 1 2 3 show "a1 = b1 \<and> a2 = b2 \<and> a3 = b3" by (simp add: slot_inj)
next
  assume "a1 = b1 \<and> a2 = b2 \<and> a3 = b3"
  then show "buildGeoKey a1 a2 a3 = buildGeoKey b1 b2 b3" by simp
qed

text \<open>
  C3 fails on the code. A delivery has one of the listed outcomes only when
  \<open>processMessage\<close> returns, and it does not always return: when the first attempt of
  \<open>Insert\<close> fails with a deadlock indicator (a retryable error, for which the worker
  should sleep, republish and acknowledge), \<open>Insert\<close> waits for its own lock, so the
  worker neither acknowledges nor rejects the delivery and publishes nothing. For
  every delivery whose processing does return, the worker does exactly one of the
  following. After a success it acknowledges \<open>d\<close>. After a retryable error, with the
  retry count of \<open>d\<close> below 10, it sleeps (count + 1) seconds, publishes, through the
  default exchange and with the queue name as routing key, a persistent message with
  the body, the priority and the message id of \<open>d\<close>, the headers of \<open>d\<close> with
  \<open>x-retry-count\<close> set to count + 1, and the time of the publish as timestamp, and
  acknowledges \<open>d\<close>; when that publish fails, it instead rejects \<open>d\<close> with requeue. In
  every other case (an error that is not retryable, or a retry count of 10 or more)
  it rejects \<open>d\<close> without requeue.
\<close>

theorem handleDelivery_blocks_on_deadlock:
  "(jsonUnmarshal lib (Body d) = Inr task
      \<and> resolvePath lib w0 (file_path task) = Some filePath
      \<and> ParseFile lib filePath = Inr records \<and> records \<noteq> []
      \<and> insertWithRetry records (repository w0) = Some (Some e0, r1) \<and> deadlockIndicator e0
     \<longrightarrow> isRetryableError (Some e0) \<and> processMessage lib d w0 = None
         \<and> handleDelivery lib d w0 = None)
   \<and> (handleDelivery lib d w0 = None \<longleftrightarrow> processMessage lib d w0 = None)
   \<and> (processMessage lib d w0 = Some (err, w) \<longrightarrow>
        handleDelivery lib d w0 = Some (handleResult d err w))
   \<and> actions (handleResult d None w) = actions w @ [Ack (DeliveryTag d) False]
   \<and> (isRetryableError (Some e) \<and> getRetryCount (Headers d) < 10 \<and> \<not> publishFails w \<longrightarrow>
        actions (handleResult d (Some e) w) =
          actions w @ [Slept (sleepNanos (getRetryCount (Headers d) + 1)),
                       Published '''' (queueName w) False False
                         (republishedMsg d
                            (clock w + sleepNanos (getRetryCount (Headers d) + 1))),
                       Ack (DeliveryTag d) False])
   \<and> (isRetryableError (Some e) \<and> getRetryCount (Headers d) < 10 \<and> publishFails w \<longrightarrow>
        actions (handleResult d (Some e) w) =
          actions w @ [Slept (sleepNanos (getRetryCount (Headers d) + 1)),
                       Nack (DeliveryTag d) False True])
   \<and> (\<not> (isRetryableError (Some e) \<and> getRetryCount (Headers d) < 10) \<longrightarrow>
        actions (handleResult d (Some e) w) = actions w @ [Nack (DeliveryTag d) False False])
   \<and> (- 2147483648 \<le> getRetryCount (Headers d) \<and> getRetryCount (Headers d) < 10 \<longrightarrow>
        sleepNanos (getRetryCount (Headers d) + 1)
          = nat ((getRetryCount (Headers d) + 1) * 1000000000))"
proof -
  have 0: "jsonUnmarshal lib (Body d) = Inr task
      \<and> resolvePath lib w0 (file_path task) = Some filePath
      \<and> ParseFile lib filePath = Inr records \<and> records \<noteq> []
      \<and> insertWithRetry records (repository w0) = Some (Some e0, r1) \<and> deadlockIndicator e0
     \<longrightarrow> isRetryableError (Some e0) \<and> processMessage lib d w0 = None
         \<and> handleDelivery lib d w0 = None"
    using processMessage_blocks [of lib d task w0 filePath records e0 r1]
      deadlockIndicator_retryable [of e0]
    by (simp add: handleDelivery_def)
  have 1: "actions (handleResult d None w) = actions w @ [Ack (DeliveryTag d) False]"
    by (rule handleResult_success)
  have 5: "- 2147483648 \<le> getRetryCount (Headers d) \<and> getRetryCount (Headers d) < 10 \<longrightarrow>
        sleepNanos (getRetryCount (Headers d) + 1)
          = nat ((getRetryCount (Headers d) + 1) * 1000000000)"
    by (simp add: sleepNanos_seconds)
  have 6: "processMessage lib d w0 = Some (err, w) \<longrightarrow>
        handleDelivery lib d w0 = Some (handleResult d err w)"
    by (simp add: handleDelivery_def)
  have 7: "handleDelivery lib d w0 = None \<longleftrightarrow> processMessage lib d w0 = None"
    by (auto simp: handleDelivery_def split: Option.bind_splits)
  from 0 1 5 6 7 show ?thesis
    using handleResult_republish [of e d w] handleResult_requeue [of e d w]
      handleResult_reject [of e d w]
    by blast
qed

theorem handleDelivery_blocks_on_deadlock_witness:
  "map_option (\<lambda>(err, r). (map_option deadlockIndicator err, isRetryableError err))
     (insertWithRetry [plainRow] (repository deadlockedWorker))
     = Some (Some True, True)
   \<and> getRetryCount (Headers freshDelivery) = 0
   \<and> processMessage plainRowLibrary freshDelivery deadlockedWorker = None
   \<and> handleDelivery plainRowLibrary freshDelivery deadlockedWorker = None
   \<and> isRetryableError (Some deadlockMessage) \<and> getRetryCount (Headers freshDelivery) < 10
   \<and> \<not> publishFails idleWorker
   \<and> actions (handleResult freshDelivery (Some deadlockMessage) idleWorker) =
       [Slept 1000000000,
        Published '''' ''csv_import_high'' False False
          \<lparr>pubBody = ''{task}'', pubHeaders = [(''x-retry-count'', FInt 1)],
           pubDeliveryMode = 2, pubPriority = 10, pubMessageId = ''m1'',
           pubTimestamp = 1000000100\<rparr>,
        Ack 7 False]
   \<and> publishFails (idleWorker\<lparr>publishFaults := [Some ''channel closed'']\<rparr>)
   \<and> actions (handleResult freshDelivery (Some deadlockMessage)
                (idleWorker\<lparr>publishFaults := [Some ''channel closed'']\<rparr>)) =
       [Slept 1000000000, Nack 7 False True]
   \<and> \<not> (isRetryableError (Some deadlockMessage) \<and> getRetryCount (Headers lastDelivery) < 10)
   \<and> actions (handleResult lastDelivery (Some deadlockMessage) idleWorker) = [Nack 7 False False]
   \<and> \<not> isRetryableError (Some ''x.csv: record on line 2: wrong number of fields'')
   \<and> actions (handleResult freshDelivery
                (Some ''x.csv: record on line 2: wrong number of fields'') idleWorker)
       = [Nack 7 False False]"
proof -
  have r: "isRetryableError (Some deadlockMessage)" by (simp add: worker_eval)
  have n: "\<not> isRetryableError (Some ''x.csv: record on line 2: wrong number of fields'')"
    by (simp add: worker_eval)
  have c0: "getRetryCount (Headers freshDelivery) = 0" by (simp add: worker_eval)
  have c10: "getRetryCount (Headers lastDelivery) = 10" by (simp add: worker_eval)
  have s: "sleepNanos 1 = 1000000000" using sleepNanos_seconds [of 1] by simp
  have m: "republishedMsg freshDelivery 1000000100 =
      \<lparr>pubBody = ''{task}'', pubHeaders = [(''x-retry-count'', FInt 1)],
       pubDeliveryMode = 2, pubPriority = 10, pubMessageId = ''m1'',
       pubTimestamp = 1000000100\<rparr>"
    by (simp add: worker_eval)
  have a: "actions idleWorker = [] \<and> clock idleWorker = 100
      \<and> queueName idleWorker = ''csv_import_high'' \<and> DeliveryTag freshDelivery = 7
      \<and> DeliveryTag lastDelivery = 7 \<and> \<not> publishFails idleWorker"
    by (simp add: worker_eval)
  have b: "publishFails (idleWorker\<lparr>publishFaults := [Some ''channel closed'']\<rparr>)"
    by (simp add: publishFails_def)
  have j: "jsonUnmarshal plainRowLibrary (Body freshDelivery) = Inr headerOnlyTask"
    by (simp add: plainRowLibrary_def worker_eval)
  have p: "resolvePath plainRowLibrary deadlockedWorker (file_path headerOnlyTask)
       = Some ''/app/storage/csv/x.csv''"
    by (simp add: plainRowLibrary_def deadlockedWorker_def worker_eval)
  have f: "ParseFile plainRowLibrary ''/app/storage/csv/x.csv'' = Inr [plainRow]"
    by (simp add: plainRowLibrary_def worker_eval)
  have k: "repository deadlockedWorker = deadlockedRepository"
    by (simp add: deadlockedWorker_def)
  have i: "map_option (\<lambda>(err, r). (map_option deadlockIndicator err, isRetryableError err))
     (insertWithRetry [plainRow] (repository deadlockedWorker))
     = Some (Some True, True)"
    unfolding k
    by (simp add: repo_eval message_eval isRetryableError_def retryableErrors_def
        cong: bind_weak_cong)
  then obtain e0 r1 where
    i1: "insertWithRetry [plainRow] (repository deadlockedWorker) = Some (Some e0, r1)"
    and d: "deadlockIndicator e0"
    by (cases "insertWithRetry [plainRow] (repository deadlockedWorker)") auto
  have ne: "[plainRow] \<noteq> []" by simp
  from handleDelivery_blocks_on_deadlock
      [of plainRowLibrary freshDelivery headerOnlyTask deadlockedWorker
         "''/app/storage/csv/x.csv''" "[plainRow]" e0 r1] j p f ne i1 d
  have h: "processMessage plainRowLibrary freshDelivery deadlockedWorker = None
      \<and> handleDelivery plainRowLibrary freshDelivery deadlockedWorker = None"
    by blast
  from handleDelivery_blocks_on_deadlock
      [where d = freshDelivery and w = idleWorker and e = deadlockMessage]
    handleDelivery_blocks_on_deadlock
      [where d = freshDelivery and w = "idleWorker\<lparr>publishFaults := [Some ''channel closed'']\<rparr>"
         and e = deadlockMessage]
    handleDelivery_blocks_on_deadlock
      [where d = lastDelivery and w = idleWorker and e = deadlockMessage]
    handleDelivery_blocks_on_deadlock
      [where d = freshDelivery and w = idleWorker
         and e = "''x.csv: record on line 2: wrong number of fields''"]
    r n c0 c10 s m a b i h
  show ?thesis by simp
qed



text \<open>
  C6 fails on the code for a file without data rows: \<open>processMessage\<close> returns \<open>nil\<close>
  before it reaches \<open>os.Remove\<close>, so the delivery is acknowledged and the file stays.
  In general: when the file of the task parses to no record, \<open>processMessage\<close>
  succeeds and leaves the worker (its files too) as it was.
\<close>

theorem processMessage_no_rows_keeps_file:
  "jsonUnmarshal lib (Body d) = Inr task \<Longrightarrow> resolvePath lib w (file_path task) = Some path \<Longrightarrow>
   ParseFile lib path = Inr [] \<Longrightarrow>
   processMessage lib d w = Some (None, w)
   \<and> actions (the (handleDelivery lib d w)) = actions w @ [Ack (DeliveryTag d) False]
   \<and> files (the (handleDelivery lib d w)) = files w"
  by (simp add: processMessage_def handleDelivery_def handleResult_def act_def)

theorem processMessage_no_rows_keeps_file_witness:
  "jsonUnmarshal headerOnlyLibrary (Body freshDelivery) = Inr headerOnlyTask
   \<and> resolvePath headerOnlyLibrary idleWorker (file_path headerOnlyTask)
       = Some ''/app/storage/csv/x.csv''
   \<and> ParseFile headerOnlyLibrary ''/app/storage/csv/x.csv'' = Inr []
   \<and> processMessage headerOnlyLibrary freshDelivery idleWorker = Some (None, idleWorker)
   \<and> handleDelivery headerOnlyLibrary freshDelivery idleWorker
       = Some (idleWorker\<lparr>actions := [Ack 7 False]\<rparr>)
   \<and> files (the (handleDelivery headerOnlyLibrary freshDelivery idleWorker))
       = [''/app/storage/csv/x.csv'']"
proof -
  have 1: "jsonUnmarshal headerOnlyLibrary (Body freshDelivery) = Inr headerOnlyTask"
    by (simp add: worker_eval)
  have 2: "resolvePath headerOnlyLibrary idleWorker (file_path headerOnlyTask)
       = Some ''/app/storage/csv/x.csv''"
    by (simp add: worker_eval)
  have 3: "ParseFile headerOnlyLibrary ''/app/storage/csv/x.csv'' = Inr []"
    by (simp add: worker_eval)
  have 4: "handleDelivery headerOnlyLibrary freshDelivery idleWorker
       = Some (idleWorker\<lparr>actions := [Ack 7 False]\<rparr>)"
    by (simp add: worker_eval)
  have 5: "files idleWorker = [''/app/storage/csv/x.csv'']" by (simp add: worker_eval)
  from processMessage_no_rows_keeps_file [OF 1 2 3] 1 2 3 4 5 show ?thesis by simp
qed




text \<open>
  C2 fails on the code: \<open>insertWithRetry\<close> opens the main transaction first and
  preloads the dictionaries while it is open. One attempt for the baseline row on an
  empty database: the main transaction begins before the first dictionary
  transaction and is still open when the last one commits.
\<close>

theorem main_transaction_begins_before_preload:
  "map_option (\<lambda>(err, r). (err, trace r)) (insertWithRetry [baselineRow] freshRepository)
   = Some (None,
      [EvSleep 100, EvBegin MainTx, EvBegin (DictTx ''region''),
       EvExec (DictTx ''region'') (InsertIgnoreNames ''region'' [''R1'']),
       EvQuery (DictTx ''region'') (SelectNames ''region'' [''R1'']),
       EvCommit (DictTx ''region''), EvSleep 50, EvBegin (DictTx ''city''),
       EvExec (DictTx ''city'') (InsertIgnoreNames ''city'' [''G1'']),
       EvQuery (DictTx ''city'') (SelectNames ''city'' [''G1'']),
       EvCommit (DictTx ''city''), EvSleep 50, EvBegin (DictTx ''category''),
       EvExec (DictTx ''category'') (InsertIgnoreNames ''category'' [''Eda'', ''Kafe'']),
       EvQuery (DictTx ''category'') (SelectNames ''category'' [''Eda'', ''Kafe'']),
       EvCommit (DictTx ''category''), EvSleep 50, EvBegin (DictTx ''subcategory''),
       EvExec (DictTx ''subcategory'') (InsertIgnoreNames ''subcategory'' [''Torty'']),
       EvQuery (DictTx ''subcategory'') (SelectNames ''subcategory'' [''Torty'']),
       EvCommit (DictTx ''subcategory''),
       EvExec MainTx (SetForeignKeyChecks False),
       EvExec MainTx (InsertIgnoreGeo [(Some 1, None, Some 1)]),
       EvExec MainTx CreateTempGeo,
       EvExec MainTx (InsertTempGeo [(Some 1, None, Some 1)]),
       EvQuery MainTx SelectGeoJoin,
       EvExec MainTx (InsertIgnoreNames ''company'' [''A'']),
       EvQuery MainTx (SelectNames ''company'' [''A'']),
       EvExec MainTx (InsertIgnoreLinks ''company_geo'' [(1, 1)]),
       EvExec MainTx (InsertIgnoreLinks ''company_category'' [(1, 1), (1, 2)]),
       EvExec MainTx (InsertIgnoreLinks ''company_subcategory'' [(1, 1)]),
       EvExec MainTx (SetForeignKeyChecks True), EvCommit MainTx])"
  by (simp add: repo_eval cong: bind_weak_cong)

text \<open>
  C4 fails on the code. \<open>Insert\<close> takes the write lock of \<open>r.mu\<close> and then calls
  \<open>addError\<close>, which takes the same lock: the retry notice is never appended and no
  second attempt is made. So after a first attempt that fails with a deadlock
  indicator \<open>Insert\<close> does not return. The other half of the claim holds: a first
  attempt that fails without a deadlock indicator makes \<open>Insert\<close> return that error.
\<close>

theorem Insert_blocks_at_retry_notice:
  "(Lock r = Some r2 \<longrightarrow> addError msg r2 = None)
   \<and> (records \<noteq> [] \<and> insertWithRetry records r = Some (Some e, r1) \<and> deadlockIndicator e
        \<longrightarrow> Insert records r = None)
   \<and> (records \<noteq> [] \<and> insertWithRetry records r = Some (Some e, r1) \<and> \<not> deadlockIndicator e
        \<longrightarrow> Insert records r = Some (Some e, r1))"
  using addError_under_Lock [of r r2 msg] Insert_blocks [of records r e r1]
    Insert_other_error [of records r e r1]
  by blast

theorem Insert_blocks_at_retry_notice_witness:
  "map_option (\<lambda>(err, r). (map_option deadlockIndicator err, mu r, length (errors r), trace r))
     (insertWithRetry [plainRow] deadlockedRepository)
   = Some (Some True, unlocked, 1,
      [EvSleep 100, EvBegin MainTx, EvBegin (DictTx ''region''),
       EvExec (DictTx ''region'') (InsertIgnoreNames ''region'' [''R1'']),
       EvQuery (DictTx ''region'') (SelectNames ''region'' [''R1'']),
       EvCommit (DictTx ''region''), EvExec MainTx (SetForeignKeyChecks False),
       EvRollback MainTx])
   \<and> Insert [plainRow] deadlockedRepository = None"
proof -
  have a: "map_option (\<lambda>(err, r). (map_option deadlockIndicator err, mu r, length (errors r), trace r))
     (insertWithRetry [plainRow] deadlockedRepository)
   = Some (Some True, unlocked, 1,
      [EvSleep 100, EvBegin MainTx, EvBegin (DictTx ''region''),
       EvExec (DictTx ''region'') (InsertIgnoreNames ''region'' [''R1'']),
       EvQuery (DictTx ''region'') (SelectNames ''region'' [''R1'']),
       EvCommit (DictTx ''region''), EvExec MainTx (SetForeignKeyChecks False),
       EvRollback MainTx])"
    by (simp add: repo_eval message_eval cong: bind_weak_cong)
  then obtain e r1 where i: "insertWithRetry [plainRow] deadlockedRepository = Some (Some e, r1)"
    and d: "deadlockIndicator e"
    by (cases "insertWithRetry [plainRow] deadlockedRepository") auto
  have n: "[plainRow] \<noteq> []" by simp
  from Insert_blocks_at_retry_notice [of deadlockedRepository _ _ "[plainRow]" e r1] n i d
  have "Insert [plainRow] deadlockedRepository = None" by blast
  with a show ?thesis by simp
qed

text \<open>
  C8, as amended. \<open>GetSummary\<close>, called while no operation of the repository is under
  way, returns; its \<open>category\<close> is the number of entries of \<open>companyCategories\<close>,
  that is, the number of distinct company ids collected by \<open>collectCompanyCategories\<close>,
  also those collected with no category id at all; \<open>subcategory\<close>, \<open>region\<close>,
  \<open>district\<close> and \<open>city\<close> are the sizes of the caches of these names.
\<close>

theorem GetSummary_counts:
  "(mu r = unlocked \<longrightarrow>
      (\<exists>s. GetSummary r = Some (s, r)
         \<and> SummaryCategory s = int (length (companyCategories r))
         \<and> SummarySubcategory s = int (length (subcategory r))
         \<and> SummaryRegion s = int (length (region r))
         \<and> SummaryDistrict s = int (length (district r))
         \<and> SummaryCity s = int (length (city r))))
   \<and> (keysDistinct r \<longrightarrow>
        length (companyCategories r) = card (fst ` set (companyCategories r)))
   \<and> (collectCompanyCategories companyID categoryIDs subcategoryIDs r = Some r' \<longrightarrow>
        companyID \<in> fst ` set (companyCategories r')
        \<and> fst ` set (companyCategories r') = insert companyID (fst ` set (companyCategories r))
        \<and> (distinct (map fst (companyCategories r))
              \<longrightarrow> distinct (map fst (companyCategories r'))))"
proof -
  have 1: "mu r = unlocked \<longrightarrow>
      (\<exists>s. GetSummary r = Some (s, r)
         \<and> SummaryCategory s = int (length (companyCategories r))
         \<and> SummarySubcategory s = int (length (subcategory r))
         \<and> SummaryRegion s = int (length (region r))
         \<and> SummaryDistrict s = int (length (district r))
         \<and> SummaryCity s = int (length (city r)))"
    by (simp add: GetSummary_def RLock_def RUnlock_def unlocked_def mu_same)
  have 2: "keysDistinct r \<longrightarrow>
        length (companyCategories r) = card (fst ` set (companyCategories r))"
  proof
    assume "keysDistinct r"
    then have "distinct (map fst (companyCategories r))" by (simp add: keysDistinct_def)
    from distinct_card [OF this] show
      "length (companyCategories r) = card (fst ` set (companyCategories r))" by simp
  qed
  have 3: "collectCompanyCategories companyID categoryIDs subcategoryIDs r = Some r' \<longrightarrow>
        companyID \<in> fst ` set (companyCategories r')
        \<and> fst ` set (companyCategories r') = insert companyID (fst ` set (companyCategories r))
        \<and> (distinct (map fst (companyCategories r))
              \<longrightarrow> distinct (map fst (companyCategories r')))"
    using collectCompanyCategories_keys [of companyID categoryIDs subcategoryIDs r r']
    by simp
  from 1 2 3 show ?thesis by blast
qed

theorem GetSummary_counts_witness:
  "mu freshRepository = unlocked \<and> keysDistinct freshRepository
   \<and> collectCompanyCategories 1 [] [] freshRepository
       = Some (freshRepository\<lparr>companyCategories :=
                 [(1, [(''category'', []), (''subcategory'', [])])]\<rparr>)
   \<and> mu (freshRepository\<lparr>companyCategories :=
               [(1, [(''category'', []), (''subcategory'', [])])]\<rparr>) = unlocked
   \<and> keysDistinct (freshRepository\<lparr>companyCategories :=
               [(1, [(''category'', []), (''subcategory'', [])])]\<rparr>)
   \<and> map_option (\<lambda>(s, r'). SummaryCategory s)
        (GetSummary (freshRepository\<lparr>companyCategories :=
               [(1, [(''category'', []), (''subcategory'', [])])]\<rparr>)) = Some 1
   \<and> card (fst ` set (companyCategories (freshRepository\<lparr>companyCategories :=
               [(1, [(''category'', []), (''subcategory'', [])])]\<rparr>))) = 1"
proof -
  let ?r' = "freshRepository\<lparr>companyCategories :=
               [(1, [(''category'', []), (''subcategory'', [])])]\<rparr>"
  have m: "mu freshRepository = unlocked \<and> mu ?r' = unlocked"
    by (simp add: freshRepository_def NewCompanyRepository_def)
  have k: "keysDistinct freshRepository \<and> keysDistinct ?r'"
    by (simp add: freshRepository_def NewCompanyRepository_def keysDistinct_def)
  have c: "collectCompanyCategories 1 [] [] freshRepository = Some ?r'"
    by (simp add: collectCompanyCategories_def Lock_def Unlock_def sliceAt_def uniqueInts_def
        freshRepository_def NewCompanyRepository_def unlocked_def)
  from GetSummary_counts [of ?r' 1 "[]" "[]" ?r'] m k
  obtain s where "GetSummary ?r' = Some (s, ?r')"
    and "SummaryCategory s = int (length (companyCategories ?r'))"
    and "length (companyCategories ?r') = card (fst ` set (companyCategories ?r'))"
    by blast
  then have g: "map_option (\<lambda>(s, r'). SummaryCategory s) (GetSummary ?r') = Some 1
      \<and> card (fst ` set (companyCategories ?r')) = 1"
    by simp
  from m k c g show ?thesis by simp
qed

text \<open>
  C8 as stated fails: after the import of one row without category, the summary counts
  one company under \<open>category\<close>, and no company has a category link.
\<close>

theorem summary_category_counts_empty_lists_counterexample:
  "map_option (\<lambda>(err, r). (err, map_option (\<lambda>(s, r'). SummaryCategory s) (GetSummary r),
       companiesWithCategoryLinks r, companyCategories r, linkTable (db r) ''company_category''))
     (Insert [plainRow] freshRepository)
   = Some (None, Some 1, 0, [(1, [(''category'', []), (''subcategory'', [])])], [])"
  by (simp add: repo_eval companiesWithCategoryLinks_def cong: bind_weak_cong)

text \<open>
  C9, as amended. No operation of the repository clears the link collectors: after
  \<open>Insert\<close>, whatever it returns, they hold every pair they held before, and
  \<open>GetSummary\<close> leaves them as they are. Every \<open>Insert\<close> that is given at least one
  record and returns without an error has sent, during that call, every pair the
  collectors then hold (so also every pair collected by earlier calls) to its link
  table: \<open>company_geo\<close>, \<open>company_category\<close> and \<open>company_subcategory\<close>.
\<close>

theorem collected_links_kept_and_reissued:
  "(Insert records r = Some (err, r') \<longrightarrow>
      geoPairs r \<subseteq> geoPairs r' \<and> categoryPairs fieldType r \<subseteq> categoryPairs fieldType r')
   \<and> (GetSummary r = Some (summary, r') \<longrightarrow>
      geoPairs r' = geoPairs r \<and> categoryPairs fieldType r' = categoryPairs fieldType r)
   \<and> (Insert records r = Some (None, r') \<and> records \<noteq> [] \<longrightarrow>
      geoPairs r' \<subseteq> issuedDuring ''company_geo'' r r'
      \<and> categoryPairs ''category'' r' \<subseteq> issuedDuring ''company_category'' r r'
      \<and> categoryPairs ''subcategory'' r' \<subseteq> issuedDuring ''company_subcategory'' r r')"
proof -
  have 1: "Insert records r = Some (err, r') \<longrightarrow>
      geoPairs r \<subseteq> geoPairs r' \<and> categoryPairs fieldType r \<subseteq> categoryPairs fieldType r'"
    using Insert_grows [of records r err r'] by (simp add: grows_def)
  have 2: "GetSummary r = Some (summary, r') \<longrightarrow>
      geoPairs r' = geoPairs r \<and> categoryPairs fieldType r' = categoryPairs fieldType r"
    using GetSummary_calm [of r summary r' r] by (simp add: calm_geoPairs calm_categoryPairs)
  have 3: "Insert records r = Some (None, r') \<and> records \<noteq> [] \<longrightarrow>
      geoPairs r' \<subseteq> issuedDuring ''company_geo'' r r'
      \<and> categoryPairs ''category'' r' \<subseteq> issuedDuring ''company_category'' r r'
      \<and> categoryPairs ''subcategory'' r' \<subseteq> issuedDuring ''company_subcategory'' r r'"
    using Insert_reissued [of records r r'] by (simp add: reissued_def)
  from 1 2 3 show ?thesis by blast
qed

theorem collected_links_kept_and_reissued_witness:
  "Insert [baselineRow] freshRepository = Some (None, baselineLoaded)
   \<and> [plainRow] \<noteq> []
   \<and> map_option (\<lambda>(err, r'). (err, geoPairs baselineLoaded, geoPairs r',
          issuedDuring ''company_geo'' baselineLoaded r',
          categoryPairs ''category'' baselineLoaded, categoryPairs ''category'' r',
          issuedDuring ''company_category'' baselineLoaded r',
          categoryPairs ''subcategory'' baselineLoaded, categoryPairs ''subcategory'' r',
          issuedDuring ''company_subcategory'' baselineLoaded r'))
       (Insert [plainRow] baselineLoaded)
     = Some (None, {(1, 1)}, {(1, 1), (2, 2)}, {(1, 1), (2, 2)},
             {(1, 1), (1, 2)}, {(1, 1), (1, 2)}, {(1, 1), (1, 2)},
             {(1, 1)}, {(1, 1)}, {(1, 1)})
   \<and> map_option (\<lambda>(err, r'). geoPairs baselineLoaded \<subseteq> geoPairs r'
          \<and> categoryPairs ''category'' baselineLoaded \<subseteq> categoryPairs ''category'' r'
          \<and> geoPairs r' \<subseteq> issuedDuring ''company_geo'' baselineLoaded r'
          \<and> categoryPairs ''category'' r' \<subseteq> issuedDuring ''company_category'' baselineLoaded r'
          \<and> categoryPairs ''subcategory'' r'
               \<subseteq> issuedDuring ''company_subcategory'' baselineLoaded r')
       (Insert [plainRow] baselineLoaded)
     = Some True
   \<and> map_option (\<lambda>(summary, r'). (geoPairs r' = geoPairs baselineLoaded,
          categoryPairs ''category'' r' = categoryPairs ''category'' baselineLoaded))
       (GetSummary baselineLoaded)
     = Some (True, True)"
proof -
  have a: "map_option (\<lambda>(err, r'). (err, geoPairs baselineLoaded, geoPairs r',
          issuedDuring ''company_geo'' baselineLoaded r',
          categoryPairs ''category'' baselineLoaded, categoryPairs ''category'' r',
          issuedDuring ''company_category'' baselineLoaded r',
          categoryPairs ''subcategory'' baselineLoaded, categoryPairs ''subcategory'' r',
          issuedDuring ''company_subcategory'' baselineLoaded r'))
       (Insert [plainRow] baselineLoaded)
     = Some (None, {(1, 1)}, {(1, 1), (2, 2)}, {(1, 1), (2, 2)},
             {(1, 1), (1, 2)}, {(1, 1), (1, 2)}, {(1, 1), (1, 2)},
             {(1, 1)}, {(1, 1)}, {(1, 1)})"
    apply (simp add: repo_eval message_eval state_eval insert_commute cong: bind_weak_cong)
    apply auto
    done
  then obtain r' where i: "Insert [plainRow] baselineLoaded = Some (None, r')"
    by (cases "Insert [plainRow] baselineLoaded") auto
  have ne: "[plainRow] \<noteq> []" by simp
  have "\<exists>summary r''. GetSummary baselineLoaded = Some (summary, r'')"
    by (simp add: GetSummary_def RLock_def RUnlock_def baselineLoaded_def unlocked_def)
  then obtain summary r'' where g: "GetSummary baselineLoaded = Some (summary, r'')"
    by blast
  from collected_links_kept_and_reissued
      [of "[plainRow]" baselineLoaded None r' "''category''"] i ne
  have b: "geoPairs baselineLoaded \<subseteq> geoPairs r'
      \<and> categoryPairs ''category'' baselineLoaded \<subseteq> categoryPairs ''category'' r'
      \<and> geoPairs r' \<subseteq> issuedDuring ''company_geo'' baselineLoaded r'
      \<and> categoryPairs ''category'' r' \<subseteq> issuedDuring ''company_category'' baselineLoaded r'
      \<and> categoryPairs ''subcategory'' r'
           \<subseteq> issuedDuring ''company_subcategory'' baselineLoaded r'"
    by blast
  from collected_links_kept_and_reissued
      [of _ baselineLoaded _ r'' "''category''" summary] g
  have c: "geoPairs r'' = geoPairs baselineLoaded
      \<and> categoryPairs ''category'' r'' = categoryPairs ''category'' baselineLoaded"
    by blast
  from a b c i g ne baselineLoaded_reached show ?thesis by simp
qed

text \<open>
  C9 as stated fails: not every later \<open>Insert\<close> sends the collected pairs again. The
  repository holds the links of the baseline row. \<open>Insert\<close> with no record returns at
  once, and \<open>Insert\<close> of one more row whose \<open>Begin\<close> fails returns the error; in both
  calls the collectors keep the pair and no link is sent to any table.
\<close>

theorem later_Insert_sends_no_link_counterexample:
  "Insert [baselineRow] freshRepository = Some (None, baselineLoaded)
   \<and> geoPairs baselineLoaded = {(1, 1)}
   \<and> Insert [] baselineLoaded = Some (None, baselineLoaded)
   \<and> issuedDuring ''company_geo'' baselineLoaded baselineLoaded = {}
   \<and> map_option (\<lambda>(err, r'). (err = None, geoPairs r',
          issuedDuring ''company_geo'' baselineLoaded r',
          issuedDuring ''company_category'' baselineLoaded r',
          issuedDuring ''company_subcategory'' baselineLoaded r'))
       (Insert [plainRow]
          (baselineLoaded\<lparr>faults :=
             [Fail ''dial tcp 10.0.0.5:3306: connect: connection refused'']\<rparr>))
     = Some (False, {(1, 1)}, {}, {}, {})"
proof -
  have 1: "geoPairs baselineLoaded = {(1, 1)}
      \<and> Insert [] baselineLoaded = Some (None, baselineLoaded)
      \<and> issuedDuring ''company_geo'' baselineLoaded baselineLoaded = {}"
    by (simp add: Insert_def state_eval flattenGeos_def)
  have 2: "map_option (\<lambda>(err, r'). (err = None, geoPairs r',
          issuedDuring ''company_geo'' baselineLoaded r',
          issuedDuring ''company_category'' baselineLoaded r',
          issuedDuring ''company_subcategory'' baselineLoaded r'))
       (Insert [plainRow]
          (baselineLoaded\<lparr>faults :=
             [Fail ''dial tcp 10.0.0.5:3306: connect: connection refused'']\<rparr>))
     = Some (False, {(1, 1)}, {}, {}, {})"
    by (simp add: repo_eval message_eval state_eval cong: bind_weak_cong)
  from 1 2 baselineLoaded_reached show ?thesis by simp
qed

end
